theory Spec2Isabelle
  imports Main "HOL-Library.AList"
begin

section \<open>JavaScript values\<close>

text \<open>
  The adapters are written against \<open>any\<close>: they test values for truthiness, read
  properties that may be missing and fall back with \<open>??\<close>. The model keeps that
  dynamic typing. An object is an association list read by its first binding of a key;
  a missing property reads as \<open>undefined\<close>. Numbers are the integers (token counts and
  millisecond timestamps).
\<close>

datatype jsval =
    JUndefined
  | JNull
  | JBool bool
  | JNum int
  | JStr string
  | JArr "jsval list"
  | JObj "(string \<times> jsval) list"

type_synonym obj = "(string \<times> jsval) list"

text \<open>\<open>if (v)\<close>: the falsy values are undefined, null, false, 0 and the empty string.\<close>

fun truthy :: "jsval \<Rightarrow> bool" where
  "truthy JUndefined = False"
| "truthy JNull = False"
| "truthy (JBool b) = b"
| "truthy (JNum n) = (n \<noteq> 0)"
| "truthy (JStr s) = (s \<noteq> [])"
| "truthy (JArr xs) = True"
| "truthy (JObj ps) = True"

text \<open>\<open>v == null\<close>, the test behind \<open>??\<close>, \<open>?.\<close> and \<open>!= null\<close>.\<close>

fun nullish :: "jsval \<Rightarrow> bool" where
  "nullish JUndefined = True"
| "nullish JNull = True"
| "nullish v = False"

text \<open>\<open>a ?? b\<close>\<close>

definition nc :: "jsval \<Rightarrow> jsval \<Rightarrow> jsval" where
  "nc a b = (if nullish a then b else a)"

text \<open>\<open>o.k\<close> for an object \<open>o\<close>.\<close>

definition field :: "obj \<Rightarrow> string \<Rightarrow> jsval" where
  "field ob k = (case map_of ob k of Some v \<Rightarrow> v | None \<Rightarrow> JUndefined)"

text \<open>
  \<open>v.k\<close> for a value that is not null or undefined (every call site tests the value for
  truthiness first; on null and undefined JavaScript raises a TypeError). Only objects
  carry the properties the adapters read.
\<close>

fun member :: "jsval \<Rightarrow> string \<Rightarrow> jsval" where
  "member (JObj ps) k = field ps k"
| "member v k = JUndefined"

text \<open>\<open>v?.k\<close>\<close>

definition opt :: "jsval \<Rightarrow> string \<Rightarrow> jsval" where
  "opt v k = (if nullish v then JUndefined else member v k)"

text \<open>The own enumerable keys of an object, and \<open>{...target, ...source}\<close>.\<close>

definition keys :: "obj \<Rightarrow> string list" where
  "keys ob = remdups (map fst ob)"

definition spread :: "obj \<Rightarrow> obj \<Rightarrow> obj" where
  "spread target source =
     fold (\<lambda>k acc. AList.update k (field source k) acc) (keys source) target"

text \<open>
  What \<open>{...v}\<close> copies from an arbitrary value: the properties of an object; nothing
  from undefined, null, booleans and numbers; the indexed elements of an array or of a
  string.
\<close>

fun decimal :: "nat \<Rightarrow> string" where
  "decimal n =
     (if n < 10 then [''0123456789'' ! n]
      else decimal (n div 10) @ [''0123456789'' ! (n mod 10)])"

definition indexed :: "jsval list \<Rightarrow> obj" where
  "indexed xs = map (\<lambda>i. (decimal i, xs ! i)) [0..<length xs]"

fun own_props :: "jsval \<Rightarrow> obj" where
  "own_props (JObj ps) = ps"
| "own_props (JArr xs) = indexed xs"
| "own_props (JStr s) = indexed (map (\<lambda>c. JStr [c]) s)"
| "own_props v = []"

section \<open>Errors\<close>

text \<open>
  A thrown value. The adapters look at one thing only, \<open>err?.constructor?.name\<close>, which
  is the name of the error's class, or undefined when the chain stops early
  (\<open>throw null\<close>, an object without prototype). \<open>detail\<close> stands for the rest of
  the value, so that two errors of one class stay distinguishable.
\<close>

record jserror =
  constructor_name :: jsval
  detail :: jsval

section \<open>The process: config, network, clock, runs\<close>

text \<open>One call of \<open>fetch\<close>: the URL \<open>`${host}${path}`\<close>, the \<open>x-api-key\<close> header and the
  payload handed to \<open>JSON.stringify\<close>.\<close>

record request =
  host :: jsval
  path :: string
  api_key :: jsval
  body :: jsval

datatype fetch_outcome = Responds int | Rejects jserror

text \<open>\<open>class AgentRun\<close>\<close>

record AgentRun =
  runId :: jsval
  runName :: jsval
  featureTag :: jsval
  endUserId :: jsval
  stepCounter :: int

text \<open>
  \<open>config\<close> is the module variable of index.ts. \<open>fetches\<close> lists the calls of
  \<open>fetch\<close> so far, oldest first, and \<open>net n\<close> is how the \<open>n\<close>-th of them ends: a
  response with a status, or a rejection (network failure, the 2 second timeout).
  \<open>clock\<close> gives the successive readings of \<open>Date.now()\<close>. \<open>heap\<close> holds the
  \<open>AgentRun\<close> objects by address, \<open>forwarded\<close> the arguments the wrapped provider
  client was called with (one argument list per call), and \<open>console\<close> the payloads
  logged under \<open>debug\<close>.
\<close>

record world =
  config :: obj
  fetches :: "request list"
  net :: "nat \<Rightarrow> fetch_outcome"
  console :: "jsval list"
  clock :: "nat \<Rightarrow> int"
  ticks :: nat
  heap :: "nat \<Rightarrow> AgentRun"
  forwarded :: "jsval list list"

text \<open>
  The two \<open>AsyncLocalStorage\<close> slots as seen by the running code:
  \<open>featureTagStorage.getStore()\<close> (undefined outside every scope) and
  \<open>runStorage.getStore()\<close>.
\<close>

record ctx =
  currentTag :: jsval
  activeRun :: "nat option"

definition Date_now :: "world \<Rightarrow> int \<times> world" where
  "Date_now w = (clock w (ticks w), w\<lparr>ticks := Suc (ticks w)\<rparr>)"

definition fetch :: "request \<Rightarrow> world \<Rightarrow> (jserror + int) \<times> world" where
  "fetch req w =
     ((case net w (length (fetches w)) of Responds status \<Rightarrow> Inr status | Rejects e \<Rightarrow> Inl e),
      w\<lparr>fetches := fetches w @ [req]\<rparr>)"

section \<open>Config store (index.ts)\<close>

definition default_config :: obj where
  "default_config =
     [(''trackerApiKey'', JStr ''''),
      (''projectId'', JStr ''''),
      (''environment'', JStr ''production''),
      (''host'', JStr ''https://api.agentracer.dev''),
      (''debug'', JBool False),
      (''enabled'', JBool True)]"

text \<open>\<open>config = { ...config, ...options }\<close>\<close>

definition init :: "obj \<Rightarrow> world \<Rightarrow> world" where
  "init options w = w\<lparr>config := spread (config w) options\<rparr>"

definition getConfig :: "world \<Rightarrow> obj" where
  "getConfig w = config w"

section \<open>Telemetry emitter (index.ts)\<close>

text \<open>
  \<open>sendTelemetry\<close> returns a promise; \<open>Inr ()\<close> is that promise fulfilled, \<open>Inl e\<close>
  would be a rejection. The \<open>try\<close> block holds the debug log and the awaited
  \<open>fetch\<close>; the \<open>catch\<close> block is empty; the response is never looked at.
\<close>

definition sendTelemetry :: "obj \<Rightarrow> world \<Rightarrow> (jserror + unit) \<times> world" where
  "sendTelemetry payload w =
     (if \<not> truthy (field (config w) ''enabled'') then (Inr (), w)
      else
        let w1 = (if truthy (field (config w) ''debug'')
                  then w\<lparr>console := console w @ [JObj payload]\<rparr> else w);
            (response, w2) =
               fetch \<lparr>host = field (config w1) ''host'', path = ''/api/ingest'',
                      api_key = field (config w1) ''trackerApiKey'', body = JObj payload\<rparr> w1
        in (case response of Inl e \<Rightarrow> (Inr (), w2) | Inr status \<Rightarrow> (Inr (), w2)))"

text \<open>\<open>sendRunApi(path, payload)\<close>: the same for the run signals, without the debug log.\<close>

definition sendRunApi :: "string \<Rightarrow> obj \<Rightarrow> world \<Rightarrow> (jserror + unit) \<times> world" where
  "sendRunApi p payload w =
     (if \<not> truthy (field (config w) ''enabled'') then (Inr (), w)
      else
        let (response, w1) =
               fetch \<lparr>host = field (config w) ''host'', path = p,
                      api_key = field (config w) ''trackerApiKey'', body = JObj payload\<rparr> w
        in (case response of Inl e \<Rightarrow> (Inr (), w1) | Inr status \<Rightarrow> (Inr (), w1)))"

text \<open>
  \<open>featureTagStorage.run(tag, fn)\<close> and \<open>runStorage.run(run, fn)\<close>: \<open>fn\<close> runs with
  the slot set, and the caller's own slots are untouched.
\<close>

definition featureTagStorage_run :: "jsval \<Rightarrow> (ctx \<Rightarrow> 'b) \<Rightarrow> ctx \<Rightarrow> 'b" where
  "featureTagStorage_run tag fn c = fn (c\<lparr>currentTag := tag\<rparr>)"

definition runStorage_run :: "nat \<Rightarrow> (ctx \<Rightarrow> 'b) \<Rightarrow> ctx \<Rightarrow> 'b" where
  "runStorage_run run fn c = fn (c\<lparr>activeRun := Some run\<rparr>)"

text \<open>\<open>observe(fn, { featureTag })\<close>\<close>

definition observe :: "(ctx \<Rightarrow> 'b) \<Rightarrow> jsval \<Rightarrow> ctx \<Rightarrow> 'b" where
  "observe fn tag = featureTagStorage_run tag fn"

text \<open>\<open>_nextStep()\<close>: \<open>return ++this.stepCounter\<close>\<close>

definition nextStep :: "nat \<Rightarrow> world \<Rightarrow> int \<times> world" where
  "nextStep this w =
     (stepCounter (heap w this) + 1,
      w\<lparr>heap := (heap w)(this := (heap w this)\<lparr>stepCounter := stepCounter (heap w this) + 1\<rparr>)\<rparr>)"

text \<open>The payload object \<open>track\<close> builds, with the four conditional assignments.\<close>

definition ingest_payload :: "obj \<Rightarrow> jsval \<Rightarrow> jsval \<Rightarrow> jsval \<Rightarrow> obj \<Rightarrow> obj" where
  "ingest_payload options tag run_id step_index cfg =
     (let payload =
            [(''project_id'', field cfg ''projectId''),
             (''provider'', nc (field options ''provider'') (JStr ''custom'')),
             (''model'', field options ''model''),
             (''feature_tag'', nc (nc (field options ''featureTag'') tag) (JStr ''unknown'')),
             (''input_tokens'', field options ''inputTokens''),
             (''output_tokens'', field options ''outputTokens''),
             (''cached_tokens'', nc (field options ''cachedTokens'') (JNum 0)),
             (''latency_ms'', field options ''latencyMs''),
             (''success'', nc (field options ''success'') (JBool True)),
             (''environment'', nc (field options ''environment'') (field cfg ''environment''))];
          payload = (if \<not> nullish (field options ''errorType'')
                     then AList.update ''error_type'' (field options ''errorType'') payload
                     else payload);
          payload = (if \<not> nullish (field options ''endUserId'')
                     then AList.update ''end_user_id'' (field options ''endUserId'') payload
                     else payload);
          payload = (if \<not> nullish run_id
                     then AList.update ''run_id'' run_id payload else payload);
          payload = (if \<not> nullish step_index
                     then AList.update ''step_index'' step_index payload else payload)
      in payload)"

definition step_payload :: "obj \<Rightarrow> jsval \<Rightarrow> jsval \<Rightarrow> obj \<Rightarrow> obj" where
  "step_payload options run_id step_index cfg =
     [(''project_id'', field cfg ''projectId''),
      (''run_id'', run_id),
      (''step_index'', step_index),
      (''step_type'', JStr ''llm_call''),
      (''model'', field options ''model''),
      (''provider'', nc (field options ''provider'') (JStr ''custom'')),
      (''input_tokens'', field options ''inputTokens''),
      (''output_tokens'', field options ''outputTokens''),
      (''cached_tokens'', nc (field options ''cachedTokens'') (JNum 0)),
      (''cost_usd'', JNum 0),
      (''latency_ms'', field options ''latencyMs''),
      (''success'', nc (field options ''success'') (JBool True)),
      (''error_type'', nc (field options ''errorType'') JNull)]"

text \<open>
  \<open>track(options)\<close>. With an active run and no \<open>runId\<close> of its own, the call takes the
  run's id and next step and sends the step signal first; the ingest payload follows.
\<close>

definition track :: "obj \<Rightarrow> ctx \<Rightarrow> world \<Rightarrow> (jserror + unit) \<times> world" where
  "track options c w =
     (let (run_id, step_index, w1) =
            (case activeRun c of
               Some a \<Rightarrow>
                 if nullish (field options ''runId'') then
                   let (n, wa) = nextStep a w;
                       (sent, wb) =
                          sendRunApi ''/api/runs/step''
                            (step_payload options (runId (heap wa a)) (JNum n) (config wa)) wa
                   in (runId (heap wa a), JNum n, wb)
                 else (field options ''runId'', field options ''stepIndex'', w)
             | None \<Rightarrow> (field options ''runId'', field options ''stepIndex'', w))
      in sendTelemetry
           (ingest_payload options (currentTag c) run_id step_index (config w1)) w1)"

section \<open>Run tracker (class AgentRun)\<close>

text \<open>The constructor; \<open>uuid\<close> is what \<open>randomUUID()\<close> returns.\<close>

definition new_AgentRun :: "obj \<Rightarrow> jsval \<Rightarrow> AgentRun" where
  "new_AgentRun options uuid =
     \<lparr>runId = nc (field options ''runId'') uuid,
      runName = field options ''runName'',
      featureTag = nc (field options ''featureTag'') (JStr ''unknown''),
      endUserId = field options ''endUserId'',
      stepCounter = 0\<rparr>"

text \<open>\<open>err?.constructor?.name ?? "Error"\<close>\<close>

definition error_type_of :: "jserror \<Rightarrow> jsval" where
  "error_type_of err = nc (constructor_name err) (JStr ''Error'')"

definition run_start_payload :: "AgentRun \<Rightarrow> obj \<Rightarrow> obj" where
  "run_start_payload r cfg =
     [(''project_id'', field cfg ''projectId''),
      (''run_id'', runId r),
      (''run_name'', runName r),
      (''feature_tag'', featureTag r),
      (''end_user_id'', endUserId r)]"

text \<open>
  \<open>execute(fn)\<close>. The body is any asynchronous function: it sees the ambient slots and
  the process, and ends with a value (\<open>Inr\<close>) or by raising (\<open>Inl\<close>).
\<close>

definition execute ::
  "nat \<Rightarrow> (ctx \<Rightarrow> world \<Rightarrow> (jserror + 'a) \<times> world) \<Rightarrow> ctx \<Rightarrow> world \<Rightarrow> (jserror + 'a) \<times> world" where
  "execute this fn c w =
     (let (started, w1) =
            sendRunApi ''/api/runs/start'' (run_start_payload (heap w this) (config w)) w;
          (result, w2) =
            runStorage_run this
              (\<lambda>c'. featureTagStorage_run (featureTag (heap w1 this)) fn c') c w1
      in (case result of
            Inr v \<Rightarrow>
              let (ended, w3) =
                    sendRunApi ''/api/runs/end''
                      [(''project_id'', field (config w2) ''projectId''),
                       (''run_id'', runId (heap w2 this)),
                       (''status'', JStr ''completed'')] w2
              in (Inr v, w3)
          | Inl err \<Rightarrow>
              let (ended, w3) =
                    sendRunApi ''/api/runs/end''
                      [(''project_id'', field (config w2) ''projectId''),
                       (''run_id'', runId (heap w2 this)),
                       (''status'', JStr ''failed''),
                       (''error_type'', error_type_of err)] w2
              in (Inl err, w3)))"

section \<open>Streaming usage accumulators\<close>

text \<open>
  The three wrappers are async generators of one shape: two counters starting at 0, a
  \<open>for await\<close> loop that looks at each event and yields it, and one telemetry call
  after the loop. \<open>wrapAnthropicStream\<close> exists twice: in src/anthropic.ts it ends with
  \<open>sendTelemetry\<close>, in the version beside \<open>createAnthropicProxy\<close> with \<open>track\<close>.
\<close>

datatype wrapper =
    OpenAIStream
  | AnthropicStream
  | AnthropicStreamTrack
  | GeminiStream

text \<open>
  A generator object: the events its source has not delivered yet, how the source ends
  after them (\<open>None\<close>: it is exhausted; \<open>Some e\<close>: its next read rejects with \<open>e\<close>),
  the arguments the wrapper was called with, the two counters, and whether the generator
  has completed.
\<close>

record generator =
  wrapper :: wrapper
  pending :: "obj list"
  ending :: "jserror option"
  gen_model :: jsval
  gen_featureTag :: jsval
  gen_start :: int
  inputTokens :: jsval
  outputTokens :: jsval
  completed :: bool

definition new_generator ::
  "wrapper \<Rightarrow> obj list \<times> jserror option \<Rightarrow> jsval \<Rightarrow> jsval \<Rightarrow> int \<Rightarrow> generator" where
  "new_generator k stream m tag start =
     \<lparr>wrapper = k, pending = fst stream, ending = snd stream, gen_model = m,
      gen_featureTag = tag, gen_start = start,
      inputTokens = JNum 0, outputTokens = JNum 0, completed = False\<rparr>"

definition wrapOpenAIStream :: "obj list \<times> jserror option \<Rightarrow> jsval \<Rightarrow> jsval \<Rightarrow> int \<Rightarrow> generator" where
  "wrapOpenAIStream = new_generator OpenAIStream"

definition wrapAnthropicStream :: "obj list \<times> jserror option \<Rightarrow> jsval \<Rightarrow> jsval \<Rightarrow> int \<Rightarrow> generator" where
  "wrapAnthropicStream = new_generator AnthropicStream"

definition wrapAnthropicStream_track :: "obj list \<times> jserror option \<Rightarrow> jsval \<Rightarrow> jsval \<Rightarrow> int \<Rightarrow> generator" where
  "wrapAnthropicStream_track = new_generator AnthropicStreamTrack"

definition wrapGeminiStream :: "obj list \<times> jserror option \<Rightarrow> jsval \<Rightarrow> jsval \<Rightarrow> int \<Rightarrow> generator" where
  "wrapGeminiStream = new_generator GeminiStream"

text \<open>The loop bodies, up to the \<open>yield\<close>.\<close>

definition openai_chunk :: "obj \<Rightarrow> generator \<Rightarrow> generator" where
  "openai_chunk chunk g =
     (if truthy (field chunk ''usage'')
      then g\<lparr>inputTokens := nc (member (field chunk ''usage'') ''prompt_tokens'') (JNum 0),
             outputTokens := nc (member (field chunk ''usage'') ''completion_tokens'') (JNum 0)\<rparr>
      else g)"

definition anthropic_event :: "obj \<Rightarrow> generator \<Rightarrow> generator" where
  "anthropic_event event g =
     (let g1 = (if field event ''type'' = JStr ''message_start''
                   \<and> truthy (opt (field event ''message'') ''usage'')
                then g\<lparr>inputTokens :=
                         nc (member (member (field event ''message'') ''usage'') ''input_tokens'')
                            (JNum 0)\<rparr>
                else g)
      in (if field event ''type'' = JStr ''message_delta'' \<and> truthy (field event ''usage'')
          then g1\<lparr>outputTokens := nc (member (field event ''usage'') ''output_tokens'') (JNum 0)\<rparr>
          else g1))"

definition gemini_chunk :: "obj \<Rightarrow> generator \<Rightarrow> generator" where
  "gemini_chunk chunk g =
     (let usage = field chunk ''usageMetadata''
      in if truthy usage
         then g\<lparr>inputTokens := nc (member usage ''promptTokenCount'') (JNum 0),
                outputTokens := nc (member usage ''candidatesTokenCount'') (JNum 0)\<rparr>
         else g)"

definition loop_body :: "obj \<Rightarrow> generator \<Rightarrow> generator" where
  "loop_body x g =
     (case wrapper g of
        OpenAIStream \<Rightarrow> openai_chunk x g
      | AnthropicStream \<Rightarrow> anthropic_event x g
      | AnthropicStreamTrack \<Rightarrow> anthropic_event x g
      | GeminiStream \<Rightarrow> gemini_chunk x g)"

text \<open>The statement after the loop: \<open>track({...}).catch(() => {})\<close>, or
  \<open>sendTelemetry({...}).catch(() => {})\<close> in src/anthropic.ts.\<close>

definition stream_options :: "generator \<Rightarrow> string \<Rightarrow> int \<Rightarrow> obj" where
  "stream_options g provider now =
     [(''model'', gen_model g),
      (''inputTokens'', inputTokens g),
      (''outputTokens'', outputTokens g),
      (''latencyMs'', JNum (now - gen_start g)),
      (''featureTag'', gen_featureTag g),
      (''provider'', JStr provider)]"

definition direct_payload :: "generator \<Rightarrow> string \<Rightarrow> int \<Rightarrow> obj \<Rightarrow> obj" where
  "direct_payload g provider now cfg =
     [(''project_id'', field cfg ''projectId''),
      (''provider'', JStr provider),
      (''model'', gen_model g),
      (''feature_tag'', gen_featureTag g),
      (''input_tokens'', inputTokens g),
      (''output_tokens'', outputTokens g),
      (''latency_ms'', JNum (now - gen_start g)),
      (''environment'', field cfg ''environment'')]"

definition after_loop :: "generator \<Rightarrow> ctx \<Rightarrow> world \<Rightarrow> world" where
  "after_loop g c w =
     (let (now, w1) = Date_now w
      in case wrapper g of
           OpenAIStream \<Rightarrow> snd (track (stream_options g ''openai'' now) c w1)
         | AnthropicStreamTrack \<Rightarrow> snd (track (stream_options g ''anthropic'' now) c w1)
         | GeminiStream \<Rightarrow> snd (track (stream_options g ''gemini'' now) c w1)
         | AnthropicStream \<Rightarrow>
             snd (sendTelemetry (direct_payload g ''anthropic'' now (getConfig w1)) w1))"

text \<open>
  What a consumer can do with the generator. \<open>next()\<close> resumes the body: it reads the
  source; an event goes through the loop body and is yielded; the end of the source lets
  the loop finish, the statement after it runs and the generator returns; a rejected
  read leaves the generator by that exception, past the statement after the loop.
  \<open>return()\<close> is what \<open>break\<close> in the consumer's \<open>for await\<close> calls: the generator
  completes where it is suspended, and there is no \<open>finally\<close> block to run.
\<close>

datatype pull = Yield obj | Return | Throw jserror

definition gen_next :: "generator \<Rightarrow> ctx \<Rightarrow> world \<Rightarrow> pull \<times> generator \<times> world" where
  "gen_next g c w =
     (if completed g then (Return, g, w)
      else case pending g of
             x # xs \<Rightarrow> (Yield x, loop_body x (g\<lparr>pending := xs\<rparr>), w)
           | [] \<Rightarrow> (case ending g of
                      None \<Rightarrow> (Return, g\<lparr>completed := True\<rparr>, after_loop g c w)
                    | Some e \<Rightarrow> (Throw e, g\<lparr>completed := True\<rparr>, w)))"

definition gen_return :: "generator \<Rightarrow> ctx \<Rightarrow> world \<Rightarrow> pull \<times> generator \<times> world" where
  "gen_return g c w = (Return, g\<lparr>completed := True\<rparr>, w)"

text \<open>
  The consumer of the tests, \<open>for await (const x of stream) received.push(x)\<close>: it
  calls \<open>next()\<close> until the generator returns or throws, and keeps what it received.
\<close>

function for_await ::
  "generator \<Rightarrow> ctx \<Rightarrow> world \<Rightarrow> (obj list \<times> jserror option) \<times> generator \<times> world" where
  "for_await g c w =
     (case gen_next g c w of
        (Yield x, g', w') \<Rightarrow>
          (let ((xs, e), g'', w'') = for_await g' c w' in ((x # xs, e), g'', w''))
      | (Return, g', w') \<Rightarrow> (([], None), g', w')
      | (Throw e, g', w') \<Rightarrow> (([], Some e), g', w'))"
  by pat_completeness auto

termination for_await
  apply (relation "measure (\<lambda>(g, c, w). length (pending g))")
   apply simp
  apply (auto simp: gen_next_def loop_body_def openai_chunk_def anthropic_event_def
      gemini_chunk_def Let_def split: if_splits list.splits option.splits wrapper.splits)
  done

declare for_await.simps [simp del]

text \<open>A consumer that leaves its loop with \<open>break\<close> after \<open>n\<close> events.\<close>

fun for_await_break ::
  "nat \<Rightarrow> generator \<Rightarrow> ctx \<Rightarrow> world \<Rightarrow> (obj list \<times> jserror option) \<times> generator \<times> world" where
  "for_await_break 0 g c w = (([], None), snd (gen_return g c w))"
| "for_await_break (Suc n) g c w =
     (case gen_next g c w of
        (Yield x, g', w') \<Rightarrow>
          (let ((xs, e), g'', w'') = for_await_break n g' c w' in ((x # xs, e), g'', w''))
      | (Return, g', w') \<Rightarrow> (([], None), g', w')
      | (Throw e, g', w') \<Rightarrow> (([], Some e), g', w'))"

section \<open>Provider adapters\<close>

text \<open>
  The wrapped client is a black box: called with an argument list, it raises or resolves,
  with a response object or with a stream of events. The adapter records nothing of its
  own; \<open>forwarded\<close> is what the mock's \<open>mock.calls\<close> is in the tests.
\<close>

datatype resolved = Response obj | Stream "obj list" "jserror option"

type_synonym client = "jsval list \<Rightarrow> jserror + resolved"

definition call :: "client \<Rightarrow> jsval list \<Rightarrow> world \<Rightarrow> (jserror + resolved) \<times> world" where
  "call cl args w = (cl args, w\<lparr>forwarded := forwarded w @ [args]\<rparr>)"

text \<open>\<open>response.k\<close>; a stream object has none of the usage properties.\<close>

fun response_field :: "resolved \<Rightarrow> string \<Rightarrow> jsval" where
  "response_field (Response r) k = field r k"
| "response_field (Stream xs e) k = JUndefined"

text \<open>\<open>for await (... of stream)\<close> on what the client resolved with: a response object is
  not iterable, and the first read raises a TypeError.\<close>

fun iterate :: "resolved \<Rightarrow> obj list \<times> jserror option" where
  "iterate (Stream xs e) = (xs, e)"
| "iterate (Response r) = ([], Some \<lparr>constructor_name = JStr ''TypeError'', detail = JObj r\<rparr>)"

text \<open>What an adapter call gives back: what the client resolved with, untouched, or a
  generator in place of the client's stream.\<close>

datatype returned = Passed resolved | Wrapped generator

definition failure_options :: "jsval \<Rightarrow> int \<Rightarrow> jsval \<Rightarrow> string \<Rightarrow> jserror \<Rightarrow> obj" where
  "failure_options m latency tag provider err =
     [(''model'', m),
      (''inputTokens'', JNum 0),
      (''outputTokens'', JNum 0),
      (''latencyMs'', JNum latency),
      (''featureTag'', tag),
      (''provider'', JStr provider),
      (''success'', JBool False),
      (''errorType'', error_type_of err)]"

subsection \<open>OpenAI: \<open>createOpenAIProxy(clientGetter).chat.completions.create\<close>\<close>

definition openai_create ::
  "client \<Rightarrow> obj \<Rightarrow> ctx \<Rightarrow> world \<Rightarrow> (jserror + returned) \<times> world" where
  "openai_create cl params c w =
     (let tag = nc (nc (field params ''feature_tag'') (currentTag c)) (JStr ''unknown'');
          cleanParams = AList.delete ''feature_tag'' params;
          (start, w1) = Date_now w
      in if truthy (field cleanParams ''stream'') then
           let cleanParams =
                 AList.update ''stream_options''
                   (JObj (AList.update ''include_usage'' (JBool True)
                            (spread [] (own_props (field cleanParams ''stream_options'')))))
                   cleanParams;
               (r, w2) = call cl [JObj cleanParams] w1
           in (case r of
                 Inl err \<Rightarrow> (Inl err, w2)
               | Inr stream \<Rightarrow>
                   (Inr (Wrapped (wrapOpenAIStream (iterate stream) (field params ''model'') tag start)),
                    w2))
         else
           let (r, w2) = call cl [JObj cleanParams] w1
           in (case r of
                 Inl err \<Rightarrow>
                   let (now, w3) = Date_now w2;
                       (sent, w4) =
                          track (failure_options (field params ''model'') (now - start) tag
                                   ''openai'' err) c w3
                   in (Inl err, w4)
               | Inr response \<Rightarrow>
                   let usage = response_field response ''usage'';
                       input = nc (opt usage ''prompt_tokens'') (JNum 0);
                       output = nc (opt usage ''completion_tokens'') (JNum 0);
                       cached = nc (opt (opt usage ''prompt_tokens_details'') ''cached_tokens'')
                                  (JNum 0);
                       (now, w3) = Date_now w2;
                       (sent, w4) =
                          track [(''model'', field params ''model''),
                                 (''inputTokens'', input),
                                 (''outputTokens'', output),
                                 (''cachedTokens'', cached),
                                 (''latencyMs'', JNum (now - start)),
                                 (''featureTag'', tag),
                                 (''provider'', JStr ''openai'')] c w3
                   in (Inr (Passed response), w4)))"

subsection \<open>Anthropic: \<open>createAnthropicProxy(clientGetter).messages.create\<close>\<close>

definition anthropic_create ::
  "client \<Rightarrow> obj \<Rightarrow> ctx \<Rightarrow> world \<Rightarrow> (jserror + returned) \<times> world" where
  "anthropic_create cl params c w =
     (let tag = nc (nc (field params ''feature_tag'') (currentTag c)) (JStr ''unknown'');
          cleanParams = AList.delete ''feature_tag'' params;
          (start, w1) = Date_now w
      in if truthy (field cleanParams ''stream'') then
           let (r, w2) = call cl [JObj cleanParams] w1
           in (case r of
                 Inl err \<Rightarrow> (Inl err, w2)
               | Inr stream \<Rightarrow>
                   (Inr (Wrapped (wrapAnthropicStream_track (iterate stream)
                                    (field params ''model'') tag start)),
                    w2))
         else
           let (r, w2) = call cl [JObj cleanParams] w1
           in (case r of
                 Inl err \<Rightarrow>
                   let (now, w3) = Date_now w2;
                       (sent, w4) =
                          track (failure_options (field params ''model'') (now - start) tag
                                   ''anthropic'' err) c w3
                   in (Inl err, w4)
               | Inr response \<Rightarrow>
                   let usage = response_field response ''usage'';
                       input = nc (opt usage ''input_tokens'') (JNum 0);
                       output = nc (opt usage ''output_tokens'') (JNum 0);
                       cached = nc (opt usage ''cache_read_input_tokens'') (JNum 0);
                       (now, w3) = Date_now w2;
                       (sent, w4) =
                          track [(''model'', field params ''model''),
                                 (''inputTokens'', input),
                                 (''outputTokens'', output),
                                 (''cachedTokens'', cached),
                                 (''latencyMs'', JNum (now - start)),
                                 (''featureTag'', tag),
                                 (''provider'', JStr ''anthropic'')] c w3
                   in (Inr (Passed response), w4)))"

subsection \<open>Gemini: \<open>createTrackedModel(model, modelName).generateContent\<close>\<close>

text \<open>
  \<open>params\<close> may be a prompt string, an array of parts or a request object; only an
  object that is not an array, with a truthy \<open>feature_tag\<close>, is taken apart.
\<close>

definition extractFeatureTag :: "jsval \<Rightarrow> ctx \<Rightarrow> jsval \<times> jsval" where
  "extractFeatureTag params c =
     (case params of
        JObj ps \<Rightarrow>
          if truthy (field ps ''feature_tag'')
          then (field ps ''feature_tag'', JObj (AList.delete ''feature_tag'' ps))
          else (nc (currentTag c) (JStr ''unknown''), params)
      | _ \<Rightarrow> (nc (currentTag c) (JStr ''unknown''), params))"

definition generateContent ::
  "client \<Rightarrow> jsval \<Rightarrow> jsval \<Rightarrow> jsval list \<Rightarrow> ctx \<Rightarrow> world \<Rightarrow> (jserror + returned) \<times> world" where
  "generateContent cl modelName params rest c w =
     (let (tag, cleanParams) = extractFeatureTag params c;
          (start, w1) = Date_now w;
          (r, w2) = call cl (cleanParams # rest) w1
      in (case r of
            Inl err \<Rightarrow>
              let (now, w3) = Date_now w2;
                  (sent, w4) =
                     track (failure_options modelName (now - start) tag ''gemini'' err) c w3
              in (Inl err, w4)
          | Inr result \<Rightarrow>
              let usage = opt (response_field result ''response'') ''usageMetadata'';
                  input = nc (opt usage ''promptTokenCount'') (JNum 0);
                  output = nc (opt usage ''candidatesTokenCount'') (JNum 0);
                  cached = nc (opt usage ''cachedContentTokenCount'') (JNum 0);
                  (now, w3) = Date_now w2;
                  (sent, w4) =
                     track [(''model'', modelName),
                            (''inputTokens'', input),
                            (''outputTokens'', output),
                            (''cachedTokens'', cached),
                            (''latencyMs'', JNum (now - start)),
                            (''featureTag'', tag),
                            (''provider'', JStr ''gemini'')] c w3
              in (Inr (Passed result), w4)))"

text \<open>
  \<open>generateContentStream\<close>. There is no \<open>try\<close> around the call of the model, so its
  error leaves the adapter as it is, with no telemetry. The model resolves with a
  result object; \<open>Stream xs e\<close> is one whose \<open>stream\<close> property delivers \<open>xs\<close> and
  then ends as \<open>e\<close>, and \<open>Response r\<close> is one with no \<open>stream\<close> to iterate, so that
  the generator's first read raises. The call gives back
  \<open>{...result, stream: wrapGeminiStream(result.stream, ...), response}\<close>: the result
  with the generator in place of its stream, here \<open>Wrapped g\<close>; the properties copied
  from the result are not looked at by the adapter.
\<close>

definition generateContentStream ::
  "client \<Rightarrow> jsval \<Rightarrow> jsval \<Rightarrow> jsval list \<Rightarrow> ctx \<Rightarrow> world \<Rightarrow> (jserror + returned) \<times> world" where
  "generateContentStream cl modelName params rest c w =
     (let (tag, cleanParams) = extractFeatureTag params c;
          (start, w1) = Date_now w;
          (r, w2) = call cl (cleanParams # rest) w1
      in (case r of
            Inl err \<Rightarrow> (Inl err, w2)
          | Inr result \<Rightarrow>
              (Inr (Wrapped (wrapGeminiStream (iterate result) modelName tag start)), w2)))"

section \<open>Vocabulary of the properties\<close>

text \<open>The payloads posted to one endpoint so far, oldest first.\<close>

definition posts_to :: "string \<Rightarrow> world \<Rightarrow> jsval list" where
  "posts_to p w = map body (filter (\<lambda>r. path r = p) (fetches w))"

text \<open>The request \<open>sendTelemetry\<close> hands to \<open>fetch\<close> for a payload.\<close>

definition ingest_request :: "obj \<Rightarrow> obj \<Rightarrow> request" where
  "ingest_request cfg payload =
     \<lparr>host = field cfg ''host'', path = ''/api/ingest'',
      api_key = field cfg ''trackerApiKey'', body = JObj payload\<rparr>"

text \<open>
  A process right after module load, in which every \<open>fetch\<close> is rejected, and the same
  process after the \<open>init\<close> call of the test suites.
\<close>

definition boot :: world where
  "boot =
     \<lparr>config = default_config, fetches = [],
      net = (\<lambda>n. Rejects \<lparr>constructor_name = JStr ''TypeError'', detail = JStr ''fetch failed''\<rparr>),
      console = [], clock = (\<lambda>n. 1000 + 7 * int n), ticks = 0,
      heap = (\<lambda>a. new_AgentRun [] (JStr ''run-0'')), forwarded = []\<rparr>"

definition ready :: world where
  "ready = init [(''trackerApiKey'', JStr ''key''), (''projectId'', JStr ''proj-1''),
                 (''enabled'', JBool True)] boot"

definition outside :: ctx where
  "outside = \<lparr>currentTag = JUndefined, activeRun = None\<rparr>"

definition two_inits :: "obj list" where
  "two_inits =
     [[(''trackerApiKey'', JStr ''k''), (''projectId'', JStr ''p''),
       (''environment'', JStr ''staging''), (''debug'', JBool True)],
      [(''trackerApiKey'', JStr ''key-1''), (''projectId'', JStr ''proj-1''),
       (''enabled'', JBool False)]]"

text \<open>The last element of a list with a property, if any.\<close>

definition last_where :: "('a \<Rightarrow> bool) \<Rightarrow> 'a list \<Rightarrow> 'a option" where
  "last_where P xs = find P (rev xs)"

text \<open>The events that report usage, per provider.\<close>

definition openai_reports :: "obj \<Rightarrow> bool" where
  "openai_reports chunk = truthy (field chunk ''usage'')"

definition anthropic_reports_input :: "obj \<Rightarrow> bool" where
  "anthropic_reports_input event =
     (field event ''type'' = JStr ''message_start'' \<and> truthy (opt (field event ''message'') ''usage''))"

definition anthropic_reports_output :: "obj \<Rightarrow> bool" where
  "anthropic_reports_output event =
     (field event ''type'' = JStr ''message_delta'' \<and> truthy (field event ''usage''))"

text \<open>
  The counts as the spec's table gives them. OpenAI: from the last chunk whose
  \<open>usage\<close> is populated. Anthropic: input from the last \<open>message_start\<close> with a usage,
  output from the last \<open>message_delta\<close> with a usage. Each is 0 when there is no such
  event, or when the usage object lacks the field.
\<close>

definition openai_input_tokens :: "obj list \<Rightarrow> jsval" where
  "openai_input_tokens chunks =
     (case last_where openai_reports chunks of
        Some ch \<Rightarrow> nc (member (field ch ''usage'') ''prompt_tokens'') (JNum 0)
      | None \<Rightarrow> JNum 0)"

definition openai_output_tokens :: "obj list \<Rightarrow> jsval" where
  "openai_output_tokens chunks =
     (case last_where openai_reports chunks of
        Some ch \<Rightarrow> nc (member (field ch ''usage'') ''completion_tokens'') (JNum 0)
      | None \<Rightarrow> JNum 0)"

definition anthropic_input_tokens :: "obj list \<Rightarrow> jsval" where
  "anthropic_input_tokens events =
     (case last_where anthropic_reports_input events of
        Some ev \<Rightarrow> nc (member (member (field ev ''message'') ''usage'') ''input_tokens'') (JNum 0)
      | None \<Rightarrow> JNum 0)"

definition anthropic_output_tokens :: "obj list \<Rightarrow> jsval" where
  "anthropic_output_tokens events =
     (case last_where anthropic_reports_output events of
        Some ev \<Rightarrow> nc (member (field ev ''usage'') ''output_tokens'') (JNum 0)
      | None \<Rightarrow> JNum 0)"

text \<open>The chunk sequence of the OpenAI streaming test.\<close>

definition openai_test_chunks :: "obj list" where
  "openai_test_chunks =
     [[(''usage'', JNull)],
      [(''usage'', JNull)],
      [(''usage'', JObj [(''prompt_tokens'', JNum 15), (''completion_tokens'', JNum 25)])]]"

text \<open>The event sequence of the Anthropic streaming test.\<close>

definition anthropic_test_events :: "obj list" where
  "anthropic_test_events =
     [[(''type'', JStr ''message_start''),
       (''message'', JObj [(''id'', JStr ''msg_1''), (''usage'', JObj [(''input_tokens'', JNum 100)])])],
      [(''type'', JStr ''content_block_delta''),
       (''delta'', JObj [(''type'', JStr ''text_delta''), (''text'', JStr ''Hello'')])],
      [(''type'', JStr ''content_block_delta''),
       (''delta'', JObj [(''type'', JStr ''text_delta''), (''text'', JStr '' world'')])],
      [(''type'', JStr ''message_delta''), (''usage'', JObj [(''output_tokens'', JNum 40)]),
       (''delta'', JObj [(''stop_reason'', JStr ''end_turn'')])],
      [(''type'', JStr ''message_stop'')]]"

text \<open>Streaming calls as the tests make them, and a client that answers with a stream.\<close>

definition streamed_chat :: obj where
  "streamed_chat = [(''model'', JStr ''gpt-4''), (''messages'', JArr []), (''stream'', JBool True)]"

definition streamed_message :: obj where
  "streamed_message = [(''model'', JStr ''claude-3-opus-20240229''), (''max_tokens'', JNum 1024),
                       (''messages'', JArr []), (''stream'', JBool True)]"

definition streaming_client :: "obj list \<Rightarrow> client" where
  "streaming_client events args = Inr (Stream events None)"

text \<open>An event that reports no usage to the given wrapper.\<close>

definition silent :: "wrapper \<Rightarrow> obj \<Rightarrow> bool" where
  "silent k x =
     (case k of
        OpenAIStream \<Rightarrow> \<not> openai_reports x
      | GeminiStream \<Rightarrow> \<not> truthy (field x ''usageMetadata'')
      | _ \<Rightarrow> \<not> anthropic_reports_input x \<and> \<not> anthropic_reports_output x)"

text \<open>
  The chunks of a Gemini stream that report usage, and the counts of a Gemini stream as
  the spec's table gives them: from the last chunk whose \<open>usageMetadata\<close> is populated.
\<close>

definition gemini_reports :: "obj \<Rightarrow> bool" where
  "gemini_reports chunk = truthy (field chunk ''usageMetadata'')"

definition gemini_input_tokens :: "obj list \<Rightarrow> jsval" where
  "gemini_input_tokens chunks =
     (case last_where gemini_reports chunks of
        Some ch \<Rightarrow> nc (member (field ch ''usageMetadata'') ''promptTokenCount'') (JNum 0)
      | None \<Rightarrow> JNum 0)"

definition gemini_output_tokens :: "obj list \<Rightarrow> jsval" where
  "gemini_output_tokens chunks =
     (case last_where gemini_reports chunks of
        Some ch \<Rightarrow> nc (member (field ch ''usageMetadata'') ''candidatesTokenCount'') (JNum 0)
      | None \<Rightarrow> JNum 0)"

text \<open>
  The last-known counts of a stream, read off the events alone: what the last usage
  report of each kind carried, 0 for a count that report lacks, and 0 when there was no
  report.
\<close>

definition last_known :: "wrapper \<Rightarrow> obj list \<Rightarrow> jsval \<times> jsval" where
  "last_known k events =
     (case k of
        OpenAIStream \<Rightarrow> (openai_input_tokens events, openai_output_tokens events)
      | GeminiStream \<Rightarrow> (gemini_input_tokens events, gemini_output_tokens events)
      | _ \<Rightarrow> (anthropic_input_tokens events, anthropic_output_tokens events))"

text \<open>A \<open>message_start\<close> event that reports 100 input tokens.\<close>

definition message_start_100 :: obj where
  "message_start_100 =
     [(''type'', JStr ''message_start''),
      (''message'', JObj [(''id'', JStr ''msg_1''), (''usage'', JObj [(''input_tokens'', JNum 100)])])]"

text \<open>A chunk of a Gemini stream that carries no \<open>usageMetadata\<close>.\<close>

definition candidate_chunk :: obj where
  "candidate_chunk = [(''candidates'', JArr [JObj [(''index'', JNum 0)]])]"

text \<open>Two events without usage, and the error of a connection that breaks off.\<close>

definition text_delta :: obj where
  "text_delta = [(''type'', JStr ''content_block_delta''),
                 (''delta'', JObj [(''type'', JStr ''text_delta''), (''text'', JStr ''hi'')])]"

definition content_chunk :: obj where
  "content_chunk = [(''choices'', JArr [JObj [(''delta'', JObj [(''content'', JStr ''hel'')])]]),
                    (''usage'', JNull)]"

definition connection_reset :: jserror where
  "connection_reset = \<lparr>constructor_name = JStr ''APIConnectionError'', detail = JStr ''ECONNRESET''\<rparr>"

text \<open>The tracked operations of the three adapters, as one type of call.\<close>

datatype invocation =
    OpenAI_create obj
  | Anthropic_create obj
  | Gemini_generateContent jsval jsval "jsval list"

fun invoke :: "client \<Rightarrow> invocation \<Rightarrow> ctx \<Rightarrow> world \<Rightarrow> (jserror + returned) \<times> world" where
  "invoke cl (OpenAI_create params) = openai_create cl params"
| "invoke cl (Anthropic_create params) = anthropic_create cl params"
| "invoke cl (Gemini_generateContent modelName params rest) = generateContent cl modelName params rest"

fun streaming :: "invocation \<Rightarrow> bool" where
  "streaming (OpenAI_create params) = truthy (field params ''stream'')"
| "streaming (Anthropic_create params) = truthy (field params ''stream'')"
| "streaming (Gemini_generateContent modelName params rest) = False"

fun provider_name :: "invocation \<Rightarrow> string" where
  "provider_name (OpenAI_create params) = ''openai''"
| "provider_name (Anthropic_create params) = ''anthropic''"
| "provider_name (Gemini_generateContent modelName params rest) = ''gemini''"

text \<open>The order of precedence for the feature tag: explicit, then ambient, then "unknown".\<close>

definition resolved_tag :: "jsval \<Rightarrow> jsval \<Rightarrow> jsval" where
  "resolved_tag explicit ambient =
     (if \<not> nullish explicit then explicit
      else if \<not> nullish ambient then ambient
      else JStr ''unknown'')"

text \<open>A client that raises a rate-limit error, and one that answers with a completion.\<close>

definition rate_limited :: jserror where
  "rate_limited = \<lparr>constructor_name = JStr ''RateLimitError'', detail = JStr ''429''\<rparr>"

definition failing_client :: client where
  "failing_client args = Inl rate_limited"

definition completion :: obj where
  "completion = [(''choices'', JArr []),
                 (''usage'', JObj [(''prompt_tokens'', JNum 10), (''completion_tokens'', JNum 20)])]"

definition answering_client :: client where
  "answering_client args = Inr (Response completion)"

text \<open>The same process with telemetry switched off, and a scope with the ambient tag "y".\<close>

definition muted :: world where
  "muted = init [(''trackerApiKey'', JStr ''k''), (''projectId'', JStr ''p''),
                 (''enabled'', JBool False)] ready"

definition inside_y :: ctx where
  "inside_y = \<lparr>currentTag = JStr ''y'', activeRun = None\<rparr>"

text \<open>Calls with an explicit tag, and a Gemini call whose explicit tag is the empty string.\<close>

definition tagged_chat :: obj where
  "tagged_chat = [(''model'', JStr ''gpt-4''), (''messages'', JArr []),
                  (''feature_tag'', JStr ''explicit-tag'')]"

definition tagged_request :: obj where
  "tagged_request = [(''contents'', JArr []), (''feature_tag'', JStr ''x'')]"

definition tagged_stream_call :: obj where
  "tagged_stream_call =
     [(''model'', JStr ''gpt-4''), (''stream'', JBool True),
      (''stream_options'', JObj [(''include_usage'', JBool False)]),
      (''feature_tag'', JStr ''x'')]"

definition empty_tag_request :: obj where
  "empty_tag_request = [(''contents'', JArr []), (''feature_tag'', JStr [])]"

text \<open>The request \<open>sendRunApi\<close> hands to \<open>fetch\<close> for a path and a payload.\<close>

definition run_request :: "obj \<Rightarrow> string \<Rightarrow> obj \<Rightarrow> request" where
  "run_request cfg p payload =
     \<lparr>host = field cfg ''host'', path = p,
      api_key = field cfg ''trackerApiKey'', body = JObj payload\<rparr>"

text \<open>The ambient slots \<open>execute\<close> runs its body in.\<close>

definition run_scope :: "nat \<Rightarrow> AgentRun \<Rightarrow> ctx \<Rightarrow> ctx" where
  "run_scope this r c = c\<lparr>currentTag := featureTag r, activeRun := Some this\<rparr>"

text \<open>The payload of the run-end signal for the way the body ended.\<close>

definition run_end_payload :: "AgentRun \<Rightarrow> obj \<Rightarrow> jserror + 'a \<Rightarrow> obj" where
  "run_end_payload r cfg result =
     (case result of
        Inr v \<Rightarrow>
          [(''project_id'', field cfg ''projectId''), (''run_id'', runId r),
           (''status'', JStr ''completed'')]
      | Inl err \<Rightarrow>
          [(''project_id'', field cfg ''projectId''), (''run_id'', runId r),
           (''status'', JStr ''failed''), (''error_type'', error_type_of err)])"

text \<open>A body that makes two tracked calls in sequence and returns, and one that raises.\<close>

definition two_tracked_calls ::
  "obj \<Rightarrow> obj \<Rightarrow> 'a \<Rightarrow> ctx \<Rightarrow> world \<Rightarrow> (jserror + 'a) \<times> world" where
  "two_tracked_calls o1 o2 v c w =
     (let (r1, w1) = track o1 c w;
          (r2, w2) = track o2 c w1
      in (Inr v, w2))"

definition raising :: "jserror \<Rightarrow> ctx \<Rightarrow> world \<Rightarrow> (jserror + jsval) \<times> world" where
  "raising err c w = (Inl err, w)"

definition first_call :: obj where
  "first_call = [(''model'', JStr ''gpt-4''), (''inputTokens'', JNum 10),
                 (''outputTokens'', JNum 20), (''latencyMs'', JNum 100)]"

definition second_call :: obj where
  "second_call = [(''model'', JStr ''gpt-4''), (''inputTokens'', JNum 30),
                  (''outputTokens'', JNum 40), (''latencyMs'', JNum 200)]"

section \<open>Objects\<close>

lemma map_of_fold_update:
  "map_of (fold (\<lambda>k acc. AList.update k (f k) acc) ks t) k =
     (if k \<in> set ks then Some (f k) else map_of t k)"
  by (induction ks arbitrary: t) (auto simp: update_conv')

lemma map_of_spread: "map_of (spread t s) = map_of t ++ map_of s"
proof
  fix k
  show "map_of (spread t s) k = (map_of t ++ map_of s) k"
  proof (cases "map_of s k")
    case None
    then have "k \<notin> fst ` set s" by (simp add: map_of_eq_None_iff)
    with None show ?thesis
      by (simp add: spread_def keys_def map_of_fold_update map_add_def)
  next
    case (Some v)
    then have "k \<in> fst ` set s" by (metis map_of_eq_None_iff option.distinct(1))
    with Some show ?thesis
      by (simp add: spread_def keys_def map_of_fold_update map_add_def field_def)
  qed
qed

lemma field_spread:
  "field (spread t s) k = (if k \<in> fst ` set s then field s k else field t k)"
proof (cases "map_of s k")
  case None
  then have "k \<notin> fst ` set s" by (simp add: map_of_eq_None_iff)
  with None show ?thesis by (simp add: field_def map_of_spread map_add_def)
next
  case (Some v)
  then have "k \<in> fst ` set s" by (metis map_of_eq_None_iff option.distinct(1))
  with Some show ?thesis by (simp add: field_def map_of_spread map_add_def)
qed

lemma field_update: "field (AList.update k v al) k' = (if k' = k then v else field al k')"
  by (simp add: field_def update_conv')

lemma field_delete: "field (AList.delete k al) k' = (if k' = k then JUndefined else field al k')"
  by (simp add: field_def delete_conv')

lemma field_Cons: "field ((k, v) # al) k' = (if k' = k then v else field al k')"
  by (simp add: field_def)

lemma field_Nil: "field [] k = JUndefined"
  by (simp add: field_def)

section \<open>Config store\<close>

lemma config_fold_init:
  "map_of (config (fold init calls w)) =
     fold (\<lambda>options m. m ++ map_of options) calls (map_of (config w))"
  by (induction calls arbitrary: w) (simp_all add: init_def map_of_spread)

lemma field_fold_init:
  "field (config (fold init calls w)) k =
     (case find (\<lambda>options. k \<in> fst ` set options) (rev calls) of
        Some options \<Rightarrow> field options k
      | None \<Rightarrow> field (config w) k)"
  by (induction calls rule: rev_induct) (simp_all add: init_def field_spread)

text \<open>
  C9. After any sequence of \<open>init\<close> calls on the freshly loaded module, each field of
  the config read through \<open>getConfig\<close> has the value given by the last call that
  supplied that field, and the built-in default when no call supplied it; as a whole the
  config is the defaults overridden by the calls' fields from left to right. The
  defaults are environment "production", host "https://api.agentracer.dev", debug false
  and enabled true.
\<close>

theorem init_sequence_merges:
  assumes "config w = default_config"
  shows "field (getConfig (fold init calls w)) k =
           (case find (\<lambda>options. k \<in> fst ` set options) (rev calls) of
              Some options \<Rightarrow> field options k
            | None \<Rightarrow> field default_config k)
         \<and> map_of (getConfig (fold init calls w)) =
             fold (\<lambda>options m. m ++ map_of options) calls (map_of default_config)
         \<and> field default_config ''environment'' = JStr ''production''
         \<and> field default_config ''host'' = JStr ''https://api.agentracer.dev''
         \<and> field default_config ''debug'' = JBool False
         \<and> field default_config ''enabled'' = JBool True"
proof -
  have "field default_config ''environment'' = JStr ''production''"
    and "field default_config ''host'' = JStr ''https://api.agentracer.dev''"
    and "field default_config ''debug'' = JBool False"
    and "field default_config ''enabled'' = JBool True"
    by (simp_all add: default_config_def field_def)
  moreover have "field (getConfig (fold init calls w)) k =
           (case find (\<lambda>options. k \<in> fst ` set options) (rev calls) of
              Some options \<Rightarrow> field options k
            | None \<Rightarrow> field default_config k)"
    unfolding getConfig_def field_fold_init assms ..
  moreover have "map_of (getConfig (fold init calls w)) =
             fold (\<lambda>options m. m ++ map_of options) calls (map_of default_config)"
    unfolding getConfig_def config_fold_init assms ..
  ultimately show ?thesis by blast
qed

theorem init_sequence_merges_witness:
  "config boot = default_config
   \<and> field (getConfig (fold init two_inits boot)) ''environment'' = JStr ''staging''
   \<and> field (getConfig (fold init two_inits boot)) ''enabled'' = JBool False
   \<and> field (getConfig (fold init two_inits boot)) ''host'' = JStr ''https://api.agentracer.dev''"
proof -
  have h: "config boot = default_config" by (simp add: boot_def)
  show ?thesis
    using h init_sequence_merges [OF h, of two_inits "''environment''"]
      init_sequence_merges [OF h, of two_inits "''enabled''"]
      init_sequence_merges [OF h, of two_inits "''host''"]
    by (simp add: two_inits_def field_def)
qed

section \<open>Telemetry emitter\<close>

lemma sendTelemetry_fst: "fst (sendTelemetry p w) = Inr ()"
  by (simp add: sendTelemetry_def fetch_def Let_def split: sum.splits fetch_outcome.splits)

lemma sendRunApi_fst: "fst (sendRunApi q p w) = Inr ()"
  by (simp add: sendRunApi_def fetch_def Let_def split: sum.splits fetch_outcome.splits)

lemma sendTelemetry_snd:
  "snd (sendTelemetry p w) =
     (if truthy (field (config w) ''enabled'')
      then w\<lparr>fetches := fetches w @ [ingest_request (config w) p],
             console := (if truthy (field (config w) ''debug'')
                         then console w @ [JObj p] else console w)\<rparr>
      else w)"
  by (simp add: sendTelemetry_def fetch_def Let_def ingest_request_def
      split: sum.splits fetch_outcome.splits)

lemma sendRunApi_snd:
  "snd (sendRunApi q p w) =
     (if truthy (field (config w) ''enabled'')
      then w\<lparr>fetches := fetches w @
                [\<lparr>host = field (config w) ''host'', path = q,
                  api_key = field (config w) ''trackerApiKey'', body = JObj p\<rparr>]\<rparr>
      else w)"
  by (simp add: sendRunApi_def fetch_def Let_def split: sum.splits fetch_outcome.splits)

lemma track_outside_run:
  "activeRun c = None \<or> \<not> nullish (field options ''runId'') \<Longrightarrow>
   track options c w =
     sendTelemetry (ingest_payload options (currentTag c) (field options ''runId'')
                      (field options ''stepIndex'') (config w)) w"
  by (auto simp: track_def split: option.splits)

lemma track_inside_run:
  "activeRun c = Some a \<Longrightarrow> nullish (field options ''runId'') \<Longrightarrow>
   track options c w =
     sendTelemetry
       (ingest_payload options (currentTag c) (runId (heap w a))
          (JNum (stepCounter (heap w a) + 1)) (config w))
       (snd (sendRunApi ''/api/runs/step''
               (step_payload options (runId (heap w a)) (JNum (stepCounter (heap w a) + 1))
                  (config w))
               (w\<lparr>heap := (heap w)(a := (heap w a)\<lparr>stepCounter := stepCounter (heap w a) + 1\<rparr>)\<rparr>)))"
  by (simp add: track_def nextStep_def split_def Let_def sendRunApi_snd)

lemma track_fst: "fst (track options c w) = Inr ()"
  by (cases "activeRun c = None \<or> \<not> nullish (field options ''runId'')")
     (auto simp: track_outside_run track_inside_run sendTelemetry_fst)

lemma track_config: "config (snd (track options c w)) = config w"
  by (cases "activeRun c = None \<or> \<not> nullish (field options ''runId'')")
     (auto simp: track_outside_run track_inside_run sendTelemetry_snd sendRunApi_snd)

lemma track_forwarded: "forwarded (snd (track options c w)) = forwarded w"
  by (cases "activeRun c = None \<or> \<not> nullish (field options ''runId'')")
     (auto simp: track_outside_run track_inside_run sendTelemetry_snd sendRunApi_snd)

lemma track_ingest:
  assumes "truthy (field (config w) ''enabled'')"
  shows "\<exists>rid idx. posts_to ''/api/ingest'' (snd (track options c w)) =
           posts_to ''/api/ingest'' w @
             [JObj (ingest_payload options (currentTag c) rid idx (config w))]"
proof (cases "activeRun c = None \<or> \<not> nullish (field options ''runId'')")
  case True
  then show ?thesis using assms
    by (auto simp: track_outside_run sendTelemetry_snd posts_to_def ingest_request_def)
next
  case False
  then obtain a where a: "activeRun c = Some a" and n: "nullish (field options ''runId'')"
    by auto
  show ?thesis using assms
    by (auto simp: track_inside_run [OF a n] sendTelemetry_snd sendRunApi_snd posts_to_def
        ingest_request_def)
qed

lemma field_cond_update:
  "field (if b then AList.update k v al else al) k' =
     (if k' = k then (if b then v else field al k) else field al k')"
  by (simp add: field_update)

lemma ingest_payload_other:
  assumes "k \<noteq> ''error_type''" "k \<noteq> ''end_user_id''" "k \<noteq> ''run_id''" "k \<noteq> ''step_index''"
  shows "field (ingest_payload options tag rid idx cfg) k =
     field [(''project_id'', field cfg ''projectId''),
             (''provider'', nc (field options ''provider'') (JStr ''custom'')),
             (''model'', field options ''model''),
             (''feature_tag'', nc (nc (field options ''featureTag'') tag) (JStr ''unknown'')),
             (''input_tokens'', field options ''inputTokens''),
             (''output_tokens'', field options ''outputTokens''),
             (''cached_tokens'', nc (field options ''cachedTokens'') (JNum 0)),
             (''latency_ms'', field options ''latencyMs''),
             (''success'', nc (field options ''success'') (JBool True)),
             (''environment'', nc (field options ''environment'') (field cfg ''environment''))] k"
  unfolding ingest_payload_def Let_def field_cond_update using assms by simp

lemma ingest_payload_fields:
  "field (ingest_payload options tag rid idx cfg) ''input_tokens'' = field options ''inputTokens''"
  "field (ingest_payload options tag rid idx cfg) ''output_tokens'' = field options ''outputTokens''"
  "field (ingest_payload options tag rid idx cfg) ''cached_tokens'' =
     nc (field options ''cachedTokens'') (JNum 0)"
  "field (ingest_payload options tag rid idx cfg) ''success'' =
     nc (field options ''success'') (JBool True)"
  "field (ingest_payload options tag rid idx cfg) ''provider'' =
     nc (field options ''provider'') (JStr ''custom'')"
  "field (ingest_payload options tag rid idx cfg) ''model'' = field options ''model''"
  "field (ingest_payload options tag rid idx cfg) ''feature_tag'' =
     nc (nc (field options ''featureTag'') tag) (JStr ''unknown'')"
  "field (ingest_payload options tag rid idx cfg) ''latency_ms'' = field options ''latencyMs''"
  by (simp_all add: ingest_payload_other field_Cons)

lemma ingest_payload_run_fields:
  "field (ingest_payload options tag rid idx cfg) ''error_type'' =
     (if nullish (field options ''errorType'') then JUndefined else field options ''errorType'')"
  "field (ingest_payload options tag rid idx cfg) ''run_id'' =
     (if nullish rid then JUndefined else rid)"
  "field (ingest_payload options tag rid idx cfg) ''step_index'' =
     (if nullish idx then JUndefined else idx)"
  unfolding ingest_payload_def Let_def field_cond_update
  by (simp_all add: field_Cons field_Nil)

lemma ingest_payload_keys_bare:
  "nullish (field options ''errorType'') \<Longrightarrow> nullish (field options ''endUserId'') \<Longrightarrow>
   nullish rid \<Longrightarrow> nullish idx \<Longrightarrow>
   map fst (ingest_payload options tag rid idx cfg) =
     [''project_id'', ''provider'', ''model'', ''feature_tag'', ''input_tokens'',
      ''output_tokens'', ''cached_tokens'', ''latency_ms'', ''success'', ''environment'']"
  unfolding ingest_payload_def Let_def by simp

lemma nullish_nc: "\<not> nullish b \<Longrightarrow> \<not> nullish (nc a b)"
  by (simp add: nc_def)

text \<open>
  C10. When a call to \<open>track\<close> supplies neither \<open>errorType\<close> nor \<open>endUserId\<close>, supplies
  no \<open>runId\<close> and no \<open>stepIndex\<close>, and runs outside every run, the payload it hands to
  the emitter (and so the body of the ingest request, when telemetry is enabled) has
  exactly the ten base keys: \<open>error_type\<close>, \<open>end_user_id\<close>, \<open>run_id\<close> and
  \<open>step_index\<close> are absent, not null. \<open>cached_tokens\<close> and \<open>success\<close> are present
  with a value that is never null or undefined: the supplied one, else 0 and true.
\<close>

theorem track_omits_unset_fields:
  assumes "nullish (field options ''errorType'')"
    and "nullish (field options ''endUserId'')"
    and "nullish (field options ''runId'')"
    and "nullish (field options ''stepIndex'')"
    and "activeRun c = None"
  shows "\<exists>payload.
           track options c w = sendTelemetry payload w
         \<and> (truthy (field (config w) ''enabled'') \<longrightarrow>
              fetches (snd (track options c w)) = fetches w @ [ingest_request (config w) payload])
         \<and> map fst payload =
             [''project_id'', ''provider'', ''model'', ''feature_tag'', ''input_tokens'',
              ''output_tokens'', ''cached_tokens'', ''latency_ms'', ''success'', ''environment'']
         \<and> ''error_type'' \<notin> fst ` set payload
         \<and> ''end_user_id'' \<notin> fst ` set payload
         \<and> ''run_id'' \<notin> fst ` set payload
         \<and> ''step_index'' \<notin> fst ` set payload
         \<and> field payload ''cached_tokens'' = nc (field options ''cachedTokens'') (JNum 0)
         \<and> \<not> nullish (field payload ''cached_tokens'')
         \<and> field payload ''success'' = nc (field options ''success'') (JBool True)
         \<and> \<not> nullish (field payload ''success'')"
proof -
  let ?p = "ingest_payload options (currentTag c) (field options ''runId'')
              (field options ''stepIndex'') (config w)"
  have t: "track options c w = sendTelemetry ?p w"
    using assms(5) by (simp add: track_outside_run)
  have k: "map fst ?p =
             [''project_id'', ''provider'', ''model'', ''feature_tag'', ''input_tokens'',
              ''output_tokens'', ''cached_tokens'', ''latency_ms'', ''success'', ''environment'']"
    using assms by (simp add: ingest_payload_keys_bare)
  have s: "fst ` set ?p = set (map fst ?p)" by simp
  have "''error_type'' \<notin> fst ` set ?p" "''end_user_id'' \<notin> fst ` set ?p"
    "''run_id'' \<notin> fst ` set ?p" "''step_index'' \<notin> fst ` set ?p"
    unfolding s k by simp_all
  moreover have "truthy (field (config w) ''enabled'') \<longrightarrow>
              fetches (snd (track options c w)) = fetches w @ [ingest_request (config w) ?p]"
    by (simp add: t sendTelemetry_snd)
  ultimately show ?thesis
    using t k by (intro exI [of _ ?p]) (simp add: ingest_payload_fields nullish_nc)
qed

theorem track_omits_unset_fields_witness:
  "fetches (snd (track [(''model'', JStr ''claude-3''), (''inputTokens'', JNum 10),
                        (''outputTokens'', JNum 5), (''latencyMs'', JNum 100)] outside ready)) =
     [ingest_request (config ready)
        [(''project_id'', JStr ''proj-1''), (''provider'', JStr ''custom''),
         (''model'', JStr ''claude-3''), (''feature_tag'', JStr ''unknown''),
         (''input_tokens'', JNum 10), (''output_tokens'', JNum 5), (''cached_tokens'', JNum 0),
         (''latency_ms'', JNum 100), (''success'', JBool True),
         (''environment'', JStr ''production'')]]"
  using track_omits_unset_fields [of "[(''model'', JStr ''claude-3''), (''inputTokens'', JNum 10),
                        (''outputTokens'', JNum 5), (''latencyMs'', JNum 100)]" outside ready]
  by (simp add: outside_def ready_def boot_def init_def field_def track_def sendTelemetry_def
      fetch_def ingest_payload_def nc_def spread_def keys_def default_config_def
      ingest_request_def Let_def)

section \<open>Streaming usage accumulators\<close>

lemma loop_body_keeps:
  "wrapper (loop_body x g) = wrapper g"
  "pending (loop_body x g) = pending g"
  "ending (loop_body x g) = ending g"
  "completed (loop_body x g) = completed g"
  "gen_model (loop_body x g) = gen_model g"
  "gen_featureTag (loop_body x g) = gen_featureTag g"
  "gen_start (loop_body x g) = gen_start g"
  by (simp_all add: loop_body_def openai_chunk_def anthropic_event_def gemini_chunk_def Let_def
      split: wrapper.splits)

lemma fold_loop_body_keeps:
  "wrapper (fold loop_body xs g) = wrapper g"
  "pending (fold loop_body xs g) = pending g"
  "ending (fold loop_body xs g) = ending g"
  "completed (fold loop_body xs g) = completed g"
  "gen_model (fold loop_body xs g) = gen_model g"
  "gen_featureTag (fold loop_body xs g) = gen_featureTag g"
  "gen_start (fold loop_body xs g) = gen_start g"
  by (induction xs arbitrary: g; simp add: loop_body_keeps)+

lemma loop_body_pending: "loop_body x (g\<lparr>pending := p\<rparr>) = (loop_body x g)\<lparr>pending := p\<rparr>"
  by (simp add: loop_body_def openai_chunk_def anthropic_event_def gemini_chunk_def Let_def
      split: wrapper.splits)

lemma fold_loop_body_pending:
  "fold loop_body xs (g\<lparr>pending := p\<rparr>) = (fold loop_body xs g)\<lparr>pending := p\<rparr>"
  by (induction xs arbitrary: g) (simp_all add: loop_body_pending)

lemma after_loop_pending: "after_loop (g\<lparr>pending := p\<rparr>) c w = after_loop g c w"
  by (simp add: after_loop_def stream_options_def direct_payload_def split_def Let_def
      split: wrapper.splits)

lemma for_await_exhausts_aux:
  "pending g = xs \<Longrightarrow> \<not> completed g \<Longrightarrow> ending g = None \<Longrightarrow>
   fst (for_await g c w) = (xs, None)
   \<and> completed (fst (snd (for_await g c w)))
   \<and> snd (snd (for_await g c w)) = after_loop (fold loop_body xs g) c w"
proof (induction xs arbitrary: g)
  case Nil
  then show ?case
    by (subst (1 2 3) for_await.simps) (simp add: gen_next_def)
next
  case (Cons x xs)
  let ?g = "loop_body x (g\<lparr>pending := xs\<rparr>)"
  have n: "gen_next g c w = (Yield x, ?g, w)"
    using Cons.prems by (simp add: gen_next_def)
  have ih: "fst (for_await ?g c w) = (xs, None)
     \<and> completed (fst (snd (for_await ?g c w)))
     \<and> snd (snd (for_await ?g c w)) = after_loop (fold loop_body xs ?g) c w"
    using Cons.prems by (intro Cons.IH) (simp_all add: loop_body_keeps)
  have f: "for_await g c w =
      (let ((ys, e), g'', w'') = for_await ?g c w in ((x # ys, e), g'', w''))"
    by (subst for_await.simps) (simp add: n)
  show ?case
    using ih
    by (simp add: f split_def loop_body_pending fold_loop_body_pending after_loop_pending)
qed

lemma for_await_exhausts:
  assumes "\<not> completed g" and "ending g = None"
  shows "fst (for_await g c w) = (pending g, None)"
    and "completed (fst (snd (for_await g c w)))"
    and "snd (snd (for_await g c w)) = after_loop (fold loop_body (pending g) g) c w"
  using for_await_exhausts_aux [OF refl assms] by simp_all

lemma for_await_rejects_aux:
  "pending g = xs \<Longrightarrow> \<not> completed g \<Longrightarrow> ending g = Some e \<Longrightarrow>
   fst (for_await g c w) = (xs, Some e) \<and> snd (snd (for_await g c w)) = w"
proof (induction xs arbitrary: g)
  case Nil
  then show ?case
    by (subst (1 2) for_await.simps) (simp add: gen_next_def)
next
  case (Cons x xs)
  let ?g = "loop_body x (g\<lparr>pending := xs\<rparr>)"
  have n: "gen_next g c w = (Yield x, ?g, w)"
    using Cons.prems by (simp add: gen_next_def)
  have ih: "fst (for_await ?g c w) = (xs, Some e) \<and> snd (snd (for_await ?g c w)) = w"
    using Cons.prems by (intro Cons.IH) (simp_all add: loop_body_keeps)
  have f: "for_await g c w =
      (let ((ys, e), g'', w'') = for_await ?g c w in ((x # ys, e), g'', w''))"
    by (subst for_await.simps) (simp add: n)
  show ?case
    using ih by (simp add: f split_def)
qed

lemma for_await_break_early:
  "n \<le> length (pending g) \<Longrightarrow> \<not> completed g \<Longrightarrow>
   fst (for_await_break n g c w) = (take n (pending g), None)
   \<and> completed (fst (snd (for_await_break n g c w)))
   \<and> snd (snd (for_await_break n g c w)) = w"
proof (induction n arbitrary: g)
  case 0
  then show ?case by (simp add: gen_return_def)
next
  case (Suc n)
  then obtain x xs where p: "pending g = x # xs" by (cases "pending g") auto
  let ?g = "loop_body x (g\<lparr>pending := xs\<rparr>)"
  have n: "gen_next g c w = (Yield x, ?g, w)"
    using Suc.prems p by (simp add: gen_next_def)
  have "fst (for_await_break n ?g c w) = (take n (pending ?g), None)
   \<and> completed (fst (snd (for_await_break n ?g c w)))
   \<and> snd (snd (for_await_break n ?g c w)) = w"
    using Suc.prems p by (intro Suc.IH) (simp_all add: loop_body_keeps)
  then show ?case
    by (simp add: n p split_def loop_body_keeps)
qed

lemma after_loop_ingest:
  assumes "truthy (field (config w) ''enabled'')"
  shows "\<exists>payload.
           posts_to ''/api/ingest'' (after_loop g c w) = posts_to ''/api/ingest'' w @ [JObj payload]
         \<and> field payload ''input_tokens'' = inputTokens g
         \<and> field payload ''output_tokens'' = outputTokens g
         \<and> field payload ''model'' = gen_model g
         \<and> field payload ''latency_ms'' = JNum (clock w (ticks w) - gen_start g)
         \<and> field payload ''provider'' =
             JStr (case wrapper g of OpenAIStream \<Rightarrow> ''openai'' | GeminiStream \<Rightarrow> ''gemini''
                   | _ \<Rightarrow> ''anthropic'')
         \<and> (\<not> nullish (gen_featureTag g) \<longrightarrow> field payload ''feature_tag'' = gen_featureTag g)"
proof (cases "wrapper g = AnthropicStream")
  case True
  then show ?thesis using assms
    by (simp add: after_loop_def Date_now_def sendTelemetry_snd posts_to_def ingest_request_def
        direct_payload_def getConfig_def field_Cons)
next
  case False
  let ?w = "w\<lparr>ticks := Suc (ticks w)\<rparr>"
  let ?o = "stream_options g (case wrapper g of OpenAIStream \<Rightarrow> ''openai''
              | GeminiStream \<Rightarrow> ''gemini'' | _ \<Rightarrow> ''anthropic'') (clock w (ticks w))"
  have a: "after_loop g c w = snd (track ?o c ?w)"
    using False by (simp add: after_loop_def Date_now_def split: wrapper.splits)
  from assms have "truthy (field (config ?w) ''enabled'')" by simp
  from track_ingest [OF this, of ?o c] obtain rid idx where
    "posts_to ''/api/ingest'' (snd (track ?o c ?w)) =
       posts_to ''/api/ingest'' ?w @ [JObj (ingest_payload ?o (currentTag c) rid idx (config ?w))]"
    by blast
  then have "posts_to ''/api/ingest'' (after_loop g c w) =
       posts_to ''/api/ingest'' w @ [JObj (ingest_payload ?o (currentTag c) rid idx (config w))]"
    by (simp add: a posts_to_def)
  then show ?thesis
    by (intro exI [of _ "ingest_payload ?o (currentTag c) rid idx (config w)"])
       (simp add: ingest_payload_fields stream_options_def field_Cons nc_def)
qed

lemma openai_fold_usage:
  assumes "wrapper g = OpenAIStream"
  shows "inputTokens (fold loop_body chunks g) =
           (case last_where openai_reports chunks of
              Some ch \<Rightarrow> nc (member (field ch ''usage'') ''prompt_tokens'') (JNum 0)
            | None \<Rightarrow> inputTokens g)
       \<and> outputTokens (fold loop_body chunks g) =
           (case last_where openai_reports chunks of
              Some ch \<Rightarrow> nc (member (field ch ''usage'') ''completion_tokens'') (JNum 0)
            | None \<Rightarrow> outputTokens g)"
  using assms
  by (induction chunks rule: rev_induct)
     (simp_all add: last_where_def loop_body_def fold_loop_body_keeps openai_chunk_def
       openai_reports_def)

lemma openai_create_streaming:
  assumes "truthy (field params ''stream'')"
  shows "openai_create cl params c w =
     (let sent = AList.update ''stream_options''
                   (JObj (AList.update ''include_usage'' (JBool True)
                            (spread [] (own_props (field params ''stream_options'')))))
                   (AList.delete ''feature_tag'' params);
          w2 = w\<lparr>ticks := Suc (ticks w), forwarded := forwarded w @ [[JObj sent]]\<rparr>
      in case cl [JObj sent] of
           Inl err \<Rightarrow> (Inl err, w2)
         | Inr stream \<Rightarrow>
             (Inr (Wrapped (wrapOpenAIStream (iterate stream) (field params ''model'')
                     (nc (nc (field params ''feature_tag'') (currentTag c)) (JStr ''unknown''))
                     (clock w (ticks w)))), w2))"
  using assms
  by (simp add: openai_create_def Let_def split_def call_def Date_now_def field_delete
      split: sum.splits)

lemma anthropic_create_streaming:
  assumes "truthy (field params ''stream'')"
  shows "anthropic_create cl params c w =
     (let sent = AList.delete ''feature_tag'' params;
          w2 = w\<lparr>ticks := Suc (ticks w), forwarded := forwarded w @ [[JObj sent]]\<rparr>
      in case cl [JObj sent] of
           Inl err \<Rightarrow> (Inl err, w2)
         | Inr stream \<Rightarrow>
             (Inr (Wrapped (wrapAnthropicStream_track (iterate stream) (field params ''model'')
                     (nc (nc (field params ''feature_tag'') (currentTag c)) (JStr ''unknown''))
                     (clock w (ticks w)))), w2))"
  using assms
  by (simp add: anthropic_create_def Let_def split_def call_def Date_now_def field_delete
      split: sum.splits)

lemma nc_resolved_tag: "nc (nc e a) (JStr ''unknown'') = resolved_tag e a"
  by (simp add: nc_def resolved_tag_def)

lemma for_await_result:
  assumes "\<not> completed g" and "ending g = None"
  shows "for_await g c w =
           ((pending g, None), fst (snd (for_await g c w)),
            after_loop (fold loop_body (pending g) g) c w)"
  using for_await_exhausts [OF assms, of c w]
  by (cases "for_await g c w") auto

lemma after_loop_track:
  "wrapper g \<noteq> AnthropicStream \<Longrightarrow>
   after_loop g c w =
     snd (track [(''model'', gen_model g),
                 (''inputTokens'', inputTokens g),
                 (''outputTokens'', outputTokens g),
                 (''latencyMs'', JNum (clock w (ticks w) - gen_start g)),
                 (''featureTag'', gen_featureTag g),
                 (''provider'', JStr (case wrapper g of OpenAIStream \<Rightarrow> ''openai''
                                      | GeminiStream \<Rightarrow> ''gemini'' | _ \<Rightarrow> ''anthropic''))] c
            (w\<lparr>ticks := Suc (ticks w)\<rparr>))"
  by (cases "wrapper g") (simp_all add: after_loop_def Date_now_def stream_options_def)

lemma after_loop_direct:
  "wrapper g = AnthropicStream \<Longrightarrow>
   after_loop g c w =
     snd (sendTelemetry
            [(''project_id'', field (config w) ''projectId''),
             (''provider'', JStr ''anthropic''),
             (''model'', gen_model g),
             (''feature_tag'', gen_featureTag g),
             (''input_tokens'', inputTokens g),
             (''output_tokens'', outputTokens g),
             (''latency_ms'', JNum (clock w (ticks w) - gen_start g)),
             (''environment'', field (config w) ''environment'')]
            (w\<lparr>ticks := Suc (ticks w)\<rparr>))"
  by (simp add: after_loop_def Date_now_def direct_payload_def getConfig_def)

lemma openai_create_wraps:
  assumes "truthy (field params ''stream'')"
    and "fst (openai_create cl params c w) = Inr (Wrapped g)"
  shows "\<exists>stream.
           cl (last (forwarded (snd (openai_create cl params c w)))) = Inr stream
         \<and> g = wrapOpenAIStream (iterate stream) (field params ''model'')
                 (resolved_tag (field params ''feature_tag'') (currentTag c)) (clock w (ticks w))"
  using assms(2)
  by (auto simp: openai_create_streaming [OF assms(1)] Let_def nc_resolved_tag split: sum.splits)

lemma anthropic_create_wraps:
  assumes "truthy (field params ''stream'')"
    and "fst (anthropic_create cl params c w) = Inr (Wrapped g)"
  shows "\<exists>stream.
           cl (last (forwarded (snd (anthropic_create cl params c w)))) = Inr stream
         \<and> g = wrapAnthropicStream_track (iterate stream) (field params ''model'')
                 (resolved_tag (field params ''feature_tag'') (currentTag c)) (clock w (ticks w))"
  using assms(2)
  by (auto simp: anthropic_create_streaming [OF assms(1)] Let_def nc_resolved_tag split: sum.splits)

text \<open>
  C1. A consumer that reads the stream wrapped by \<open>wrapOpenAIStream\<close> to its end
  receives exactly the chunks of the underlying stream, in their order and unchanged,
  and the reading ends with one call of \<open>track\<close>, made after the last chunk. Its
  \<open>inputTokens\<close> and \<open>outputTokens\<close> are the \<open>prompt_tokens\<close> and
  \<open>completion_tokens\<close> of the last chunk with a truthy \<open>usage\<close> (0 for one the usage
  object lacks), and 0 when no chunk has one. With telemetry enabled, the reading adds
  exactly one payload to those posted to \<open>/api/ingest\<close>, and it carries these counts.
  The generator a streaming call of the adapter gives back is this wrapper, around the
  stream the client resolved with.
\<close>

theorem wrapOpenAIStream_passthrough:
  "(\<exists>g'. for_await (wrapOpenAIStream (chunks, None) m tag start) c w =
            ((chunks, None), g',
             snd (track [(''model'', m),
                         (''inputTokens'', openai_input_tokens chunks),
                         (''outputTokens'', openai_output_tokens chunks),
                         (''latencyMs'', JNum (clock w (ticks w) - start)),
                         (''featureTag'', tag),
                         (''provider'', JStr ''openai'')] c
                    (w\<lparr>ticks := Suc (ticks w)\<rparr>))))
   \<and> (truthy (field (config w) ''enabled'') \<longrightarrow>
        (\<exists>payload.
            posts_to ''/api/ingest''
              (snd (snd (for_await (wrapOpenAIStream (chunks, None) m tag start) c w))) =
              posts_to ''/api/ingest'' w @ [JObj payload]
          \<and> field payload ''input_tokens'' = openai_input_tokens chunks
          \<and> field payload ''output_tokens'' = openai_output_tokens chunks
          \<and> field payload ''provider'' = JStr ''openai''
          \<and> field payload ''model'' = m))
   \<and> (truthy (field params ''stream'')
        \<and> fst (openai_create cl params c' w') = Inr (Wrapped g) \<longrightarrow>
        (\<exists>stream.
            cl (last (forwarded (snd (openai_create cl params c' w')))) = Inr stream
          \<and> g = wrapOpenAIStream (iterate stream) (field params ''model'')
                  (resolved_tag (field params ''feature_tag'') (currentTag c'))
                  (clock w' (ticks w'))))"
proof (intro conjI impI)
  let ?g = "wrapOpenAIStream (chunks, None) m tag start"
  have g: "\<not> completed ?g" "ending ?g = None" "pending ?g = chunks" "wrapper ?g = OpenAIStream"
    "inputTokens ?g = JNum 0" "outputTokens ?g = JNum 0" "gen_model ?g = m"
    "gen_featureTag ?g = tag" "gen_start ?g = start"
    by (simp_all add: wrapOpenAIStream_def new_generator_def)
  have u: "inputTokens (fold loop_body chunks ?g) = openai_input_tokens chunks"
    "outputTokens (fold loop_body chunks ?g) = openai_output_tokens chunks"
    using openai_fold_usage [OF g(4), of chunks, unfolded g(5,6)]
    by (simp_all add: openai_input_tokens_def openai_output_tokens_def)
  have k: "wrapper (fold loop_body chunks ?g) \<noteq> AnthropicStream"
    by (simp add: fold_loop_body_keeps g)
  have a: "after_loop (fold loop_body chunks ?g) c w =
       snd (track [(''model'', m),
                   (''inputTokens'', openai_input_tokens chunks),
                   (''outputTokens'', openai_output_tokens chunks),
                   (''latencyMs'', JNum (clock w (ticks w) - start)),
                   (''featureTag'', tag),
                   (''provider'', JStr ''openai'')] c
              (w\<lparr>ticks := Suc (ticks w)\<rparr>))"
    unfolding after_loop_track [OF k] u by (simp add: fold_loop_body_keeps g)
  have f: "for_await ?g c w =
      ((chunks, None), fst (snd (for_await ?g c w)),
       snd (track [(''model'', m),
                   (''inputTokens'', openai_input_tokens chunks),
                   (''outputTokens'', openai_output_tokens chunks),
                   (''latencyMs'', JNum (clock w (ticks w) - start)),
                   (''featureTag'', tag),
                   (''provider'', JStr ''openai'')] c
              (w\<lparr>ticks := Suc (ticks w)\<rparr>)))"
    by (subst a [symmetric]) (rule for_await_result [OF g(1,2), unfolded g(3)])
  then show "\<exists>g'. for_await ?g c w =
            ((chunks, None), g',
             snd (track [(''model'', m),
                         (''inputTokens'', openai_input_tokens chunks),
                         (''outputTokens'', openai_output_tokens chunks),
                         (''latencyMs'', JNum (clock w (ticks w) - start)),
                         (''featureTag'', tag),
                         (''provider'', JStr ''openai'')] c
                    (w\<lparr>ticks := Suc (ticks w)\<rparr>)))"
    by blast
  show "\<exists>payload.
            posts_to ''/api/ingest'' (snd (snd (for_await ?g c w))) =
              posts_to ''/api/ingest'' w @ [JObj payload]
          \<and> field payload ''input_tokens'' = openai_input_tokens chunks
          \<and> field payload ''output_tokens'' = openai_output_tokens chunks
          \<and> field payload ''provider'' = JStr ''openai''
          \<and> field payload ''model'' = m"
    if e: "truthy (field (config w) ''enabled'')"
  proof -
    from after_loop_ingest [OF e, of "fold loop_body chunks ?g" c] obtain payload where
      "posts_to ''/api/ingest'' (after_loop (fold loop_body chunks ?g) c w) =
         posts_to ''/api/ingest'' w @ [JObj payload]"
      "field payload ''input_tokens'' = inputTokens (fold loop_body chunks ?g)"
      "field payload ''output_tokens'' = outputTokens (fold loop_body chunks ?g)"
      "field payload ''model'' = gen_model (fold loop_body chunks ?g)"
      "field payload ''provider'' = JStr (case wrapper (fold loop_body chunks ?g) of
          OpenAIStream \<Rightarrow> ''openai'' | GeminiStream \<Rightarrow> ''gemini'' | _ \<Rightarrow> ''anthropic'')"
      by blast
    then show ?thesis
      unfolding for_await_exhausts(3) [OF g(1,2)] g(3) u
      by (intro exI [of _ payload]) (simp add: fold_loop_body_keeps g)
  qed
  show "\<exists>stream.
            cl (last (forwarded (snd (openai_create cl params c' w')))) = Inr stream
          \<and> g = wrapOpenAIStream (iterate stream) (field params ''model'')
                  (resolved_tag (field params ''feature_tag'') (currentTag c'))
                  (clock w' (ticks w'))"
    if "truthy (field params ''stream'') \<and> fst (openai_create cl params c' w') = Inr (Wrapped g)"
    using that openai_create_wraps by blast
qed

lemma posts_to_fresh: "fetches w = [] \<Longrightarrow> posts_to p w = []"
  by (simp add: posts_to_def)

lemma ready_facts:
  "field (config ready) ''enabled'' = JBool True"
  "field (config ready) ''debug'' = JBool False"
  "field (config ready) ''projectId'' = JStr ''proj-1''"
  "field (config ready) ''environment'' = JStr ''production''"
  "field (config ready) ''host'' = JStr ''https://api.agentracer.dev''"
  "field (config ready) ''trackerApiKey'' = JStr ''key''"
  "fetches ready = []" "ticks ready = 0" "clock ready = (\<lambda>n. 1000 + 7 * int n)"
  "forwarded ready = []"
  by (simp_all add: ready_def boot_def init_def field_spread default_config_def field_Cons field_Nil)

lemma openai_test_counts:
  "openai_input_tokens openai_test_chunks = JNum 15"
  "openai_output_tokens openai_test_chunks = JNum 25"
  by (simp_all add: openai_input_tokens_def openai_output_tokens_def last_where_def
      openai_reports_def openai_test_chunks_def field_Cons field_Nil nc_def)

theorem wrapOpenAIStream_passthrough_witness:
  "truthy (field (config ready) ''enabled'')
   \<and> truthy (field streamed_chat ''stream'')
   \<and> fst (openai_create (streaming_client openai_test_chunks) streamed_chat outside ready) =
       Inr (Wrapped (wrapOpenAIStream (openai_test_chunks, None) (JStr ''gpt-4'')
                       (JStr ''unknown'') 1000))
   \<and> fst (for_await (wrapOpenAIStream (openai_test_chunks, None) (JStr ''gpt-4'')
                       (JStr ''unknown'') 1000)
           outside (snd (openai_create (streaming_client openai_test_chunks) streamed_chat
                           outside ready))) = (openai_test_chunks, None)
   \<and> (\<exists>payload.
        posts_to ''/api/ingest''
          (snd (snd (for_await (wrapOpenAIStream (openai_test_chunks, None) (JStr ''gpt-4'')
                                  (JStr ''unknown'') 1000)
                       outside (snd (openai_create (streaming_client openai_test_chunks)
                                       streamed_chat outside ready))))) = [JObj payload]
        \<and> field payload ''input_tokens'' = JNum 15
        \<and> field payload ''output_tokens'' = JNum 25
        \<and> field payload ''provider'' = JStr ''openai''
        \<and> field payload ''model'' = JStr ''gpt-4'')"
proof -
  let ?g = "wrapOpenAIStream (openai_test_chunks, None) (JStr ''gpt-4'') (JStr ''unknown'') 1000"
  let ?w = "snd (openai_create (streaming_client openai_test_chunks) streamed_chat outside ready)"
  have s: "truthy (field streamed_chat ''stream'')"
    by (simp add: streamed_chat_def field_Cons)
  have o: "fst (openai_create (streaming_client openai_test_chunks) streamed_chat outside ready) =
             Inr (Wrapped ?g)"
    unfolding openai_create_streaming [OF s]
    by (simp add: Let_def streaming_client_def streamed_chat_def field_Cons field_Nil nc_def
        outside_def ready_facts)
  have w: "config ?w = config ready" "fetches ?w = []"
    unfolding openai_create_streaming [OF s]
    by (simp_all add: Let_def streaming_client_def ready_facts)
  have e: "truthy (field (config ?w) ''enabled'')" by (simp add: w ready_facts)
  show ?thesis
    using e s o
      wrapOpenAIStream_passthrough [where chunks = openai_test_chunks and m = "JStr ''gpt-4''"
        and tag = "JStr ''unknown''" and start = 1000 and c = outside and w = ?w
        and params = streamed_chat and cl = "streaming_client openai_test_chunks"
        and c' = outside and w' = ready and g = ?g]
    by (auto simp: openai_test_counts posts_to_fresh w ready_facts)
qed

lemma anthropic_fold_usage:
  assumes "wrapper g = AnthropicStream \<or> wrapper g = AnthropicStreamTrack"
  shows "inputTokens (fold loop_body events g) =
           (case last_where anthropic_reports_input events of
              Some ev \<Rightarrow> nc (member (member (field ev ''message'') ''usage'') ''input_tokens'') (JNum 0)
            | None \<Rightarrow> inputTokens g)
       \<and> outputTokens (fold loop_body events g) =
           (case last_where anthropic_reports_output events of
              Some ev \<Rightarrow> nc (member (field ev ''usage'') ''output_tokens'') (JNum 0)
            | None \<Rightarrow> outputTokens g)"
  using assms
  by (induction events rule: rev_induct)
     (auto simp: last_where_def loop_body_def fold_loop_body_keeps anthropic_event_def
       anthropic_reports_input_def anthropic_reports_output_def Let_def)

text \<open>
  C6. A consumer that reads the stream wrapped by \<open>wrapAnthropicStream\<close> (either
  version) to its end receives exactly the events of the underlying stream, in their
  order and unchanged, and the reading ends with one telemetry call, made after the last
  event: \<open>sendTelemetry\<close> in src/anthropic.ts, \<open>track\<close> in the version the adapter
  uses. Its input count is \<open>message.usage.input_tokens\<close> of the last \<open>message_start\<close>
  event that carries a usage, its output count is \<open>usage.output_tokens\<close> of the last
  \<open>message_delta\<close> event that carries one (later events overwrite earlier ones), and
  each is 0 when there is no such event. With telemetry enabled, the reading adds exactly
  one payload to those posted to \<open>/api/ingest\<close>, and it carries these counts. The
  generator a streaming call of the adapter gives back is the wrapper, around the stream
  the client resolved with.
\<close>

theorem wrapAnthropicStream_usage:
  "(\<exists>g'. for_await (wrapAnthropicStream (events, None) m tag start) c w =
            ((events, None), g',
             snd (sendTelemetry
                    [(''project_id'', field (config w) ''projectId''),
                     (''provider'', JStr ''anthropic''),
                     (''model'', m),
                     (''feature_tag'', tag),
                     (''input_tokens'', anthropic_input_tokens events),
                     (''output_tokens'', anthropic_output_tokens events),
                     (''latency_ms'', JNum (clock w (ticks w) - start)),
                     (''environment'', field (config w) ''environment'')]
                    (w\<lparr>ticks := Suc (ticks w)\<rparr>))))
   \<and> (\<exists>g'. for_await (wrapAnthropicStream_track (events, None) m tag start) c w =
            ((events, None), g',
             snd (track [(''model'', m),
                         (''inputTokens'', anthropic_input_tokens events),
                         (''outputTokens'', anthropic_output_tokens events),
                         (''latencyMs'', JNum (clock w (ticks w) - start)),
                         (''featureTag'', tag),
                         (''provider'', JStr ''anthropic'')] c
                    (w\<lparr>ticks := Suc (ticks w)\<rparr>))))
   \<and> (truthy (field (config w) ''enabled'')
        \<and> (wrap = wrapAnthropicStream \<or> wrap = wrapAnthropicStream_track) \<longrightarrow>
        (\<exists>payload.
            posts_to ''/api/ingest'' (snd (snd (for_await (wrap (events, None) m tag start) c w))) =
              posts_to ''/api/ingest'' w @ [JObj payload]
          \<and> field payload ''input_tokens'' = anthropic_input_tokens events
          \<and> field payload ''output_tokens'' = anthropic_output_tokens events
          \<and> field payload ''provider'' = JStr ''anthropic''
          \<and> field payload ''model'' = m))
   \<and> (truthy (field params ''stream'')
        \<and> fst (anthropic_create cl params c' w') = Inr (Wrapped g) \<longrightarrow>
        (\<exists>stream.
            cl (last (forwarded (snd (anthropic_create cl params c' w')))) = Inr stream
          \<and> g = wrapAnthropicStream_track (iterate stream) (field params ''model'')
                  (resolved_tag (field params ''feature_tag'') (currentTag c'))
                  (clock w' (ticks w'))))"
proof (intro conjI impI)
  let ?d = "wrapAnthropicStream (events, None) m tag start"
  let ?t = "wrapAnthropicStream_track (events, None) m tag start"
  have d: "\<not> completed ?d" "ending ?d = None" "pending ?d = events" "wrapper ?d = AnthropicStream"
    "inputTokens ?d = JNum 0" "outputTokens ?d = JNum 0" "gen_model ?d = m"
    "gen_featureTag ?d = tag" "gen_start ?d = start"
    by (simp_all add: wrapAnthropicStream_def new_generator_def)
  have t: "\<not> completed ?t" "ending ?t = None" "pending ?t = events"
    "wrapper ?t = AnthropicStreamTrack"
    "inputTokens ?t = JNum 0" "outputTokens ?t = JNum 0" "gen_model ?t = m"
    "gen_featureTag ?t = tag" "gen_start ?t = start"
    by (simp_all add: wrapAnthropicStream_track_def new_generator_def)
  have ud: "inputTokens (fold loop_body events ?d) = anthropic_input_tokens events"
    "outputTokens (fold loop_body events ?d) = anthropic_output_tokens events"
    using anthropic_fold_usage [of ?d events, unfolded d(5,6)] d(4)
    by (simp_all add: anthropic_input_tokens_def anthropic_output_tokens_def)
  have ut: "inputTokens (fold loop_body events ?t) = anthropic_input_tokens events"
    "outputTokens (fold loop_body events ?t) = anthropic_output_tokens events"
    using anthropic_fold_usage [of ?t events, unfolded t(5,6)] t(4)
    by (simp_all add: anthropic_input_tokens_def anthropic_output_tokens_def)
  have kd: "wrapper (fold loop_body events ?d) = AnthropicStream"
    by (simp add: fold_loop_body_keeps d)
  have kt: "wrapper (fold loop_body events ?t) \<noteq> AnthropicStream"
    by (simp add: fold_loop_body_keeps t)
  have ad: "after_loop (fold loop_body events ?d) c w =
       snd (sendTelemetry
              [(''project_id'', field (config w) ''projectId''),
               (''provider'', JStr ''anthropic''),
               (''model'', m),
               (''feature_tag'', tag),
               (''input_tokens'', anthropic_input_tokens events),
               (''output_tokens'', anthropic_output_tokens events),
               (''latency_ms'', JNum (clock w (ticks w) - start)),
               (''environment'', field (config w) ''environment'')]
              (w\<lparr>ticks := Suc (ticks w)\<rparr>))"
    unfolding after_loop_direct [OF kd] ud by (simp add: fold_loop_body_keeps d)
  have at: "after_loop (fold loop_body events ?t) c w =
       snd (track [(''model'', m),
                   (''inputTokens'', anthropic_input_tokens events),
                   (''outputTokens'', anthropic_output_tokens events),
                   (''latencyMs'', JNum (clock w (ticks w) - start)),
                   (''featureTag'', tag),
                   (''provider'', JStr ''anthropic'')] c
              (w\<lparr>ticks := Suc (ticks w)\<rparr>))"
    unfolding after_loop_track [OF kt] ut by (simp add: fold_loop_body_keeps t)
  have "for_await ?d c w =
      ((events, None), fst (snd (for_await ?d c w)),
       snd (sendTelemetry
              [(''project_id'', field (config w) ''projectId''),
               (''provider'', JStr ''anthropic''),
               (''model'', m),
               (''feature_tag'', tag),
               (''input_tokens'', anthropic_input_tokens events),
               (''output_tokens'', anthropic_output_tokens events),
               (''latency_ms'', JNum (clock w (ticks w) - start)),
               (''environment'', field (config w) ''environment'')]
              (w\<lparr>ticks := Suc (ticks w)\<rparr>)))"
    by (subst ad [symmetric]) (rule for_await_result [OF d(1,2), unfolded d(3)])
  then show "\<exists>g'. for_await ?d c w =
            ((events, None), g',
             snd (sendTelemetry
                    [(''project_id'', field (config w) ''projectId''),
                     (''provider'', JStr ''anthropic''),
                     (''model'', m),
                     (''feature_tag'', tag),
                     (''input_tokens'', anthropic_input_tokens events),
                     (''output_tokens'', anthropic_output_tokens events),
                     (''latency_ms'', JNum (clock w (ticks w) - start)),
                     (''environment'', field (config w) ''environment'')]
                    (w\<lparr>ticks := Suc (ticks w)\<rparr>)))"
    by blast
  have "for_await ?t c w =
      ((events, None), fst (snd (for_await ?t c w)),
       snd (track [(''model'', m),
                   (''inputTokens'', anthropic_input_tokens events),
                   (''outputTokens'', anthropic_output_tokens events),
                   (''latencyMs'', JNum (clock w (ticks w) - start)),
                   (''featureTag'', tag),
                   (''provider'', JStr ''anthropic'')] c
              (w\<lparr>ticks := Suc (ticks w)\<rparr>)))"
    by (subst at [symmetric]) (rule for_await_result [OF t(1,2), unfolded t(3)])
  then show "\<exists>g'. for_await ?t c w =
            ((events, None), g',
             snd (track [(''model'', m),
                         (''inputTokens'', anthropic_input_tokens events),
                         (''outputTokens'', anthropic_output_tokens events),
                         (''latencyMs'', JNum (clock w (ticks w) - start)),
                         (''featureTag'', tag),
                         (''provider'', JStr ''anthropic'')] c
                    (w\<lparr>ticks := Suc (ticks w)\<rparr>)))"
    by blast
  show "\<exists>payload.
            posts_to ''/api/ingest'' (snd (snd (for_await (wrap (events, None) m tag start) c w))) =
              posts_to ''/api/ingest'' w @ [JObj payload]
          \<and> field payload ''input_tokens'' = anthropic_input_tokens events
          \<and> field payload ''output_tokens'' = anthropic_output_tokens events
          \<and> field payload ''provider'' = JStr ''anthropic''
          \<and> field payload ''model'' = m"
    if h: "truthy (field (config w) ''enabled'')
        \<and> (wrap = wrapAnthropicStream \<or> wrap = wrapAnthropicStream_track)"
  proof -
    let ?g = "wrap (events, None) m tag start"
    from h have e: "truthy (field (config w) ''enabled'')" by simp
    from h have g: "\<not> completed ?g" "ending ?g = None" "pending ?g = events" "gen_model ?g = m"
      "wrapper ?g = AnthropicStream \<or> wrapper ?g = AnthropicStreamTrack"
      "inputTokens (fold loop_body events ?g) = anthropic_input_tokens events"
      "outputTokens (fold loop_body events ?g) = anthropic_output_tokens events"
      using d t ud ut by auto
    from after_loop_ingest [OF e, of "fold loop_body events ?g" c] obtain payload where
      p: "posts_to ''/api/ingest'' (after_loop (fold loop_body events ?g) c w) =
         posts_to ''/api/ingest'' w @ [JObj payload]"
      "field payload ''input_tokens'' = inputTokens (fold loop_body events ?g)"
      "field payload ''output_tokens'' = outputTokens (fold loop_body events ?g)"
      "field payload ''model'' = gen_model (fold loop_body events ?g)"
      "field payload ''provider'' = JStr (case wrapper (fold loop_body events ?g) of
          OpenAIStream \<Rightarrow> ''openai'' | GeminiStream \<Rightarrow> ''gemini'' | _ \<Rightarrow> ''anthropic'')"
      by blast
    have "field payload ''provider'' = JStr ''anthropic''"
      using p(5) g(5) by (auto simp: fold_loop_body_keeps)
    with p(1-4) show ?thesis
      unfolding for_await_exhausts(3) [OF g(1,2)] g(3) g(6,7)
      by (intro exI [of _ payload]) (simp add: fold_loop_body_keeps g(4))
  qed
  show "\<exists>stream.
            cl (last (forwarded (snd (anthropic_create cl params c' w')))) = Inr stream
          \<and> g = wrapAnthropicStream_track (iterate stream) (field params ''model'')
                  (resolved_tag (field params ''feature_tag'') (currentTag c'))
                  (clock w' (ticks w'))"
    if "truthy (field params ''stream'') \<and> fst (anthropic_create cl params c' w') = Inr (Wrapped g)"
    using that anthropic_create_wraps by blast
qed

lemma anthropic_test_counts:
  "anthropic_input_tokens anthropic_test_events = JNum 100"
  "anthropic_output_tokens anthropic_test_events = JNum 40"
  by (simp_all add: anthropic_input_tokens_def anthropic_output_tokens_def last_where_def
      anthropic_reports_input_def anthropic_reports_output_def anthropic_test_events_def
      field_Cons field_Nil opt_def nc_def)

theorem wrapAnthropicStream_usage_witness:
  "truthy (field (config ready) ''enabled'')
   \<and> truthy (field streamed_message ''stream'')
   \<and> fst (anthropic_create (streaming_client anthropic_test_events) streamed_message outside ready) =
       Inr (Wrapped (wrapAnthropicStream_track (anthropic_test_events, None)
                       (JStr ''claude-3-opus-20240229'') (JStr ''unknown'') 1000))
   \<and> length anthropic_test_events = 5
   \<and> fst (for_await (wrapAnthropicStream_track (anthropic_test_events, None)
                       (JStr ''claude-3-opus-20240229'') (JStr ''unknown'') 1000)
           outside (snd (anthropic_create (streaming_client anthropic_test_events)
                           streamed_message outside ready))) = (anthropic_test_events, None)
   \<and> (\<exists>payload.
        posts_to ''/api/ingest''
          (snd (snd (for_await (wrapAnthropicStream_track (anthropic_test_events, None)
                                  (JStr ''claude-3-opus-20240229'') (JStr ''unknown'') 1000)
                       outside (snd (anthropic_create (streaming_client anthropic_test_events)
                                       streamed_message outside ready))))) = [JObj payload]
        \<and> field payload ''input_tokens'' = JNum 100
        \<and> field payload ''output_tokens'' = JNum 40
        \<and> field payload ''provider'' = JStr ''anthropic''
        \<and> field payload ''model'' = JStr ''claude-3-opus-20240229'')"
proof -
  let ?g = "wrapAnthropicStream_track (anthropic_test_events, None)
              (JStr ''claude-3-opus-20240229'') (JStr ''unknown'') 1000"
  let ?w = "snd (anthropic_create (streaming_client anthropic_test_events) streamed_message
                   outside ready)"
  have s: "truthy (field streamed_message ''stream'')"
    by (simp add: streamed_message_def field_Cons)
  have o: "fst (anthropic_create (streaming_client anthropic_test_events) streamed_message
                  outside ready) = Inr (Wrapped ?g)"
    unfolding anthropic_create_streaming [OF s]
    by (simp add: Let_def streaming_client_def streamed_message_def field_Cons field_Nil nc_def
        outside_def ready_facts)
  have w: "config ?w = config ready" "fetches ?w = []"
    unfolding anthropic_create_streaming [OF s]
    by (simp_all add: Let_def streaming_client_def ready_facts)
  have e: "truthy (field (config ?w) ''enabled'')" by (simp add: w ready_facts)
  have n: "length anthropic_test_events = 5" by (simp add: anthropic_test_events_def)
  show ?thesis
    using e s o n
      wrapAnthropicStream_usage [where events = anthropic_test_events
        and m = "JStr ''claude-3-opus-20240229''"
        and tag = "JStr ''unknown''" and start = 1000 and c = outside and w = ?w
        and wrap = wrapAnthropicStream_track
        and params = streamed_message and cl = "streaming_client anthropic_test_events"
        and c' = outside and w' = ready and g = ?g]
    by (auto simp: anthropic_test_counts posts_to_fresh w ready_facts)
qed

lemma anthropic_event_silent:
  "\<not> anthropic_reports_input x \<Longrightarrow> \<not> anthropic_reports_output x \<Longrightarrow> anthropic_event x g = g"
  unfolding anthropic_event_def anthropic_reports_input_def anthropic_reports_output_def
  by (cases "field x ''type'' = JStr ''message_start''";
      cases "field x ''type'' = JStr ''message_delta''") simp_all

lemma silent_loop_body: "silent (wrapper g) x \<Longrightarrow> loop_body x g = g"
  by (cases "wrapper g")
     (simp_all add: silent_def loop_body_def openai_chunk_def anthropic_event_silent
       gemini_chunk_def openai_reports_def Let_def)

lemma silent_fold_loop_body:
  "\<forall>x \<in> set ys. silent (wrapper g) x \<Longrightarrow> fold loop_body ys g = g"
  by (induction ys) (simp_all add: silent_loop_body)

lemma new_generator_pending:
  "new_generator k (xs @ ys, None) m tag start =
     (new_generator k (xs, None) m tag start)\<lparr>pending := xs @ ys\<rparr>"
  by (simp add: new_generator_def)

lemma gemini_fold_usage:
  assumes "wrapper g = GeminiStream"
  shows "inputTokens (fold loop_body chunks g) =
           (case last_where gemini_reports chunks of
              Some ch \<Rightarrow> nc (member (field ch ''usageMetadata'') ''promptTokenCount'') (JNum 0)
            | None \<Rightarrow> inputTokens g)
       \<and> outputTokens (fold loop_body chunks g) =
           (case last_where gemini_reports chunks of
              Some ch \<Rightarrow> nc (member (field ch ''usageMetadata'') ''candidatesTokenCount'') (JNum 0)
            | None \<Rightarrow> outputTokens g)"
  using assms
  by (induction chunks rule: rev_induct)
     (simp_all add: last_where_def loop_body_def fold_loop_body_keeps gemini_chunk_def
       gemini_reports_def Let_def)

lemma fold_usage_last_known:
  assumes "inputTokens g = JNum 0" and "outputTokens g = JNum 0"
  shows "(inputTokens (fold loop_body xs g), outputTokens (fold loop_body xs g)) =
           last_known (wrapper g) xs"
proof (cases "wrapper g")
  case OpenAIStream
  from openai_fold_usage [OF this, of xs] show ?thesis
    unfolding assms
    by (simp add: OpenAIStream last_known_def openai_input_tokens_def openai_output_tokens_def)
next
  case AnthropicStream
  then have "wrapper g = AnthropicStream \<or> wrapper g = AnthropicStreamTrack" by simp
  from anthropic_fold_usage [OF this, of xs] show ?thesis
    unfolding assms
    by (simp add: AnthropicStream last_known_def anthropic_input_tokens_def
        anthropic_output_tokens_def)
next
  case AnthropicStreamTrack
  then have "wrapper g = AnthropicStream \<or> wrapper g = AnthropicStreamTrack" by simp
  from anthropic_fold_usage [OF this, of xs] show ?thesis
    unfolding assms
    by (simp add: AnthropicStreamTrack last_known_def anthropic_input_tokens_def
        anthropic_output_tokens_def)
next
  case GeminiStream
  from gemini_fold_usage [OF this, of xs] show ?thesis
    unfolding assms
    by (simp add: GeminiStream last_known_def gemini_input_tokens_def gemini_output_tokens_def)
qed

lemma last_known_Nil: "last_known k [] = (JNum 0, JNum 0)"
  by (cases k)
     (simp_all add: last_known_def last_where_def openai_input_tokens_def
       openai_output_tokens_def anthropic_input_tokens_def anthropic_output_tokens_def
       gemini_input_tokens_def gemini_output_tokens_def)

text \<open>
  C5 as amended. When the underlying stream ends and the consumer has read it to that
  end, telemetry is emitted once, whatever the events reported. If the events after some
  point report no usage, the consumer receives them all and the reading leaves the
  process as the reading of the stream cut at that point leaves it. With telemetry
  enabled that is exactly one more payload posted to \<open>/api/ingest\<close>, and its counts
  are the last-known ones at that point: what the last usage report carried, 0 for a
  count that report lacks, and 0 for both when no event reported usage. When the
  consumer leaves its loop after \<open>n\<close> of the events, or the underlying stream raises
  after its events, the consumer has received those events (and the error), and the
  process is as it was before the reading: no telemetry is emitted.
\<close>

theorem exhausted_stream_reports_last_known:
  "((\<forall>x \<in> set ys. silent k x) \<longrightarrow>
      (\<exists>g'. for_await (new_generator k (xs @ ys, None) m tag start) c w =
               ((xs @ ys, None), g',
                snd (snd (for_await (new_generator k (xs, None) m tag start) c w))))
    \<and> (truthy (field (config w) ''enabled'') \<longrightarrow>
         (\<exists>payload.
             posts_to ''/api/ingest''
               (snd (snd (for_await (new_generator k (xs @ ys, None) m tag start) c w))) =
               posts_to ''/api/ingest'' w @ [JObj payload]
           \<and> (field payload ''input_tokens'', field payload ''output_tokens'') =
               last_known k xs)))
   \<and> last_known k [] = (JNum 0, JNum 0)
   \<and> (n \<le> length evs \<longrightarrow>
        fst (for_await_break n (new_generator k (evs, e) m tag start) c w) = (take n evs, None)
      \<and> snd (snd (for_await_break n (new_generator k (evs, e) m tag start) c w)) = w)
   \<and> fst (for_await (new_generator k (evs, Some err) m tag start) c w) = (evs, Some err)
   \<and> snd (snd (for_await (new_generator k (evs, Some err) m tag start) c w)) = w"
proof (intro conjI impI)
  let ?b = "new_generator k (evs, e) m tag start"
  let ?r = "new_generator k (evs, Some err) m tag start"
  have b: "pending ?b = evs" "\<not> completed ?b" by (simp_all add: new_generator_def)
  have r: "pending ?r = evs" "\<not> completed ?r" "ending ?r = Some err"
    by (simp_all add: new_generator_def)
  show "last_known k [] = (JNum 0, JNum 0)" by (rule last_known_Nil)
  show "fst (for_await ?r c w) = (evs, Some err)"
    using for_await_rejects_aux [OF r, of c w] by simp
  show "snd (snd (for_await ?r c w)) = w"
    using for_await_rejects_aux [OF r, of c w] by simp
  show "fst (for_await_break n ?b c w) = (take n evs, None)" if "n \<le> length evs"
    using for_await_break_early [of n ?b c w] that b by simp
  show "snd (snd (for_await_break n ?b c w)) = w" if "n \<le> length evs"
    using for_await_break_early [of n ?b c w] that b by simp
next
  assume si: "\<forall>x \<in> set ys. silent k x"
  let ?g = "new_generator k (xs @ ys, None) m tag start"
  let ?s = "new_generator k (xs, None) m tag start"
  have g: "\<not> completed ?g" "ending ?g = None" "pending ?g = xs @ ys" "wrapper ?g = k"
    by (simp_all add: new_generator_def)
  have s: "\<not> completed ?s" "ending ?s = None" "pending ?s = xs" "wrapper ?s = k"
    "inputTokens ?s = JNum 0" "outputTokens ?s = JNum 0"
    by (simp_all add: new_generator_def)
  have "fold loop_body (xs @ ys) ?g = fold loop_body xs ?g"
    using si by (simp add: silent_fold_loop_body fold_loop_body_keeps g)
  also have "\<dots> = (fold loop_body xs ?s)\<lparr>pending := xs @ ys\<rparr>"
    by (simp add: new_generator_pending fold_loop_body_pending)
  finally have a: "after_loop (fold loop_body (xs @ ys) ?g) c w = after_loop (fold loop_body xs ?s) c w"
    by (simp add: after_loop_pending)
  have "for_await ?g c w =
      ((xs @ ys, None), fst (snd (for_await ?g c w)), snd (snd (for_await ?s c w)))"
    unfolding for_await_exhausts(3) [OF s(1,2)] s(3) a [symmetric]
    by (rule for_await_result [OF g(1,2), unfolded g(3)])
  then show "\<exists>g'. for_await ?g c w = ((xs @ ys, None), g', snd (snd (for_await ?s c w)))"
    by blast
  show "\<exists>payload.
          posts_to ''/api/ingest'' (snd (snd (for_await ?g c w))) =
            posts_to ''/api/ingest'' w @ [JObj payload]
        \<and> (field payload ''input_tokens'', field payload ''output_tokens'') = last_known k xs"
    if en: "truthy (field (config w) ''enabled'')"
  proof -
    from after_loop_ingest [OF en, of "fold loop_body xs ?s" c] obtain payload where
      p: "posts_to ''/api/ingest'' (after_loop (fold loop_body xs ?s) c w) =
            posts_to ''/api/ingest'' w @ [JObj payload]"
        "field payload ''input_tokens'' = inputTokens (fold loop_body xs ?s)"
        "field payload ''output_tokens'' = outputTokens (fold loop_body xs ?s)"
      by blast
    from fold_usage_last_known [OF s(5,6), of xs]
    have "(field payload ''input_tokens'', field payload ''output_tokens'') = last_known k xs"
      unfolding s(4) using p(2,3) by simp
    with p(1) show ?thesis
      unfolding for_await_exhausts(3) [OF g(1,2)] g(3) a
      by (intro exI [of _ payload]) simp
  qed
qed

theorem exhausted_stream_reports_last_known_witness:
  "truthy (field (config ready) ''enabled'')
   \<and> silent AnthropicStreamTrack text_delta
   \<and> last_known AnthropicStreamTrack [message_start_100] = (JNum 100, JNum 0)
   \<and> fst (for_await (wrapAnthropicStream_track ([message_start_100, text_delta, text_delta], None)
                       (JStr ''claude-3-haiku-20240307'') (JStr ''unknown'') 1000) outside ready)
       = ([message_start_100, text_delta, text_delta], None)
   \<and> (\<exists>payload.
        posts_to ''/api/ingest''
          (snd (snd (for_await (wrapAnthropicStream_track
                                  ([message_start_100, text_delta, text_delta], None)
                                  (JStr ''claude-3-haiku-20240307'') (JStr ''unknown'') 1000)
                       outside ready)))
          = [JObj payload]
        \<and> field payload ''input_tokens'' = JNum 100
        \<and> field payload ''output_tokens'' = JNum 0)
   \<and> silent GeminiStream candidate_chunk
   \<and> (\<exists>payload.
        posts_to ''/api/ingest''
          (snd (snd (for_await (wrapGeminiStream ([candidate_chunk, candidate_chunk], None)
                                  (JStr ''gemini-pro'') (JStr ''unknown'') 1000)
                       outside ready)))
          = [JObj payload]
        \<and> field payload ''input_tokens'' = JNum 0
        \<and> field payload ''output_tokens'' = JNum 0)
   \<and> fst (for_await_break (Suc 0) (wrapGeminiStream ([candidate_chunk, candidate_chunk], None)
                                     (JStr ''gemini-pro'') (JStr ''unknown'') 1000)
           outside ready) = ([candidate_chunk], None)
   \<and> fetches (snd (snd (for_await_break (Suc 0)
                           (wrapGeminiStream ([candidate_chunk, candidate_chunk], None)
                              (JStr ''gemini-pro'') (JStr ''unknown'') 1000)
                           outside ready))) = []
   \<and> fst (for_await (wrapGeminiStream ([candidate_chunk], Some connection_reset)
                       (JStr ''gemini-pro'') (JStr ''unknown'') 1000) outside ready)
       = ([candidate_chunk], Some connection_reset)
   \<and> fetches (snd (snd (for_await (wrapGeminiStream ([candidate_chunk], Some connection_reset)
                                     (JStr ''gemini-pro'') (JStr ''unknown'') 1000)
                          outside ready))) = []"
proof -
  have e: "truthy (field (config ready) ''enabled'')" by (simp add: ready_facts)
  have s: "silent AnthropicStreamTrack text_delta" "silent GeminiStream candidate_chunk"
    by (simp_all add: silent_def anthropic_reports_input_def anthropic_reports_output_def
        text_delta_def candidate_chunk_def field_Cons field_Nil)
  have l: "last_known AnthropicStreamTrack [message_start_100] = (JNum 100, JNum 0)"
    by (simp add: last_known_def anthropic_input_tokens_def anthropic_output_tokens_def
        last_where_def anthropic_reports_input_def anthropic_reports_output_def
        message_start_100_def field_Cons field_Nil opt_def nc_def)
  note a = exhausted_stream_reports_last_known [where k = AnthropicStreamTrack
      and xs = "[message_start_100]" and ys = "[text_delta, text_delta]"
      and m = "JStr ''claude-3-haiku-20240307''" and tag = "JStr ''unknown''" and start = 1000
      and c = outside and w = ready and n = 0 and evs = "[]" and e = None
      and err = connection_reset]
  note b = exhausted_stream_reports_last_known [where k = GeminiStream
      and xs = "[]" and ys = "[candidate_chunk, candidate_chunk]"
      and m = "JStr ''gemini-pro''" and tag = "JStr ''unknown''" and start = 1000
      and c = outside and w = ready and n = "Suc 0" and evs = "[candidate_chunk, candidate_chunk]"
      and e = None and err = connection_reset]
  note d = exhausted_stream_reports_last_known [where k = GeminiStream
      and xs = "[]" and ys = "[]"
      and m = "JStr ''gemini-pro''" and tag = "JStr ''unknown''" and start = 1000
      and c = outside and w = ready and n = 0 and evs = "[candidate_chunk]"
      and e = None and err = connection_reset]
  have 1: "fst (for_await (wrapAnthropicStream_track ([message_start_100, text_delta, text_delta], None)
                       (JStr ''claude-3-haiku-20240307'') (JStr ''unknown'') 1000) outside ready)
       = ([message_start_100, text_delta, text_delta], None)
   \<and> (\<exists>payload.
        posts_to ''/api/ingest''
          (snd (snd (for_await (wrapAnthropicStream_track
                                  ([message_start_100, text_delta, text_delta], None)
                                  (JStr ''claude-3-haiku-20240307'') (JStr ''unknown'') 1000)
                       outside ready)))
          = [JObj payload]
        \<and> field payload ''input_tokens'' = JNum 100
        \<and> field payload ''output_tokens'' = JNum 0)"
    using a e s(1) by (auto simp: l posts_to_fresh ready_facts wrapAnthropicStream_track_def)
  have 2: "\<exists>payload.
        posts_to ''/api/ingest''
          (snd (snd (for_await (wrapGeminiStream ([candidate_chunk, candidate_chunk], None)
                                  (JStr ''gemini-pro'') (JStr ''unknown'') 1000)
                       outside ready)))
          = [JObj payload]
        \<and> field payload ''input_tokens'' = JNum 0
        \<and> field payload ''output_tokens'' = JNum 0"
    using b e s(2) by (auto simp: posts_to_fresh ready_facts wrapGeminiStream_def)
  have 3: "fst (for_await_break (Suc 0) (wrapGeminiStream ([candidate_chunk, candidate_chunk], None)
                                     (JStr ''gemini-pro'') (JStr ''unknown'') 1000)
           outside ready) = ([candidate_chunk], None)
   \<and> fetches (snd (snd (for_await_break (Suc 0)
                           (wrapGeminiStream ([candidate_chunk, candidate_chunk], None)
                              (JStr ''gemini-pro'') (JStr ''unknown'') 1000)
                           outside ready))) = []"
    using b by (simp add: wrapGeminiStream_def ready_facts del: for_await_break.simps)
  have 4: "fst (for_await (wrapGeminiStream ([candidate_chunk], Some connection_reset)
                       (JStr ''gemini-pro'') (JStr ''unknown'') 1000) outside ready)
       = ([candidate_chunk], Some connection_reset)
   \<and> fetches (snd (snd (for_await (wrapGeminiStream ([candidate_chunk], Some connection_reset)
                                     (JStr ''gemini-pro'') (JStr ''unknown'') 1000)
                          outside ready))) = []"
    using d by (simp add: wrapGeminiStream_def ready_facts)
  from e s l 1 2 3 4 show ?thesis by blast
qed

text \<open>
  C5 as stated fails. In a process with telemetry enabled and nothing sent yet: a
  consumer that leaves its loop after the first of two chunks of a stream without usage
  gets that chunk, the generator is completed, and no request has been made; and when
  the underlying stream breaks off with an error after one event, the consumer gets the
  event and the error, and again no request has been made.
\<close>

theorem stream_not_exhausted_counterexample:
  "truthy (field (config ready) ''enabled'')
   \<and> fst (for_await_break (Suc 0) (wrapOpenAIStream ([content_chunk, content_chunk], None) (JStr ''gpt-4'')
                               (JStr ''unknown'') 1000) outside ready) = ([content_chunk], None)
   \<and> completed (fst (snd (for_await_break (Suc 0) (wrapOpenAIStream ([content_chunk, content_chunk], None)
                               (JStr ''gpt-4'') (JStr ''unknown'') 1000) outside ready)))
   \<and> fetches (snd (snd (for_await_break (Suc 0) (wrapOpenAIStream ([content_chunk, content_chunk], None)
                               (JStr ''gpt-4'') (JStr ''unknown'') 1000) outside ready))) = []
   \<and> fst (for_await (wrapAnthropicStream ([text_delta], Some connection_reset)
                       (JStr ''claude-3-haiku-20240307'') (JStr ''unknown'') 1000) outside ready)
       = ([text_delta], Some connection_reset)
   \<and> fetches (snd (snd (for_await (wrapAnthropicStream ([text_delta], Some connection_reset)
                       (JStr ''claude-3-haiku-20240307'') (JStr ''unknown'') 1000) outside ready))) = []"
proof -
  let ?g = "wrapOpenAIStream ([content_chunk, content_chunk], None) (JStr ''gpt-4'') (JStr ''unknown'') 1000"
  let ?h = "wrapAnthropicStream ([text_delta], Some connection_reset)
                       (JStr ''claude-3-haiku-20240307'') (JStr ''unknown'') 1000"
  have "Suc 0 \<le> length (pending ?g)" "\<not> completed ?g"
    by (simp_all add: wrapOpenAIStream_def new_generator_def)
  from for_await_break_early [OF this, of outside ready]
  have a: "fst (for_await_break (Suc 0) ?g outside ready) = ([content_chunk], None)"
    "completed (fst (snd (for_await_break (Suc 0) ?g outside ready)))"
    "snd (snd (for_await_break (Suc 0) ?g outside ready)) = ready"
    by (simp_all add: wrapOpenAIStream_def new_generator_def)
  have "pending ?h = [text_delta]" "\<not> completed ?h" "ending ?h = Some connection_reset"
    by (simp_all add: wrapAnthropicStream_def new_generator_def)
  from for_await_rejects_aux [OF this, of outside ready]
  have b: "fst (for_await ?h outside ready) = ([text_delta], Some connection_reset)"
    "snd (snd (for_await ?h outside ready)) = ready"
    by simp_all
  show ?thesis
    by (simp add: a b ready_facts del: for_await_break.simps)
qed

section \<open>Provider adapters\<close>

lemma openai_create_plain:
  assumes "\<not> truthy (field params ''stream'')"
  shows "openai_create cl params c w =
     (let sent = AList.delete ''feature_tag'' params;
          tag = nc (nc (field params ''feature_tag'') (currentTag c)) (JStr ''unknown'');
          latency = clock w (Suc (ticks w)) - clock w (ticks w);
          w3 = w\<lparr>forwarded := forwarded w @ [[JObj sent]], ticks := Suc (Suc (ticks w))\<rparr>
      in case cl [JObj sent] of
           Inl err \<Rightarrow>
             (Inl err,
              snd (track (failure_options (field params ''model'') latency tag ''openai'' err) c w3))
         | Inr response \<Rightarrow>
             (Inr (Passed response),
              snd (track [(''model'', field params ''model''),
                          (''inputTokens'', nc (opt (response_field response ''usage'') ''prompt_tokens'') (JNum 0)),
                          (''outputTokens'', nc (opt (response_field response ''usage'') ''completion_tokens'') (JNum 0)),
                          (''cachedTokens'', nc (opt (opt (response_field response ''usage'') ''prompt_tokens_details'') ''cached_tokens'') (JNum 0)),
                          (''latencyMs'', JNum latency),
                          (''featureTag'', tag),
                          (''provider'', JStr ''openai'')] c w3)))"
  using assms
  by (simp add: openai_create_def Let_def split_def call_def Date_now_def field_delete
      split: sum.splits)

lemma anthropic_create_plain:
  assumes "\<not> truthy (field params ''stream'')"
  shows "anthropic_create cl params c w =
     (let sent = AList.delete ''feature_tag'' params;
          tag = nc (nc (field params ''feature_tag'') (currentTag c)) (JStr ''unknown'');
          latency = clock w (Suc (ticks w)) - clock w (ticks w);
          w3 = w\<lparr>forwarded := forwarded w @ [[JObj sent]], ticks := Suc (Suc (ticks w))\<rparr>
      in case cl [JObj sent] of
           Inl err \<Rightarrow>
             (Inl err,
              snd (track (failure_options (field params ''model'') latency tag ''anthropic'' err) c w3))
         | Inr response \<Rightarrow>
             (Inr (Passed response),
              snd (track [(''model'', field params ''model''),
                          (''inputTokens'', nc (opt (response_field response ''usage'') ''input_tokens'') (JNum 0)),
                          (''outputTokens'', nc (opt (response_field response ''usage'') ''output_tokens'') (JNum 0)),
                          (''cachedTokens'', nc (opt (response_field response ''usage'') ''cache_read_input_tokens'') (JNum 0)),
                          (''latencyMs'', JNum latency),
                          (''featureTag'', tag),
                          (''provider'', JStr ''anthropic'')] c w3)))"
  using assms
  by (simp add: anthropic_create_def Let_def split_def call_def Date_now_def field_delete
      split: sum.splits)

lemma generateContent_plain:
  "generateContent cl modelName params rest c w =
     (let tag = fst (extractFeatureTag params c);
          sent = snd (extractFeatureTag params c) # rest;
          latency = clock w (Suc (ticks w)) - clock w (ticks w);
          w3 = w\<lparr>forwarded := forwarded w @ [sent], ticks := Suc (Suc (ticks w))\<rparr>
      in case cl sent of
           Inl err \<Rightarrow>
             (Inl err, snd (track (failure_options modelName latency tag ''gemini'' err) c w3))
         | Inr result \<Rightarrow>
             (Inr (Passed result),
              snd (track [(''model'', modelName),
                          (''inputTokens'', nc (opt (opt (response_field result ''response'') ''usageMetadata'') ''promptTokenCount'') (JNum 0)),
                          (''outputTokens'', nc (opt (opt (response_field result ''response'') ''usageMetadata'') ''candidatesTokenCount'') (JNum 0)),
                          (''cachedTokens'', nc (opt (opt (response_field result ''response'') ''usageMetadata'') ''cachedContentTokenCount'') (JNum 0)),
                          (''latencyMs'', JNum latency),
                          (''featureTag'', tag),
                          (''provider'', JStr ''gemini'')] c w3)))"
  by (simp add: generateContent_def Let_def split_def call_def Date_now_def
      split: sum.splits)

lemma track_ingest_fields:
  assumes "truthy (field (config w) ''enabled'')"
  shows "\<exists>payload.
           posts_to ''/api/ingest'' (snd (track options c w)) = posts_to ''/api/ingest'' w @ [JObj payload]
         \<and> field payload ''input_tokens'' = field options ''inputTokens''
         \<and> field payload ''output_tokens'' = field options ''outputTokens''
         \<and> field payload ''success'' = nc (field options ''success'') (JBool True)
         \<and> field payload ''provider'' = nc (field options ''provider'') (JStr ''custom'')
         \<and> field payload ''feature_tag'' =
             nc (nc (field options ''featureTag'') (currentTag c)) (JStr ''unknown'')
         \<and> field payload ''error_type'' =
             (if nullish (field options ''errorType'') then JUndefined
              else field options ''errorType'')"
proof -
  from track_ingest [OF assms, of options c] obtain rid idx where
    "posts_to ''/api/ingest'' (snd (track options c w)) =
       posts_to ''/api/ingest'' w @ [JObj (ingest_payload options (currentTag c) rid idx (config w))]"
    by blast
  then show ?thesis
    by (intro exI [of _ "ingest_payload options (currentTag c) rid idx (config w)"])
       (simp add: ingest_payload_fields ingest_payload_run_fields)
qed

lemma resolved_tag_nc:
  "nc (nc (nc (nc e a) (JStr ''unknown'')) a') (JStr ''unknown'') = resolved_tag e a"
  by (simp add: nc_def resolved_tag_def)

lemma failure_telemetry:
  assumes "truthy (field (config w) ''enabled'')"
  shows "\<exists>payload.
           posts_to ''/api/ingest'' (snd (track (failure_options m lat tag prov err) c w)) =
             posts_to ''/api/ingest'' w @ [JObj payload]
         \<and> field payload ''success'' = JBool False
         \<and> field payload ''input_tokens'' = JNum 0
         \<and> field payload ''output_tokens'' = JNum 0
         \<and> field payload ''error_type'' =
             (if nullish (constructor_name err) then JStr ''Error'' else constructor_name err)
         \<and> field payload ''provider'' = JStr prov
         \<and> field payload ''feature_tag'' = nc (nc tag (currentTag c)) (JStr ''unknown'')"
proof -
  from track_ingest_fields [OF assms, of "failure_options m lat tag prov err" c]
  obtain payload where
    p: "posts_to ''/api/ingest'' (snd (track (failure_options m lat tag prov err) c w)) =
          posts_to ''/api/ingest'' w @ [JObj payload]"
      "field payload ''input_tokens'' = field (failure_options m lat tag prov err) ''inputTokens''"
      "field payload ''output_tokens'' = field (failure_options m lat tag prov err) ''outputTokens''"
      "field payload ''success'' = nc (field (failure_options m lat tag prov err) ''success'') (JBool True)"
      "field payload ''provider'' = nc (field (failure_options m lat tag prov err) ''provider'') (JStr ''custom'')"
      "field payload ''feature_tag'' =
         nc (nc (field (failure_options m lat tag prov err) ''featureTag'') (currentTag c)) (JStr ''unknown'')"
      "field payload ''error_type'' =
         (if nullish (field (failure_options m lat tag prov err) ''errorType'') then JUndefined
          else field (failure_options m lat tag prov err) ''errorType'')"
    by blast
  have f: "field (failure_options m lat tag prov err) ''inputTokens'' = JNum 0"
    "field (failure_options m lat tag prov err) ''outputTokens'' = JNum 0"
    "field (failure_options m lat tag prov err) ''success'' = JBool False"
    "field (failure_options m lat tag prov err) ''provider'' = JStr prov"
    "field (failure_options m lat tag prov err) ''featureTag'' = tag"
    "field (failure_options m lat tag prov err) ''errorType'' = error_type_of err"
    by (simp_all add: failure_options_def field_Cons)
  show ?thesis
    using p unfolding f
    by (intro exI [of _ payload]) (simp add: nc_def error_type_of_def)
qed

lemma invoke_plain:
  assumes "\<not> streaming ic"
  shows "\<exists>args m lat tag ok w3.
           fetches w3 = fetches w \<and> config w3 = config w \<and> forwarded w3 = forwarded w @ [args]
         \<and> invoke cl ic c w =
             (case cl args of
                Inl err \<Rightarrow>
                  (Inl err, snd (track (failure_options m lat tag (provider_name ic) err) c w3))
              | Inr response \<Rightarrow> (Inr (Passed response), snd (track (ok response) c w3)))
         \<and> (\<forall>response. field (ok response) ''featureTag'' = tag)
         \<and> (case ic of
               OpenAI_create params \<Rightarrow>
                 args = [JObj (AList.delete ''feature_tag'' params)]
                 \<and> tag = nc (nc (field params ''feature_tag'') (currentTag c)) (JStr ''unknown'')
             | Anthropic_create params \<Rightarrow>
                 args = [JObj (AList.delete ''feature_tag'' params)]
                 \<and> tag = nc (nc (field params ''feature_tag'') (currentTag c)) (JStr ''unknown'')
             | Gemini_generateContent modelName params rest \<Rightarrow>
                 args = snd (extractFeatureTag params c) # rest
                 \<and> tag = fst (extractFeatureTag params c))"
proof (cases ic)
  case (OpenAI_create params)
  with assms have s: "\<not> truthy (field params ''stream'')" by simp
  show ?thesis
    unfolding OpenAI_create invoke.simps provider_name.simps openai_create_plain [OF s] Let_def
    by (rule exI [of _ "[JObj (AList.delete ''feature_tag'' params)]"],
        rule exI [of _ "field params ''model''"],
        rule exI [of _ "clock w (Suc (ticks w)) - clock w (ticks w)"],
        rule exI [of _ "nc (nc (field params ''feature_tag'') (currentTag c)) (JStr ''unknown'')"],
        rule exI [of _ "\<lambda>response. [(''model'', field params ''model''),
                          (''inputTokens'', nc (opt (response_field response ''usage'') ''prompt_tokens'') (JNum 0)),
                          (''outputTokens'', nc (opt (response_field response ''usage'') ''completion_tokens'') (JNum 0)),
                          (''cachedTokens'', nc (opt (opt (response_field response ''usage'') ''prompt_tokens_details'') ''cached_tokens'') (JNum 0)),
                          (''latencyMs'', JNum (clock w (Suc (ticks w)) - clock w (ticks w))),
                          (''featureTag'', nc (nc (field params ''feature_tag'') (currentTag c)) (JStr ''unknown'')),
                          (''provider'', JStr ''openai'')]"],
        rule exI [of _ "w\<lparr>forwarded := forwarded w @ [[JObj (AList.delete ''feature_tag'' params)]],
                           ticks := Suc (Suc (ticks w))\<rparr>"])
       (simp add: field_Cons)
next
  case (Anthropic_create params)
  with assms have s: "\<not> truthy (field params ''stream'')" by simp
  show ?thesis
    unfolding Anthropic_create invoke.simps provider_name.simps anthropic_create_plain [OF s] Let_def
    by (rule exI [of _ "[JObj (AList.delete ''feature_tag'' params)]"],
        rule exI [of _ "field params ''model''"],
        rule exI [of _ "clock w (Suc (ticks w)) - clock w (ticks w)"],
        rule exI [of _ "nc (nc (field params ''feature_tag'') (currentTag c)) (JStr ''unknown'')"],
        rule exI [of _ "\<lambda>response. [(''model'', field params ''model''),
                          (''inputTokens'', nc (opt (response_field response ''usage'') ''input_tokens'') (JNum 0)),
                          (''outputTokens'', nc (opt (response_field response ''usage'') ''output_tokens'') (JNum 0)),
                          (''cachedTokens'', nc (opt (response_field response ''usage'') ''cache_read_input_tokens'') (JNum 0)),
                          (''latencyMs'', JNum (clock w (Suc (ticks w)) - clock w (ticks w))),
                          (''featureTag'', nc (nc (field params ''feature_tag'') (currentTag c)) (JStr ''unknown'')),
                          (''provider'', JStr ''anthropic'')]"],
        rule exI [of _ "w\<lparr>forwarded := forwarded w @ [[JObj (AList.delete ''feature_tag'' params)]],
                           ticks := Suc (Suc (ticks w))\<rparr>"])
       (simp add: field_Cons)
next
  case (Gemini_generateContent modelName params rest)
  show ?thesis
    unfolding Gemini_generateContent invoke.simps provider_name.simps generateContent_plain Let_def
    by (rule exI [of _ "snd (extractFeatureTag params c) # rest"],
        rule exI [of _ modelName],
        rule exI [of _ "clock w (Suc (ticks w)) - clock w (ticks w)"],
        rule exI [of _ "fst (extractFeatureTag params c)"],
        rule exI [of _ "\<lambda>result. [(''model'', modelName),
                          (''inputTokens'', nc (opt (opt (response_field result ''response'') ''usageMetadata'') ''promptTokenCount'') (JNum 0)),
                          (''outputTokens'', nc (opt (opt (response_field result ''response'') ''usageMetadata'') ''candidatesTokenCount'') (JNum 0)),
                          (''cachedTokens'', nc (opt (opt (response_field result ''response'') ''usageMetadata'') ''cachedContentTokenCount'') (JNum 0)),
                          (''latencyMs'', JNum (clock w (Suc (ticks w)) - clock w (ticks w))),
                          (''featureTag'', fst (extractFeatureTag params c)),
                          (''provider'', JStr ''gemini'')]"],
        rule exI [of _ "w\<lparr>forwarded := forwarded w @ [snd (extractFeatureTag params c) # rest],
                           ticks := Suc (Suc (ticks w))\<rparr>"])
       (simp add: field_Cons)
qed

text \<open>
  C3. When a non-streaming call of the OpenAI, Anthropic or Gemini adapter reaches a
  client that raises, the adapter call ends by raising that same error, after one call
  of \<open>track\<close> with \<open>success\<close> false, both token counts 0, the adapter's provider name,
  and as \<open>errorType\<close> the name of the error's class, or "Error" when the error has none;
  nothing else has been sent in between. With telemetry enabled, the adapter call adds
  exactly one payload to those posted to \<open>/api/ingest\<close>, with these values.
\<close>

theorem provider_failure_tracked_and_reraised:
  assumes "\<not> streaming ic"
    and "cl (last (forwarded (snd (invoke cl ic c w)))) = Inl err"
  shows "fst (invoke cl ic c w) = Inl err
       \<and> (\<exists>m latency tag w3.
            snd (invoke cl ic c w) =
              snd (track [(''model'', m),
                          (''inputTokens'', JNum 0),
                          (''outputTokens'', JNum 0),
                          (''latencyMs'', JNum latency),
                          (''featureTag'', tag),
                          (''provider'', JStr (provider_name ic)),
                          (''success'', JBool False),
                          (''errorType'',
                             if nullish (constructor_name err) then JStr ''Error''
                             else constructor_name err)] c w3)
          \<and> fetches w3 = fetches w \<and> config w3 = config w)
       \<and> (truthy (field (config w) ''enabled'') \<longrightarrow>
            (\<exists>payload.
                posts_to ''/api/ingest'' (snd (invoke cl ic c w)) =
                  posts_to ''/api/ingest'' w @ [JObj payload]
              \<and> field payload ''success'' = JBool False
              \<and> field payload ''input_tokens'' = JNum 0
              \<and> field payload ''output_tokens'' = JNum 0
              \<and> field payload ''error_type'' =
                  (if nullish (constructor_name err) then JStr ''Error'' else constructor_name err)
              \<and> field payload ''provider'' = JStr (provider_name ic)))"
proof -
  from invoke_plain [OF assms(1), of w cl c] obtain args m lat tag ok w3 where
    w3: "fetches w3 = fetches w" "config w3 = config w" "forwarded w3 = forwarded w @ [args]"
    and i: "invoke cl ic c w =
             (case cl args of
                Inl err \<Rightarrow>
                  (Inl err, snd (track (failure_options m lat tag (provider_name ic) err) c w3))
              | Inr response \<Rightarrow> (Inr (Passed response), snd (track (ok response) c w3)))"
    by blast
  have "forwarded (snd (invoke cl ic c w)) = forwarded w @ [args]"
    by (simp add: i track_forwarded w3 split: sum.splits)
  with assms(2) have r: "cl args = Inl err" by simp
  have j: "invoke cl ic c w =
      (Inl err, snd (track (failure_options m lat tag (provider_name ic) err) c w3))"
    by (simp add: i r)
  have 1: "fst (invoke cl ic c w) = Inl err" by (simp add: j)
  have "snd (invoke cl ic c w) =
              snd (track [(''model'', m),
                          (''inputTokens'', JNum 0),
                          (''outputTokens'', JNum 0),
                          (''latencyMs'', JNum lat),
                          (''featureTag'', tag),
                          (''provider'', JStr (provider_name ic)),
                          (''success'', JBool False),
                          (''errorType'',
                             if nullish (constructor_name err) then JStr ''Error''
                             else constructor_name err)] c w3)"
    by (simp add: j failure_options_def error_type_of_def nc_def)
  with w3 have 2: "\<exists>m latency tag w3.
            snd (invoke cl ic c w) =
              snd (track [(''model'', m),
                          (''inputTokens'', JNum 0),
                          (''outputTokens'', JNum 0),
                          (''latencyMs'', JNum latency),
                          (''featureTag'', tag),
                          (''provider'', JStr (provider_name ic)),
                          (''success'', JBool False),
                          (''errorType'',
                             if nullish (constructor_name err) then JStr ''Error''
                             else constructor_name err)] c w3)
          \<and> fetches w3 = fetches w \<and> config w3 = config w"
    by blast
  have 3: "\<exists>payload.
                posts_to ''/api/ingest'' (snd (invoke cl ic c w)) =
                  posts_to ''/api/ingest'' w @ [JObj payload]
              \<and> field payload ''success'' = JBool False
              \<and> field payload ''input_tokens'' = JNum 0
              \<and> field payload ''output_tokens'' = JNum 0
              \<and> field payload ''error_type'' =
                  (if nullish (constructor_name err) then JStr ''Error'' else constructor_name err)
              \<and> field payload ''provider'' = JStr (provider_name ic)"
    if en: "truthy (field (config w) ''enabled'')"
  proof -
    have e: "truthy (field (config w3) ''enabled'')" using en w3 by simp
    have p: "posts_to ''/api/ingest'' w3 = posts_to ''/api/ingest'' w"
      by (simp add: posts_to_def w3)
    from failure_telemetry [OF e, of m lat tag "provider_name ic" err c] obtain payload where
      "posts_to ''/api/ingest'' (snd (track (failure_options m lat tag (provider_name ic) err) c w3)) =
         posts_to ''/api/ingest'' w3 @ [JObj payload]"
      "field payload ''success'' = JBool False"
      "field payload ''input_tokens'' = JNum 0"
      "field payload ''output_tokens'' = JNum 0"
      "field payload ''error_type'' =
         (if nullish (constructor_name err) then JStr ''Error'' else constructor_name err)"
      "field payload ''provider'' = JStr (provider_name ic)"
      by blast
    then show ?thesis
      unfolding j p by (intro conjI exI [of _ payload]) simp_all
  qed
  from 1 2 3 show ?thesis by blast
qed

theorem provider_failure_tracked_and_reraised_witness:
  "truthy (field (config ready) ''enabled'')
   \<and> \<not> streaming (OpenAI_create [(''model'', JStr ''gpt-4''), (''messages'', JArr [])])
   \<and> fst (invoke failing_client (OpenAI_create [(''model'', JStr ''gpt-4''), (''messages'', JArr [])])
            outside ready) = Inl rate_limited
   \<and> (\<exists>payload.
        posts_to ''/api/ingest''
          (snd (invoke failing_client
                  (OpenAI_create [(''model'', JStr ''gpt-4''), (''messages'', JArr [])])
                  outside ready)) = [JObj payload]
        \<and> field payload ''success'' = JBool False
        \<and> field payload ''input_tokens'' = JNum 0
        \<and> field payload ''output_tokens'' = JNum 0
        \<and> field payload ''error_type'' = JStr ''RateLimitError''
        \<and> field payload ''provider'' = JStr ''openai'')"
proof -
  have e: "truthy (field (config ready) ''enabled'')" by (simp add: ready_facts)
  have s: "\<not> streaming (OpenAI_create [(''model'', JStr ''gpt-4''), (''messages'', JArr [])])"
    by (simp add: field_Cons field_Nil)
  have r: "failing_client (last (forwarded (snd (invoke failing_client
              (OpenAI_create [(''model'', JStr ''gpt-4''), (''messages'', JArr [])]) outside ready))))
            = Inl rate_limited"
    by (simp add: failing_client_def)
  show ?thesis
    using e s provider_failure_tracked_and_reraised [of
        "OpenAI_create [(''model'', JStr ''gpt-4''), (''messages'', JArr [])]" failing_client
        outside ready rate_limited, OF s r]
    by (simp add: posts_to_fresh ready_facts rate_limited_def)
qed

text \<open>
  C7. On a streaming call (a truthy \<open>stream\<close> parameter) the OpenAI adapter calls the
  real client once, with parameters whose \<open>stream_options\<close> is an object with
  \<open>include_usage\<close> true and with every other field of the caller's \<open>stream_options\<close>
  as the caller gave it; the parameters other than \<open>stream_options\<close> and
  \<open>feature_tag\<close> are the caller's. What the call gives back is decided by that client
  call: its error, or a generator around its stream.
\<close>

theorem openai_stream_injects_include_usage:
  assumes "truthy (field params ''stream'')"
  shows "\<exists>sent so.
           forwarded (snd (openai_create cl params c w)) = forwarded w @ [[JObj sent]]
         \<and> field sent ''stream_options'' = JObj so
         \<and> field so ''include_usage'' = JBool True
         \<and> (\<forall>k. k \<noteq> ''include_usage'' \<longrightarrow>
                map_of so k = map_of (own_props (field params ''stream_options'')) k)
         \<and> (\<forall>k. k \<noteq> ''stream_options'' \<and> k \<noteq> ''feature_tag'' \<longrightarrow>
                map_of sent k = map_of params k)
         \<and> (case cl [JObj sent] of
               Inl err \<Rightarrow> fst (openai_create cl params c w) = Inl err
             | Inr stream \<Rightarrow>
                 (\<exists>g. fst (openai_create cl params c w) = Inr (Wrapped g)
                      \<and> wrapper g = OpenAIStream
                      \<and> (pending g, ending g) = iterate stream))"
proof -
  let ?so = "AList.update ''include_usage'' (JBool True)
               (spread [] (own_props (field params ''stream_options'')))"
  let ?sent = "AList.update ''stream_options'' (JObj ?so) (AList.delete ''feature_tag'' params)"
  have 1: "forwarded (snd (openai_create cl params c w)) = forwarded w @ [[JObj ?sent]]"
    by (simp add: openai_create_streaming [OF assms] Let_def split: sum.splits)
  have 2: "field ?sent ''stream_options'' = JObj ?so" by (simp add: field_update)
  have 3: "field ?so ''include_usage'' = JBool True" by (simp add: field_update)
  have 4: "\<forall>k. k \<noteq> ''include_usage'' \<longrightarrow>
                map_of ?so k = map_of (own_props (field params ''stream_options'')) k"
    by (simp add: update_conv' map_of_spread)
  have 5: "\<forall>k. k \<noteq> ''stream_options'' \<and> k \<noteq> ''feature_tag'' \<longrightarrow>
                map_of ?sent k = map_of params k"
    by (simp add: update_conv' delete_conv')
  have 6: "case cl [JObj ?sent] of
               Inl err \<Rightarrow> fst (openai_create cl params c w) = Inl err
             | Inr stream \<Rightarrow>
                 (\<exists>g. fst (openai_create cl params c w) = Inr (Wrapped g)
                      \<and> wrapper g = OpenAIStream
                      \<and> (pending g, ending g) = iterate stream)"
    by (simp add: openai_create_streaming [OF assms] Let_def wrapOpenAIStream_def
        new_generator_def split: sum.splits)
  from 1 2 3 4 5 6 show ?thesis by blast
qed

theorem openai_stream_injects_include_usage_witness:
  "truthy (field [(''model'', JStr ''gpt-4''), (''messages'', JArr []), (''stream'', JBool True),
                  (''stream_options'', JObj [(''some_other'', JBool True)])] ''stream'')
   \<and> forwarded (snd (openai_create answering_client
        [(''model'', JStr ''gpt-4''), (''messages'', JArr []), (''stream'', JBool True),
         (''stream_options'', JObj [(''some_other'', JBool True)])] outside ready)) =
       [[JObj [(''model'', JStr ''gpt-4''), (''messages'', JArr []), (''stream'', JBool True),
               (''stream_options'', JObj [(''some_other'', JBool True), (''include_usage'', JBool True)])]]]"
proof -
  have s: "truthy (field [(''model'', JStr ''gpt-4''), (''messages'', JArr []), (''stream'', JBool True),
                  (''stream_options'', JObj [(''some_other'', JBool True)])] ''stream'')"
    by (simp add: field_Cons)
  have "forwarded (snd (openai_create answering_client
        [(''model'', JStr ''gpt-4''), (''messages'', JArr []), (''stream'', JBool True),
         (''stream_options'', JObj [(''some_other'', JBool True)])] outside ready)) =
       [[JObj [(''model'', JStr ''gpt-4''), (''messages'', JArr []), (''stream'', JBool True),
               (''stream_options'', JObj [(''some_other'', JBool True), (''include_usage'', JBool True)])]]]"
    by (simp add: openai_create_streaming [OF s] Let_def ready_facts field_Cons field_Nil
        spread_def keys_def answering_client_def)
  then show ?thesis
    using s openai_stream_injects_include_usage [OF s, of answering_client outside ready]
    by simp
qed

text \<open>
  C4. \<open>sendTelemetry\<close> always resolves: whatever the payload, the config and the way
  the request ends (the process \<open>w\<close> fixes how every \<open>fetch\<close> ends, by a response of
  any status or by a rejection), its promise is fulfilled. With \<open>enabled\<close> truthy it
  makes one request, to \<open>/api/ingest\<close>; otherwise it makes none and changes nothing.
  So a non-streaming adapter call whose client resolves gives back what the client
  resolved with, whatever happens to the telemetry request.
\<close>

theorem sendTelemetry_never_raises:
  "fst (sendTelemetry payload w) = Inr ()
   \<and> (truthy (field (config w) ''enabled'') \<longrightarrow>
        fetches (snd (sendTelemetry payload w)) = fetches w @ [ingest_request (config w) payload])
   \<and> (\<not> truthy (field (config w) ''enabled'') \<longrightarrow> snd (sendTelemetry payload w) = w)
   \<and> (\<not> streaming ic \<and> cl (last (forwarded (snd (invoke cl ic c w)))) = Inr response \<longrightarrow>
        fst (invoke cl ic c w) = Inr (Passed response))"
proof -
  have "fst (invoke cl ic c w) = Inr (Passed response)"
    if s: "\<not> streaming ic" and r: "cl (last (forwarded (snd (invoke cl ic c w)))) = Inr response"
  proof -
    from invoke_plain [OF s, of w cl c] obtain args m lat tag ok w3 where
      w3: "forwarded w3 = forwarded w @ [args]"
      and i: "invoke cl ic c w =
               (case cl args of
                  Inl err \<Rightarrow>
                    (Inl err, snd (track (failure_options m lat tag (provider_name ic) err) c w3))
                | Inr response \<Rightarrow> (Inr (Passed response), snd (track (ok response) c w3)))"
      by blast
    have "forwarded (snd (invoke cl ic c w)) = forwarded w @ [args]"
      by (simp add: i track_forwarded w3 split: sum.splits)
    with r have "cl args = Inr response" by simp
    then show ?thesis by (simp add: i)
  qed
  then show ?thesis
    by (simp add: sendTelemetry_fst sendTelemetry_snd)
qed

theorem sendTelemetry_never_raises_witness:
  "net ready 0 = Rejects \<lparr>constructor_name = JStr ''TypeError'', detail = JStr ''fetch failed''\<rparr>
   \<and> truthy (field (config ready) ''enabled'')
   \<and> fst (sendTelemetry [(''model'', JStr ''gpt-4'')] ready) = Inr ()
   \<and> fetches (snd (sendTelemetry [(''model'', JStr ''gpt-4'')] ready)) =
       [ingest_request (config ready) [(''model'', JStr ''gpt-4'')]]
   \<and> \<not> truthy (field (config muted) ''enabled'')
   \<and> snd (sendTelemetry [(''model'', JStr ''gpt-4'')] muted) = muted
   \<and> fst (invoke answering_client (OpenAI_create [(''model'', JStr ''gpt-4''), (''messages'', JArr [])])
            outside ready) = Inr (Passed (Response completion))"
proof -
  have n: "net ready 0 = Rejects \<lparr>constructor_name = JStr ''TypeError'', detail = JStr ''fetch failed''\<rparr>"
    by (simp add: ready_def boot_def init_def)
  have m: "\<not> truthy (field (config muted) ''enabled'')"
    by (simp add: muted_def init_def field_spread field_Cons)
  have s: "\<not> streaming (OpenAI_create [(''model'', JStr ''gpt-4''), (''messages'', JArr [])])"
    by (simp add: field_Cons field_Nil)
  have r: "answering_client (last (forwarded (snd (invoke answering_client
              (OpenAI_create [(''model'', JStr ''gpt-4''), (''messages'', JArr [])]) outside ready))))
            = Inr (Response completion)"
    by (simp add: answering_client_def)
  show ?thesis
    using n m s r
      sendTelemetry_never_raises [of "[(''model'', JStr ''gpt-4'')]" ready
        "OpenAI_create [(''model'', JStr ''gpt-4''), (''messages'', JArr [])]" answering_client
        outside "Response completion"]
      sendTelemetry_never_raises [of "[(''model'', JStr ''gpt-4'')]" muted
        "OpenAI_create [(''model'', JStr ''gpt-4''), (''messages'', JArr [])]" answering_client
        outside "Response completion"]
    by (simp add: ready_facts)
qed

lemma resolved_tag_not_nullish: "\<not> nullish (resolved_tag e a)"
  by (simp add: resolved_tag_def)

lemma invoke_plain_tag:
  assumes "truthy (field (config w) ''enabled'')" and "\<not> streaming ic"
  shows "\<exists>payload.
           posts_to ''/api/ingest'' (snd (invoke cl ic c w)) = posts_to ''/api/ingest'' w @ [JObj payload]
         \<and> field payload ''feature_tag'' =
             nc (nc (case ic of
                       OpenAI_create params \<Rightarrow> resolved_tag (field params ''feature_tag'') (currentTag c)
                     | Anthropic_create params \<Rightarrow> resolved_tag (field params ''feature_tag'') (currentTag c)
                     | Gemini_generateContent modelName params rest \<Rightarrow> fst (extractFeatureTag params c))
                   (currentTag c)) (JStr ''unknown'')"
proof -
  let ?T = "case ic of
              OpenAI_create params \<Rightarrow> resolved_tag (field params ''feature_tag'') (currentTag c)
            | Anthropic_create params \<Rightarrow> resolved_tag (field params ''feature_tag'') (currentTag c)
            | Gemini_generateContent modelName params rest \<Rightarrow> fst (extractFeatureTag params c)"
  from invoke_plain [OF assms(2), of w cl c] obtain args m lat tag ok w3 where
    w3: "fetches w3 = fetches w" "config w3 = config w"
    and i: "invoke cl ic c w =
             (case cl args of
                Inl err \<Rightarrow>
                  (Inl err, snd (track (failure_options m lat tag (provider_name ic) err) c w3))
              | Inr response \<Rightarrow> (Inr (Passed response), snd (track (ok response) c w3)))"
    and ok: "\<forall>response. field (ok response) ''featureTag'' = tag"
    and t: "case ic of
               OpenAI_create params \<Rightarrow>
                 args = [JObj (AList.delete ''feature_tag'' params)]
                 \<and> tag = nc (nc (field params ''feature_tag'') (currentTag c)) (JStr ''unknown'')
             | Anthropic_create params \<Rightarrow>
                 args = [JObj (AList.delete ''feature_tag'' params)]
                 \<and> tag = nc (nc (field params ''feature_tag'') (currentTag c)) (JStr ''unknown'')
             | Gemini_generateContent modelName params rest \<Rightarrow>
                 args = snd (extractFeatureTag params c) # rest
                 \<and> tag = fst (extractFeatureTag params c)"
    by blast
  have T: "tag = ?T" using t by (cases ic) (simp_all add: nc_resolved_tag)
  have e: "truthy (field (config w3) ''enabled'')" using assms(1) w3 by simp
  have p: "posts_to ''/api/ingest'' w3 = posts_to ''/api/ingest'' w"
    by (simp add: posts_to_def w3)
  show ?thesis
  proof (cases "cl args")
    case (Inl err)
    from failure_telemetry [OF e, of m lat tag "provider_name ic" err c] obtain payload where
      "posts_to ''/api/ingest'' (snd (track (failure_options m lat tag (provider_name ic) err) c w3)) =
         posts_to ''/api/ingest'' w3 @ [JObj payload]"
      "field payload ''feature_tag'' = nc (nc tag (currentTag c)) (JStr ''unknown'')"
      by blast
    then show ?thesis
      unfolding i Inl p T by (intro exI [of _ payload]) simp
  next
    case (Inr response)
    from track_ingest_fields [OF e, of "ok response" c] obtain payload where
      "posts_to ''/api/ingest'' (snd (track (ok response) c w3)) =
         posts_to ''/api/ingest'' w3 @ [JObj payload]"
      "field payload ''feature_tag'' =
         nc (nc (field (ok response) ''featureTag'') (currentTag c)) (JStr ''unknown'')"
      by blast
    then show ?thesis
      unfolding i Inr p using ok T by (intro exI [of _ payload]) simp
  qed
qed

lemma nc_own: "\<not> nullish t \<Longrightarrow> nc (nc t a) b = t"
  by (simp add: nc_def)

lemma truthy_not_nullish: "truthy v \<Longrightarrow> \<not> nullish v"
  by (cases v) simp_all

lemma extractFeatureTag_tagged:
  "truthy (field ps ''feature_tag'') \<Longrightarrow>
   extractFeatureTag (JObj ps) c = (field ps ''feature_tag'', JObj (AList.delete ''feature_tag'' ps))"
  by (simp add: extractFeatureTag_def)

lemma extractFeatureTag_untagged:
  "\<forall>ps. params = JObj ps \<longrightarrow> ''feature_tag'' \<notin> fst ` set ps \<Longrightarrow>
   extractFeatureTag params c = (resolved_tag JUndefined (currentTag c), params)"
proof (cases params)
  case (JObj ps)
  assume "\<forall>ps. params = JObj ps \<longrightarrow> ''feature_tag'' \<notin> fst ` set ps"
  with JObj have "map_of ps ''feature_tag'' = None" by (simp add: map_of_eq_None_iff)
  then show ?thesis
    by (simp add: JObj extractFeatureTag_def field_def nc_def resolved_tag_def)
qed (simp_all add: extractFeatureTag_def nc_def resolved_tag_def)

lemma generateContent_forwarded:
  "forwarded (snd (generateContent cl modelName params rest c w)) =
     forwarded w @ [snd (extractFeatureTag params c) # rest]"
  by (simp add: generateContent_plain Let_def track_forwarded split: sum.splits)

lemma create_streaming_tag:
  assumes "ic = OpenAI_create params \<or> ic = Anthropic_create params"
    and "streaming ic" and "fst (invoke cl ic c w) = Inr (Wrapped g)"
  shows "gen_featureTag g = resolved_tag (field params ''feature_tag'') (currentTag c)"
  using assms
  by (auto simp: openai_create_streaming anthropic_create_streaming Let_def nc_resolved_tag
      wrapOpenAIStream_def wrapAnthropicStream_track_def new_generator_def split: sum.splits)

lemma invoke_plain_options:
  assumes "\<not> streaming ic"
  shows "\<exists>options w3.
           snd (invoke cl ic c w) = snd (track options c w3)
         \<and> fetches w3 = fetches w \<and> config w3 = config w
         \<and> field options ''featureTag'' =
             (case ic of
                OpenAI_create params \<Rightarrow> resolved_tag (field params ''feature_tag'') (currentTag c)
              | Anthropic_create params \<Rightarrow> resolved_tag (field params ''feature_tag'') (currentTag c)
              | Gemini_generateContent modelName params rest \<Rightarrow> fst (extractFeatureTag params c))"
proof -
  let ?T = "case ic of
              OpenAI_create params \<Rightarrow> resolved_tag (field params ''feature_tag'') (currentTag c)
            | Anthropic_create params \<Rightarrow> resolved_tag (field params ''feature_tag'') (currentTag c)
            | Gemini_generateContent modelName params rest \<Rightarrow> fst (extractFeatureTag params c)"
  from invoke_plain [OF assms, of w cl c] obtain args m lat tag ok w3 where
    w3: "fetches w3 = fetches w" "config w3 = config w"
    and i: "invoke cl ic c w =
             (case cl args of
                Inl err \<Rightarrow>
                  (Inl err, snd (track (failure_options m lat tag (provider_name ic) err) c w3))
              | Inr response \<Rightarrow> (Inr (Passed response), snd (track (ok response) c w3)))"
    and ok: "\<forall>response. field (ok response) ''featureTag'' = tag"
    and t: "case ic of
               OpenAI_create params \<Rightarrow>
                 args = [JObj (AList.delete ''feature_tag'' params)]
                 \<and> tag = nc (nc (field params ''feature_tag'') (currentTag c)) (JStr ''unknown'')
             | Anthropic_create params \<Rightarrow>
                 args = [JObj (AList.delete ''feature_tag'' params)]
                 \<and> tag = nc (nc (field params ''feature_tag'') (currentTag c)) (JStr ''unknown'')
             | Gemini_generateContent modelName params rest \<Rightarrow>
                 args = snd (extractFeatureTag params c) # rest
                 \<and> tag = fst (extractFeatureTag params c)"
    by blast
  have T: "tag = ?T" using t by (cases ic) (simp_all add: nc_resolved_tag)
  show ?thesis
  proof (cases "cl args")
    case (Inl err)
    have "field (failure_options m lat tag (provider_name ic) err) ''featureTag'' = ?T"
      unfolding T [symmetric] by (simp add: failure_options_def field_Cons)
    with w3 show ?thesis
      unfolding i Inl
      by (intro exI [of _ "failure_options m lat tag (provider_name ic) err"] exI [of _ w3]) simp
  next
    case (Inr response)
    have "field (ok response) ''featureTag'' = ?T"
      unfolding T [symmetric] using ok by simp
    with w3 show ?thesis
      unfolding i Inr
      by (intro exI [of _ "ok response"] exI [of _ w3]) simp
  qed
qed

lemma generateContentStream_unfold:
  "generateContentStream cl modelName params rest c w =
     (let sent = snd (extractFeatureTag params c) # rest;
          w2 = w\<lparr>ticks := Suc (ticks w), forwarded := forwarded w @ [sent]\<rparr>
      in case cl sent of
           Inl err \<Rightarrow> (Inl err, w2)
         | Inr result \<Rightarrow>
             (Inr (Wrapped (wrapGeminiStream (iterate result) modelName
                     (fst (extractFeatureTag params c)) (clock w (ticks w)))), w2))"
  by (simp add: generateContentStream_def Let_def split_def call_def Date_now_def
      split: sum.splits)

lemma generateContentStream_forwarded:
  "forwarded (snd (generateContentStream cl modelName params rest c w)) =
     forwarded w @ [snd (extractFeatureTag params c) # rest]"
  by (simp add: generateContentStream_unfold Let_def split: sum.splits)

lemma generateContentStream_wraps:
  assumes "fst (generateContentStream cl modelName params rest c w) = Inr (Wrapped g)"
  shows "gen_featureTag g = fst (extractFeatureTag params c)" and "\<not> completed g"
  using assms
  by (auto simp: generateContentStream_unfold Let_def wrapGeminiStream_def new_generator_def
      split: sum.splits)

lemma create_streaming_fresh:
  assumes "ic = OpenAI_create params \<or> ic = Anthropic_create params"
    and "streaming ic" and "fst (invoke cl ic c w) = Inr (Wrapped g)"
  shows "\<not> completed g"
  using assms
  by (auto simp: openai_create_streaming anthropic_create_streaming Let_def
      wrapOpenAIStream_def wrapAnthropicStream_track_def new_generator_def split: sum.splits)

lemma wrapped_stream_tag:
  assumes "truthy (field (config w) ''enabled'')" and "\<not> completed g" and "ending g = None"
    and "\<not> nullish (gen_featureTag g)"
  shows "\<exists>payload.
           posts_to ''/api/ingest'' (snd (snd (for_await g c w))) =
             posts_to ''/api/ingest'' w @ [JObj payload]
         \<and> field payload ''feature_tag'' = gen_featureTag g"
proof -
  let ?g = "fold loop_body (pending g) g"
  from after_loop_ingest [OF assms(1), of ?g c] obtain payload where
    p: "posts_to ''/api/ingest'' (after_loop ?g c w) = posts_to ''/api/ingest'' w @ [JObj payload]"
      "\<not> nullish (gen_featureTag ?g) \<longrightarrow> field payload ''feature_tag'' = gen_featureTag ?g"
    by blast
  from p(2) assms(4) have "field payload ''feature_tag'' = gen_featureTag g"
    by (simp add: fold_loop_body_keeps)
  with p(1) show ?thesis
    unfolding for_await_exhausts(3) [OF assms(2,3)] by blast
qed

lemma create_sent:
  assumes "ic = OpenAI_create params \<or> ic = Anthropic_create params"
  shows "\<exists>sent.
           forwarded (snd (invoke cl ic c w)) = forwarded w @ [[JObj sent]]
         \<and> ''feature_tag'' \<notin> fst ` set sent
         \<and> (\<forall>k. k \<noteq> ''feature_tag'' \<and> k \<noteq> ''stream_options'' \<longrightarrow> map_of sent k = map_of params k)
         \<and> (\<not> (ic = OpenAI_create params \<and> streaming ic) \<longrightarrow>
              sent = AList.delete ''feature_tag'' params)
         \<and> (ic = OpenAI_create params \<and> streaming ic \<longrightarrow>
              (\<exists>so. field sent ''stream_options'' = JObj so
                  \<and> field so ''include_usage'' = JBool True
                  \<and> (\<forall>k. k \<noteq> ''include_usage'' \<longrightarrow>
                         map_of so k = map_of (own_props (field params ''stream_options'')) k)))"
proof -
  let ?d = "AList.delete ''feature_tag'' params"
  let ?so = "AList.update ''include_usage'' (JBool True)
               (spread [] (own_props (field params ''stream_options'')))"
  let ?u = "AList.update ''stream_options'' (JObj ?so) ?d"
  have d: "''feature_tag'' \<notin> fst ` set ?d" by (rule delete_notin_dom)
  then have u: "''feature_tag'' \<notin> fst ` set ?u" by (simp add: dom_update)
  have dk: "\<forall>k. k \<noteq> ''feature_tag'' \<and> k \<noteq> ''stream_options'' \<longrightarrow> map_of ?d k = map_of params k"
    by (simp add: delete_conv')
  have uk: "\<forall>k. k \<noteq> ''feature_tag'' \<and> k \<noteq> ''stream_options'' \<longrightarrow> map_of ?u k = map_of params k"
    by (simp add: delete_conv' update_conv')
  have so: "\<exists>so. field ?u ''stream_options'' = JObj so
                  \<and> field so ''include_usage'' = JBool True
                  \<and> (\<forall>k. k \<noteq> ''include_usage'' \<longrightarrow>
                         map_of so k = map_of (own_props (field params ''stream_options'')) k)"
    by (intro exI [of _ ?so]) (simp add: field_update update_conv' map_of_spread)
  consider (os) "ic = OpenAI_create params" "truthy (field params ''stream'')"
    | (op) "ic = OpenAI_create params" "\<not> truthy (field params ''stream'')"
    | (as) "ic = Anthropic_create params" "truthy (field params ''stream'')"
    | (ap) "ic = Anthropic_create params" "\<not> truthy (field params ''stream'')"
    using assms by blast
  then show ?thesis
  proof cases
    case os
    then have "forwarded (snd (invoke cl ic c w)) = forwarded w @ [[JObj ?u]]"
      by (simp add: openai_create_streaming Let_def split: sum.splits)
    with u uk so os show ?thesis by (intro exI [of _ ?u]) simp
  next
    case op
    then have "forwarded (snd (invoke cl ic c w)) = forwarded w @ [[JObj ?d]]"
      by (simp add: openai_create_plain Let_def track_forwarded split: sum.splits)
    with d dk op show ?thesis by (intro exI [of _ ?d]) simp
  next
    case as
    then have "forwarded (snd (invoke cl ic c w)) = forwarded w @ [[JObj ?d]]"
      by (simp add: anthropic_create_streaming Let_def split: sum.splits)
    with d dk as show ?thesis by (intro exI [of _ ?d]) simp
  next
    case ap
    then have "forwarded (snd (invoke cl ic c w)) = forwarded w @ [[JObj ?d]]"
      by (simp add: anthropic_create_plain Let_def track_forwarded split: sum.splits)
    with d dk ap show ?thesis by (intro exI [of _ ?d]) simp
  qed
qed

text \<open>
  C2 as amended.
  The OpenAI and Anthropic adapters call the client with parameters that have no
  \<open>feature_tag\<close> key; these are the caller's parameters without that key, except that
  a streaming OpenAI call carries as \<open>stream_options\<close> the caller's with
  \<open>include_usage\<close> set to true. The tag of the telemetry is the \<open>feature_tag\<close>
  parameter when it is neither null nor undefined, else the ambient tag when one is set,
  else "unknown": it is the \<open>featureTag\<close> of the \<open>track\<close> call a non-streaming call
  ends with (and, with telemetry enabled, the \<open>feature_tag\<close> of the one payload that
  call posts); it is the tag of the generator a streaming call gives back, and the
  \<open>feature_tag\<close> of the one payload posted when that generator's stream ends and has
  been read to its end with telemetry enabled.
  The Gemini adapter, in \<open>generateContent\<close> and in \<open>generateContentStream\<close>, called
  with an object whose \<open>feature_tag\<close> is truthy, calls the model with that object
  without the key and reports that tag; called with a parameter that has no
  \<open>feature_tag\<close> key (a string, an array, an object without it), it passes the
  parameter on as it is and reports the ambient tag when one is set, else "unknown".
  For \<open>generateContentStream\<close> the report is the one made when the stream has been
  read to its end.
\<close>

theorem feature_tag_stripped_and_resolved:
  "(ic = OpenAI_create params \<or> ic = Anthropic_create params \<longrightarrow>
      (\<exists>sent.
          forwarded (snd (invoke cl ic c w)) = forwarded w @ [[JObj sent]]
        \<and> ''feature_tag'' \<notin> fst ` set sent
        \<and> (\<forall>k. k \<noteq> ''feature_tag'' \<and> k \<noteq> ''stream_options'' \<longrightarrow>
               map_of sent k = map_of params k)
        \<and> (\<not> (ic = OpenAI_create params \<and> streaming ic) \<longrightarrow>
               sent = AList.delete ''feature_tag'' params)
        \<and> (ic = OpenAI_create params \<and> streaming ic \<longrightarrow>
               (\<exists>so. field sent ''stream_options'' = JObj so
                   \<and> field so ''include_usage'' = JBool True
                   \<and> (\<forall>k. k \<noteq> ''include_usage'' \<longrightarrow>
                          map_of so k = map_of (own_props (field params ''stream_options'')) k))))
    \<and> (\<not> streaming ic \<longrightarrow>
         (\<exists>options w3.
             snd (invoke cl ic c w) = snd (track options c w3)
           \<and> fetches w3 = fetches w \<and> config w3 = config w
           \<and> field options ''featureTag'' =
               resolved_tag (field params ''feature_tag'') (currentTag c))
       \<and> (truthy (field (config w) ''enabled'') \<longrightarrow>
            (\<exists>payload.
                posts_to ''/api/ingest'' (snd (invoke cl ic c w)) =
                  posts_to ''/api/ingest'' w @ [JObj payload]
              \<and> field payload ''feature_tag'' =
                  resolved_tag (field params ''feature_tag'') (currentTag c))))
    \<and> (streaming ic \<and> fst (invoke cl ic c w) = Inr (Wrapped g) \<longrightarrow>
         gen_featureTag g = resolved_tag (field params ''feature_tag'') (currentTag c)
       \<and> (ending g = None \<and> truthy (field (config w2) ''enabled'') \<longrightarrow>
            (\<exists>payload.
                posts_to ''/api/ingest'' (snd (snd (for_await g c2 w2))) =
                  posts_to ''/api/ingest'' w2 @ [JObj payload]
              \<and> field payload ''feature_tag'' =
                  resolved_tag (field params ''feature_tag'') (currentTag c)))))
   \<and> (truthy (field ps ''feature_tag'') \<longrightarrow>
        forwarded (snd (generateContent cl modelName (JObj ps) rest c w)) =
          forwarded w @ [JObj (AList.delete ''feature_tag'' ps) # rest]
      \<and> ''feature_tag'' \<notin> fst ` set (AList.delete ''feature_tag'' ps)
      \<and> (\<exists>options w3.
             snd (generateContent cl modelName (JObj ps) rest c w) = snd (track options c w3)
           \<and> fetches w3 = fetches w \<and> config w3 = config w
           \<and> field options ''featureTag'' = field ps ''feature_tag'')
      \<and> (truthy (field (config w) ''enabled'') \<longrightarrow>
           (\<exists>payload.
               posts_to ''/api/ingest'' (snd (generateContent cl modelName (JObj ps) rest c w)) =
                 posts_to ''/api/ingest'' w @ [JObj payload]
             \<and> field payload ''feature_tag'' = field ps ''feature_tag''))
      \<and> forwarded (snd (generateContentStream cl modelName (JObj ps) rest c w)) =
          forwarded w @ [JObj (AList.delete ''feature_tag'' ps) # rest]
      \<and> (fst (generateContentStream cl modelName (JObj ps) rest c w) = Inr (Wrapped gs) \<longrightarrow>
           gen_featureTag gs = field ps ''feature_tag''
         \<and> (ending gs = None \<and> truthy (field (config w2) ''enabled'') \<longrightarrow>
              (\<exists>payload.
                  posts_to ''/api/ingest'' (snd (snd (for_await gs c2 w2))) =
                    posts_to ''/api/ingest'' w2 @ [JObj payload]
                \<and> field payload ''feature_tag'' = field ps ''feature_tag''))))
   \<and> ((\<forall>qs. gparams = JObj qs \<longrightarrow> ''feature_tag'' \<notin> fst ` set qs) \<longrightarrow>
        forwarded (snd (generateContent cl modelName gparams rest c w)) =
          forwarded w @ [gparams # rest]
      \<and> (\<exists>options w3.
             snd (generateContent cl modelName gparams rest c w) = snd (track options c w3)
           \<and> fetches w3 = fetches w \<and> config w3 = config w
           \<and> field options ''featureTag'' = resolved_tag JUndefined (currentTag c))
      \<and> (truthy (field (config w) ''enabled'') \<longrightarrow>
           (\<exists>payload.
               posts_to ''/api/ingest'' (snd (generateContent cl modelName gparams rest c w)) =
                 posts_to ''/api/ingest'' w @ [JObj payload]
             \<and> field payload ''feature_tag'' = resolved_tag JUndefined (currentTag c)))
      \<and> forwarded (snd (generateContentStream cl modelName gparams rest c w)) =
          forwarded w @ [gparams # rest]
      \<and> (fst (generateContentStream cl modelName gparams rest c w) = Inr (Wrapped gu) \<longrightarrow>
           gen_featureTag gu = resolved_tag JUndefined (currentTag c)
         \<and> (ending gu = None \<and> truthy (field (config w2) ''enabled'') \<longrightarrow>
              (\<exists>payload.
                  posts_to ''/api/ingest'' (snd (snd (for_await gu c2 w2))) =
                    posts_to ''/api/ingest'' w2 @ [JObj payload]
                \<and> field payload ''feature_tag'' = resolved_tag JUndefined (currentTag c)))))"
proof (intro conjI impI; (elim conjE)?)
  assume ic: "ic = OpenAI_create params \<or> ic = Anthropic_create params"
  from create_sent [OF ic, of cl c w]
  show "\<exists>sent.
          forwarded (snd (invoke cl ic c w)) = forwarded w @ [[JObj sent]]
        \<and> ''feature_tag'' \<notin> fst ` set sent
        \<and> (\<forall>k. k \<noteq> ''feature_tag'' \<and> k \<noteq> ''stream_options'' \<longrightarrow>
               map_of sent k = map_of params k)
        \<and> (\<not> (ic = OpenAI_create params \<and> streaming ic) \<longrightarrow>
               sent = AList.delete ''feature_tag'' params)
        \<and> (ic = OpenAI_create params \<and> streaming ic \<longrightarrow>
               (\<exists>so. field sent ''stream_options'' = JObj so
                   \<and> field so ''include_usage'' = JBool True
                   \<and> (\<forall>k. k \<noteq> ''include_usage'' \<longrightarrow>
                          map_of so k = map_of (own_props (field params ''stream_options'')) k)))" .
  show t: "gen_featureTag g = resolved_tag (field params ''feature_tag'') (currentTag c)"
    if "streaming ic" and "fst (invoke cl ic c w) = Inr (Wrapped g)"
    using create_streaming_tag [OF ic that] .
  show "\<exists>payload.
          posts_to ''/api/ingest'' (snd (snd (for_await g c2 w2))) =
            posts_to ''/api/ingest'' w2 @ [JObj payload]
        \<and> field payload ''feature_tag'' = resolved_tag (field params ''feature_tag'') (currentTag c)"
    if s: "streaming ic" and r: "fst (invoke cl ic c w) = Inr (Wrapped g)"
      and n: "ending g = None" and e: "truthy (field (config w2) ''enabled'')"
  proof -
    have f: "\<not> completed g" by (rule create_streaming_fresh [OF ic s r])
    have "\<not> nullish (gen_featureTag g)"
      unfolding t [OF s r] by (rule resolved_tag_not_nullish)
    from wrapped_stream_tag [OF e f n this, of c2] show ?thesis
      unfolding t [OF s r] .
  qed
  show "\<exists>options w3.
             snd (invoke cl ic c w) = snd (track options c w3)
           \<and> fetches w3 = fetches w \<and> config w3 = config w
           \<and> field options ''featureTag'' =
               resolved_tag (field params ''feature_tag'') (currentTag c)"
    if s: "\<not> streaming ic"
  proof -
    from ic have "(case ic of
                OpenAI_create params \<Rightarrow> resolved_tag (field params ''feature_tag'') (currentTag c)
              | Anthropic_create params \<Rightarrow> resolved_tag (field params ''feature_tag'') (currentTag c)
              | Gemini_generateContent modelName params rest \<Rightarrow> fst (extractFeatureTag params c)) =
             resolved_tag (field params ''feature_tag'') (currentTag c)"
      by auto
    with invoke_plain_options [OF s, of cl c w] show ?thesis by simp
  qed
  show "\<exists>payload.
           posts_to ''/api/ingest'' (snd (invoke cl ic c w)) =
             posts_to ''/api/ingest'' w @ [JObj payload]
         \<and> field payload ''feature_tag'' = resolved_tag (field params ''feature_tag'') (currentTag c)"
    if s: "\<not> streaming ic" and e: "truthy (field (config w) ''enabled'')"
    using invoke_plain_tag [OF e s, of cl c] ic
    by (auto simp: nc_own resolved_tag_not_nullish)
next
  assume t: "truthy (field ps ''feature_tag'')"
  show "forwarded (snd (generateContent cl modelName (JObj ps) rest c w)) =
          forwarded w @ [JObj (AList.delete ''feature_tag'' ps) # rest]"
    by (simp add: generateContent_forwarded extractFeatureTag_tagged [OF t])
  show "forwarded (snd (generateContentStream cl modelName (JObj ps) rest c w)) =
          forwarded w @ [JObj (AList.delete ''feature_tag'' ps) # rest]"
    by (simp add: generateContentStream_forwarded extractFeatureTag_tagged [OF t])
  show "''feature_tag'' \<notin> fst ` set (AList.delete ''feature_tag'' ps)"
    by (rule delete_notin_dom)
  have s: "\<not> streaming (Gemini_generateContent modelName (JObj ps) rest)" by simp
  from invoke_plain_options [OF s, of cl c w]
  show "\<exists>options w3.
             snd (generateContent cl modelName (JObj ps) rest c w) = snd (track options c w3)
           \<and> fetches w3 = fetches w \<and> config w3 = config w
           \<and> field options ''featureTag'' = field ps ''feature_tag''"
    by (simp add: extractFeatureTag_tagged [OF t])
  show "\<exists>payload.
          posts_to ''/api/ingest'' (snd (generateContent cl modelName (JObj ps) rest c w)) =
            posts_to ''/api/ingest'' w @ [JObj payload]
        \<and> field payload ''feature_tag'' = field ps ''feature_tag''"
    if e: "truthy (field (config w) ''enabled'')"
    using invoke_plain_tag [OF e s, of cl c]
    by (simp add: extractFeatureTag_tagged [OF t] nc_own truthy_not_nullish [OF t])
  show gt: "gen_featureTag gs = field ps ''feature_tag''"
    if "fst (generateContentStream cl modelName (JObj ps) rest c w) = Inr (Wrapped gs)"
    using generateContentStream_wraps(1) [OF that]
    by (simp add: extractFeatureTag_tagged [OF t])
  show "\<exists>payload.
          posts_to ''/api/ingest'' (snd (snd (for_await gs c2 w2))) =
            posts_to ''/api/ingest'' w2 @ [JObj payload]
        \<and> field payload ''feature_tag'' = field ps ''feature_tag''"
    if r: "fst (generateContentStream cl modelName (JObj ps) rest c w) = Inr (Wrapped gs)"
      and n: "ending gs = None" and e: "truthy (field (config w2) ''enabled'')"
  proof -
    have "\<not> nullish (gen_featureTag gs)"
      unfolding gt [OF r] by (rule truthy_not_nullish [OF t])
    from wrapped_stream_tag [OF e generateContentStream_wraps(2) [OF r] n this, of c2]
    show ?thesis unfolding gt [OF r] .
  qed
next
  assume n: "\<forall>qs. gparams = JObj qs \<longrightarrow> ''feature_tag'' \<notin> fst ` set qs"
  show "forwarded (snd (generateContent cl modelName gparams rest c w)) =
          forwarded w @ [gparams # rest]"
    by (simp add: generateContent_forwarded extractFeatureTag_untagged [OF n])
  show "forwarded (snd (generateContentStream cl modelName gparams rest c w)) =
          forwarded w @ [gparams # rest]"
    by (simp add: generateContentStream_forwarded extractFeatureTag_untagged [OF n])
  have s: "\<not> streaming (Gemini_generateContent modelName gparams rest)" by simp
  from invoke_plain_options [OF s, of cl c w]
  show "\<exists>options w3.
             snd (generateContent cl modelName gparams rest c w) = snd (track options c w3)
           \<and> fetches w3 = fetches w \<and> config w3 = config w
           \<and> field options ''featureTag'' = resolved_tag JUndefined (currentTag c)"
    by (simp add: extractFeatureTag_untagged [OF n])
  show "\<exists>payload.
          posts_to ''/api/ingest'' (snd (generateContent cl modelName gparams rest c w)) =
            posts_to ''/api/ingest'' w @ [JObj payload]
        \<and> field payload ''feature_tag'' = resolved_tag JUndefined (currentTag c)"
    if e: "truthy (field (config w) ''enabled'')"
    using invoke_plain_tag [OF e s, of cl c]
    by (simp add: extractFeatureTag_untagged [OF n] nc_own resolved_tag_not_nullish)
  show gt: "gen_featureTag gu = resolved_tag JUndefined (currentTag c)"
    if "fst (generateContentStream cl modelName gparams rest c w) = Inr (Wrapped gu)"
    using generateContentStream_wraps(1) [OF that]
    by (simp add: extractFeatureTag_untagged [OF n])
  show "\<exists>payload.
          posts_to ''/api/ingest'' (snd (snd (for_await gu c2 w2))) =
            posts_to ''/api/ingest'' w2 @ [JObj payload]
        \<and> field payload ''feature_tag'' = resolved_tag JUndefined (currentTag c)"
    if r: "fst (generateContentStream cl modelName gparams rest c w) = Inr (Wrapped gu)"
      and en: "ending gu = None" and e: "truthy (field (config w2) ''enabled'')"
  proof -
    have "\<not> nullish (gen_featureTag gu)"
      unfolding gt [OF r] by (rule resolved_tag_not_nullish)
    from wrapped_stream_tag [OF e generateContentStream_wraps(2) [OF r] en this, of c2]
    show ?thesis unfolding gt [OF r] .
  qed
qed

theorem feature_tag_stripped_and_resolved_witness:
  "truthy (field (config ready) ''enabled'')
   \<and> forwarded (snd (invoke answering_client (OpenAI_create tagged_chat) inside_y ready)) =
       [[JObj [(''model'', JStr ''gpt-4''), (''messages'', JArr [])]]]
   \<and> (\<exists>payload.
         posts_to ''/api/ingest'' (snd (invoke answering_client (OpenAI_create tagged_chat) inside_y ready)) =
           [JObj payload]
       \<and> field payload ''feature_tag'' = JStr ''explicit-tag'')
   \<and> forwarded (snd (generateContent answering_client (JStr ''gemini-pro'') (JObj tagged_request) []
                       inside_y ready)) = [[JObj [(''contents'', JArr [])]]]
   \<and> (\<exists>payload.
         posts_to ''/api/ingest'' (snd (generateContent answering_client (JStr ''gemini-pro'')
                                          (JObj tagged_request) [] inside_y ready)) = [JObj payload]
       \<and> field payload ''feature_tag'' = JStr ''x'')
   \<and> forwarded (snd (generateContent answering_client (JStr ''gemini-pro'') (JStr ''Hi there'') []
                       inside_y ready)) = [[JStr ''Hi there'']]
   \<and> (\<exists>payload.
         posts_to ''/api/ingest'' (snd (generateContent answering_client (JStr ''gemini-pro'')
                                          (JStr ''Hi there'') [] inside_y ready)) = [JObj payload]
       \<and> field payload ''feature_tag'' = JStr ''y'')
   \<and> streaming (OpenAI_create tagged_stream_call)
   \<and> forwarded (snd (openai_create (streaming_client [content_chunk]) tagged_stream_call
                       inside_y ready)) =
       [[JObj [(''model'', JStr ''gpt-4''), (''stream'', JBool True),
               (''stream_options'', JObj [(''include_usage'', JBool True)])]]]
   \<and> fst (openai_create (streaming_client [content_chunk]) tagged_stream_call inside_y ready) =
       Inr (Wrapped (wrapOpenAIStream ([content_chunk], None) (JStr ''gpt-4'') (JStr ''x'') 1000))
   \<and> (\<exists>payload.
         posts_to ''/api/ingest''
           (snd (snd (for_await (wrapOpenAIStream ([content_chunk], None) (JStr ''gpt-4'')
                                   (JStr ''x'') 1000) outside ready))) = [JObj payload]
       \<and> field payload ''feature_tag'' = JStr ''x'')
   \<and> forwarded (snd (generateContentStream (streaming_client [candidate_chunk]) (JStr ''gemini-pro'')
                       (JObj tagged_request) [] inside_y ready)) = [[JObj [(''contents'', JArr [])]]]
   \<and> fst (generateContentStream (streaming_client [candidate_chunk]) (JStr ''gemini-pro'')
            (JObj tagged_request) [] inside_y ready) =
       Inr (Wrapped (wrapGeminiStream ([candidate_chunk], None) (JStr ''gemini-pro'') (JStr ''x'') 1000))
   \<and> (\<exists>payload.
         posts_to ''/api/ingest''
           (snd (snd (for_await (wrapGeminiStream ([candidate_chunk], None) (JStr ''gemini-pro'')
                                   (JStr ''x'') 1000) outside ready))) = [JObj payload]
       \<and> field payload ''feature_tag'' = JStr ''x'')
   \<and> forwarded (snd (generateContentStream (streaming_client [candidate_chunk]) (JStr ''gemini-pro'')
                       (JStr ''Hi there'') [] inside_y ready)) = [[JStr ''Hi there'']]
   \<and> fst (generateContentStream (streaming_client [candidate_chunk]) (JStr ''gemini-pro'')
            (JStr ''Hi there'') [] inside_y ready) =
       Inr (Wrapped (wrapGeminiStream ([candidate_chunk], None) (JStr ''gemini-pro'') (JStr ''y'') 1000))
   \<and> (\<exists>payload.
         posts_to ''/api/ingest''
           (snd (snd (for_await (wrapGeminiStream ([candidate_chunk], None) (JStr ''gemini-pro'')
                                   (JStr ''y'') 1000) outside ready))) = [JObj payload]
       \<and> field payload ''feature_tag'' = JStr ''y'')"
proof -
  let ?G = "wrapOpenAIStream ([content_chunk], None) (JStr ''gpt-4'') (JStr ''x'') 1000"
  let ?GS = "wrapGeminiStream ([candidate_chunk], None) (JStr ''gemini-pro'') (JStr ''x'') 1000"
  let ?GU = "wrapGeminiStream ([candidate_chunk], None) (JStr ''gemini-pro'') (JStr ''y'') 1000"
  have e: "truthy (field (config ready) ''enabled'')" by (simp add: ready_facts)
  have s: "truthy (field tagged_stream_call ''stream'')"
    by (simp add: tagged_stream_call_def field_Cons)
  then have s': "streaming (OpenAI_create tagged_stream_call)" by simp
  have t: "truthy (field tagged_request ''feature_tag'')"
    by (simp add: tagged_request_def field_Cons)
  have u: "\<forall>qs. JStr ''Hi there'' = JObj qs \<longrightarrow> ''feature_tag'' \<notin> fst ` set qs" by simp
  have n: "ending ?G = None" "ending ?GS = None" "ending ?GU = None"
    by (simp_all add: wrapOpenAIStream_def wrapGeminiStream_def new_generator_def)
  have f: "forwarded (snd (openai_create (streaming_client [content_chunk]) tagged_stream_call
                       inside_y ready)) =
       [[JObj [(''model'', JStr ''gpt-4''), (''stream'', JBool True),
               (''stream_options'', JObj [(''include_usage'', JBool True)])]]]"
    unfolding openai_create_streaming [OF s] Let_def
    by (simp add: tagged_stream_call_def ready_facts field_Cons field_Nil spread_def keys_def
        streaming_client_def)
  have o: "fst (openai_create (streaming_client [content_chunk]) tagged_stream_call inside_y ready) =
             Inr (Wrapped ?G)"
    unfolding openai_create_streaming [OF s] Let_def
    by (simp add: streaming_client_def tagged_stream_call_def field_Cons field_Nil nc_def
        inside_y_def ready_facts)
  have gs: "fst (generateContentStream (streaming_client [candidate_chunk]) (JStr ''gemini-pro'')
            (JObj tagged_request) [] inside_y ready) = Inr (Wrapped ?GS)"
    unfolding generateContentStream_unfold Let_def extractFeatureTag_tagged [OF t]
    by (simp add: streaming_client_def tagged_request_def field_Cons ready_facts)
  have gu: "fst (generateContentStream (streaming_client [candidate_chunk]) (JStr ''gemini-pro'')
            (JStr ''Hi there'') [] inside_y ready) = Inr (Wrapped ?GU)"
    unfolding generateContentStream_unfold Let_def extractFeatureTag_untagged [OF u]
    by (simp add: streaming_client_def resolved_tag_def inside_y_def ready_facts)
  note a = feature_tag_stripped_and_resolved [where ic = "OpenAI_create tagged_chat"
      and params = tagged_chat and cl = answering_client and c = inside_y and w = ready
      and ps = tagged_request and modelName = "JStr ''gemini-pro''" and rest = "[]"
      and gparams = "JStr ''Hi there''"]
  note b = feature_tag_stripped_and_resolved [where ic = "OpenAI_create tagged_stream_call"
      and params = tagged_stream_call and cl = "streaming_client [content_chunk]"
      and c = inside_y and w = ready and g = ?G and ?c2.0 = outside and ?w2.0 = ready
      and ps = "[]" and gparams = JNull]
  note d = feature_tag_stripped_and_resolved [where ic = "OpenAI_create tagged_chat"
      and params = tagged_chat and cl = "streaming_client [candidate_chunk]"
      and c = inside_y and w = ready and gs = ?GS and gu = ?GU
      and ?c2.0 = outside and ?w2.0 = ready
      and ps = tagged_request and modelName = "JStr ''gemini-pro''" and rest = "[]"
      and gparams = "JStr ''Hi there''"]
  have 1: "forwarded (snd (invoke answering_client (OpenAI_create tagged_chat) inside_y ready)) =
       [[JObj [(''model'', JStr ''gpt-4''), (''messages'', JArr [])]]]
   \<and> (\<exists>payload.
         posts_to ''/api/ingest'' (snd (invoke answering_client (OpenAI_create tagged_chat) inside_y ready)) =
           [JObj payload]
       \<and> field payload ''feature_tag'' = JStr ''explicit-tag'')
   \<and> forwarded (snd (generateContent answering_client (JStr ''gemini-pro'') (JObj tagged_request) []
                       inside_y ready)) = [[JObj [(''contents'', JArr [])]]]
   \<and> (\<exists>payload.
         posts_to ''/api/ingest'' (snd (generateContent answering_client (JStr ''gemini-pro'')
                                          (JObj tagged_request) [] inside_y ready)) = [JObj payload]
       \<and> field payload ''feature_tag'' = JStr ''x'')
   \<and> forwarded (snd (generateContent answering_client (JStr ''gemini-pro'') (JStr ''Hi there'') []
                       inside_y ready)) = [[JStr ''Hi there'']]
   \<and> (\<exists>payload.
         posts_to ''/api/ingest'' (snd (generateContent answering_client (JStr ''gemini-pro'')
                                          (JStr ''Hi there'') [] inside_y ready)) = [JObj payload]
       \<and> field payload ''feature_tag'' = JStr ''y'')"
    using e a
    by (simp add: tagged_chat_def tagged_request_def inside_y_def field_Cons field_Nil
        resolved_tag_def posts_to_fresh ready_facts)
  have 2: "\<exists>payload.
         posts_to ''/api/ingest'' (snd (snd (for_await ?G outside ready))) = [JObj payload]
       \<and> field payload ''feature_tag'' = JStr ''x''"
    using b s' o n(1) e
    by (simp add: tagged_stream_call_def inside_y_def field_Cons field_Nil
        resolved_tag_def posts_to_fresh ready_facts)
  have 3: "forwarded (snd (generateContentStream (streaming_client [candidate_chunk]) (JStr ''gemini-pro'')
                       (JObj tagged_request) [] inside_y ready)) = [[JObj [(''contents'', JArr [])]]]
   \<and> (\<exists>payload.
         posts_to ''/api/ingest'' (snd (snd (for_await ?GS outside ready))) = [JObj payload]
       \<and> field payload ''feature_tag'' = JStr ''x'')
   \<and> forwarded (snd (generateContentStream (streaming_client [candidate_chunk]) (JStr ''gemini-pro'')
                       (JStr ''Hi there'') [] inside_y ready)) = [[JStr ''Hi there'']]
   \<and> (\<exists>payload.
         posts_to ''/api/ingest'' (snd (snd (for_await ?GU outside ready))) = [JObj payload]
       \<and> field payload ''feature_tag'' = JStr ''y'')"
    using d gs gu n(2,3) e
    by (simp add: tagged_request_def inside_y_def field_Cons field_Nil
        resolved_tag_def posts_to_fresh ready_facts)
  from e 1 s' f o 2 3 gs gu show ?thesis by blast
qed

text \<open>
  C2 as stated fails, in a process with telemetry enabled and nothing sent yet. A
  streaming OpenAI call with \<open>feature_tag: "x"\<close> and
  \<open>stream_options: {include_usage: false}\<close> reaches the client with
  \<open>stream_options: {include_usage: true}\<close>: a parameter other than \<open>feature_tag\<close>
  is not forwarded as given. A Gemini call with \<open>feature_tag: ""\<close>, made inside the
  ambient tag "y", reaches the model with its \<open>feature_tag\<close> key, and its telemetry
  carries the tag "y".
\<close>

theorem feature_tag_counterexample:
  "forwarded (snd (openai_create answering_client tagged_stream_call outside ready)) =
     [[JObj [(''model'', JStr ''gpt-4''), (''stream'', JBool True),
             (''stream_options'', JObj [(''include_usage'', JBool True)])]]]
   \<and> field tagged_stream_call ''stream_options'' = JObj [(''include_usage'', JBool False)]
   \<and> forwarded (snd (generateContent answering_client (JStr ''gemini-pro'') (JObj empty_tag_request)
                       [] inside_y ready)) =
       [[JObj [(''contents'', JArr []), (''feature_tag'', JStr [])]]]
   \<and> posts_to ''/api/ingest'' (snd (generateContent answering_client (JStr ''gemini-pro'')
                                      (JObj empty_tag_request) [] inside_y ready)) =
       [JObj [(''project_id'', JStr ''proj-1''), (''provider'', JStr ''gemini''),
              (''model'', JStr ''gemini-pro''), (''feature_tag'', JStr ''y''),
              (''input_tokens'', JNum 0), (''output_tokens'', JNum 0), (''cached_tokens'', JNum 0),
              (''latency_ms'', JNum 7), (''success'', JBool True),
              (''environment'', JStr ''production'')]]"
proof -
  have s: "truthy (field tagged_stream_call ''stream'')"
    by (simp add: tagged_stream_call_def field_Cons)
  have 1: "forwarded (snd (openai_create answering_client tagged_stream_call outside ready)) =
     [[JObj [(''model'', JStr ''gpt-4''), (''stream'', JBool True),
             (''stream_options'', JObj [(''include_usage'', JBool True)])]]]"
    unfolding openai_create_streaming [OF s] Let_def
    by (simp add: tagged_stream_call_def ready_facts field_Cons field_Nil spread_def keys_def
        answering_client_def)
  have 2: "field tagged_stream_call ''stream_options'' = JObj [(''include_usage'', JBool False)]"
    by (simp add: tagged_stream_call_def field_Cons)
  have x: "extractFeatureTag (JObj empty_tag_request) inside_y = (JStr ''y'', JObj empty_tag_request)"
    by (simp add: extractFeatureTag_def empty_tag_request_def inside_y_def field_Cons nc_def)
  have 3: "forwarded (snd (generateContent answering_client (JStr ''gemini-pro'') (JObj empty_tag_request)
                       [] inside_y ready)) =
       [[JObj [(''contents'', JArr []), (''feature_tag'', JStr [])]]]"
    unfolding generateContent_forwarded x
    by (simp add: ready_facts empty_tag_request_def)
  have 4: "posts_to ''/api/ingest'' (snd (generateContent answering_client (JStr ''gemini-pro'')
                                      (JObj empty_tag_request) [] inside_y ready)) =
       [JObj [(''project_id'', JStr ''proj-1''), (''provider'', JStr ''gemini''),
              (''model'', JStr ''gemini-pro''), (''feature_tag'', JStr ''y''),
              (''input_tokens'', JNum 0), (''output_tokens'', JNum 0), (''cached_tokens'', JNum 0),
              (''latency_ms'', JNum 7), (''success'', JBool True),
              (''environment'', JStr ''production'')]]"
    unfolding generateContent_plain Let_def x
    by (simp add: answering_client_def completion_def track_outside_run inside_y_def
        sendTelemetry_snd posts_to_def ingest_request_def ready_facts field_Cons field_Nil
        ingest_payload_def opt_def nc_def Let_def)
  from 1 2 3 4 show ?thesis by blast
qed

section \<open>Run tracker\<close>

lemma sendRunApi_enabled:
  "truthy (field (config w) ''enabled'') \<Longrightarrow>
   snd (sendRunApi p payload w) = w\<lparr>fetches := fetches w @ [run_request (config w) p payload]\<rparr>"
  by (simp add: sendRunApi_snd run_request_def)

lemma ctx_updates_commute:
  "c\<lparr>activeRun := a, currentTag := t\<rparr> = c\<lparr>currentTag := t, activeRun := a\<rparr>"
  by (cases c) simp

lemma scopes_commute:
  "runStorage_run this (featureTagStorage_run tag fn) c =
     featureTagStorage_run tag (runStorage_run this fn) c"
  "runStorage_run this (featureTagStorage_run (featureTag r) fn) c = fn (run_scope this r c)"
  "featureTagStorage_run (featureTag r) (runStorage_run this fn) c = fn (run_scope this r c)"
  by (simp_all add: runStorage_run_def featureTagStorage_run_def run_scope_def
      ctx_updates_commute)

lemma execute_eq:
  assumes "truthy (field (config w) ''enabled'')"
    and "fn (run_scope this (heap w this) c)
           (w\<lparr>fetches := fetches w @
                 [run_request (config w) ''/api/runs/start''
                    (run_start_payload (heap w this) (config w))]\<rparr>) = (result, w2)"
    and "truthy (field (config w2) ''enabled'')"
  shows "execute this fn c w =
           (result,
            w2\<lparr>fetches := fetches w2 @
                  [run_request (config w2) ''/api/runs/end''
                     (run_end_payload (heap w2 this) (config w2) result)]\<rparr>)"
  using assms
  by (simp add: execute_def sendRunApi_enabled scopes_commute(2) split_def Let_def
      run_end_payload_def split: sum.splits)

lemma track_in_run_enabled:
  assumes "truthy (field (config w) ''enabled'')"
    and "nullish (field options ''runId'')"
    and "activeRun c = Some a"
  shows "snd (track options c w) =
     w\<lparr>heap := (heap w)(a := (heap w a)\<lparr>stepCounter := stepCounter (heap w a) + 1\<rparr>),
       fetches := fetches w @
         [run_request (config w) ''/api/runs/step''
            (step_payload options (runId (heap w a)) (JNum (stepCounter (heap w a) + 1)) (config w)),
          ingest_request (config w)
            (ingest_payload options (currentTag c) (runId (heap w a))
               (JNum (stepCounter (heap w a) + 1)) (config w))],
       console := (if truthy (field (config w) ''debug'')
                   then console w @
                     [JObj (ingest_payload options (currentTag c) (runId (heap w a))
                              (JNum (stepCounter (heap w a) + 1)) (config w))]
                   else console w)\<rparr>"
  using assms
  by (simp add: track_inside_run sendRunApi_enabled sendTelemetry_snd)

lemma execute_two_tracked_calls:
  assumes e: "truthy (field (config w) ''enabled'')"
    and n1: "nullish (field o1 ''runId'')" and n2: "nullish (field o2 ''runId'')"
  shows "fst (execute this (two_tracked_calls o1 o2 v) c w) = Inr v"
    and "fetches (snd (execute this (two_tracked_calls o1 o2 v) c w)) =
           fetches w @
           [run_request (config w) ''/api/runs/start'' (run_start_payload (heap w this) (config w)),
            run_request (config w) ''/api/runs/step''
              (step_payload o1 (runId (heap w this)) (JNum (stepCounter (heap w this) + 1)) (config w)),
            ingest_request (config w)
              (ingest_payload o1 (featureTag (heap w this)) (runId (heap w this))
                 (JNum (stepCounter (heap w this) + 1)) (config w)),
            run_request (config w) ''/api/runs/step''
              (step_payload o2 (runId (heap w this)) (JNum (stepCounter (heap w this) + 2)) (config w)),
            ingest_request (config w)
              (ingest_payload o2 (featureTag (heap w this)) (runId (heap w this))
                 (JNum (stepCounter (heap w this) + 2)) (config w)),
            run_request (config w) ''/api/runs/end''
              [(''project_id'', field (config w) ''projectId''), (''run_id'', runId (heap w this)),
               (''status'', JStr ''completed'')]]"
proof -
  let ?c = "run_scope this (heap w this) c"
  let ?w1 = "w\<lparr>fetches := fetches w @
                 [run_request (config w) ''/api/runs/start''
                    (run_start_payload (heap w this) (config w))]\<rparr>"
  have a: "activeRun ?c = Some this" "currentTag ?c = featureTag (heap w this)"
    by (simp_all add: run_scope_def)
  have e1: "truthy (field (config ?w1) ''enabled'')" using e by simp
  let ?w2 = "snd (track o1 ?c ?w1)"
  have w2: "?w2 = ?w1\<lparr>heap := (heap ?w1)(this := (heap ?w1 this)\<lparr>stepCounter := stepCounter (heap ?w1 this) + 1\<rparr>),
       fetches := fetches ?w1 @
         [run_request (config ?w1) ''/api/runs/step''
            (step_payload o1 (runId (heap ?w1 this)) (JNum (stepCounter (heap ?w1 this) + 1)) (config ?w1)),
          ingest_request (config ?w1)
            (ingest_payload o1 (currentTag ?c) (runId (heap ?w1 this))
               (JNum (stepCounter (heap ?w1 this) + 1)) (config ?w1))],
       console := (if truthy (field (config ?w1) ''debug'')
                   then console ?w1 @
                     [JObj (ingest_payload o1 (currentTag ?c) (runId (heap ?w1 this))
                              (JNum (stepCounter (heap ?w1 this) + 1)) (config ?w1))]
                   else console ?w1)\<rparr>"
    by (rule track_in_run_enabled [OF e1 n1 a(1)])
  have e2: "truthy (field (config ?w2) ''enabled'')" using e by (simp add: track_config)
  let ?w3 = "snd (track o2 ?c ?w2)"
  have w3: "?w3 = ?w2\<lparr>heap := (heap ?w2)(this := (heap ?w2 this)\<lparr>stepCounter := stepCounter (heap ?w2 this) + 1\<rparr>),
       fetches := fetches ?w2 @
         [run_request (config ?w2) ''/api/runs/step''
            (step_payload o2 (runId (heap ?w2 this)) (JNum (stepCounter (heap ?w2 this) + 1)) (config ?w2)),
          ingest_request (config ?w2)
            (ingest_payload o2 (currentTag ?c) (runId (heap ?w2 this))
               (JNum (stepCounter (heap ?w2 this) + 1)) (config ?w2))],
       console := (if truthy (field (config ?w2) ''debug'')
                   then console ?w2 @
                     [JObj (ingest_payload o2 (currentTag ?c) (runId (heap ?w2 this))
                              (JNum (stepCounter (heap ?w2 this) + 1)) (config ?w2))]
                   else console ?w2)\<rparr>"
    by (rule track_in_run_enabled [OF e2 n2 a(1)])
  have e3: "truthy (field (config ?w3) ''enabled'')" using e by (simp add: track_config)
  have b: "two_tracked_calls o1 o2 v ?c ?w1 = (Inr v, ?w3)"
    by (simp add: two_tracked_calls_def split_def Let_def)
  note x = execute_eq [where fn = "two_tracked_calls o1 o2 v" and this = this and c = c
      and w = w and result = "Inr v" and ?w2.0 = ?w3, OF e b e3]
  show "fst (execute this (two_tracked_calls o1 o2 v) c w) = Inr v"
    by (simp add: x)
  have h2: "heap ?w2 this = (heap w this)\<lparr>stepCounter := stepCounter (heap w this) + 1\<rparr>"
    "config ?w2 = config w"
    "fetches ?w2 = fetches w @
           [run_request (config w) ''/api/runs/start'' (run_start_payload (heap w this) (config w)),
            run_request (config w) ''/api/runs/step''
              (step_payload o1 (runId (heap w this)) (JNum (stepCounter (heap w this) + 1)) (config w)),
            ingest_request (config w)
              (ingest_payload o1 (featureTag (heap w this)) (runId (heap w this))
                 (JNum (stepCounter (heap w this) + 1)) (config w))]"
    by (simp_all add: w2 a)
  have h3: "heap ?w3 this = (heap w this)\<lparr>stepCounter := stepCounter (heap w this) + 2\<rparr>"
    "config ?w3 = config w"
    "fetches ?w3 = fetches ?w2 @
           [run_request (config w) ''/api/runs/step''
              (step_payload o2 (runId (heap w this)) (JNum (stepCounter (heap w this) + 2)) (config w)),
            ingest_request (config w)
              (ingest_payload o2 (featureTag (heap w this)) (runId (heap w this))
                 (JNum (stepCounter (heap w this) + 2)) (config w))]"
    by (simp_all add: w3 h2 a add.commute)
  show "fetches (snd (execute this (two_tracked_calls o1 o2 v) c w)) =
           fetches w @
           [run_request (config w) ''/api/runs/start'' (run_start_payload (heap w this) (config w)),
            run_request (config w) ''/api/runs/step''
              (step_payload o1 (runId (heap w this)) (JNum (stepCounter (heap w this) + 1)) (config w)),
            ingest_request (config w)
              (ingest_payload o1 (featureTag (heap w this)) (runId (heap w this))
                 (JNum (stepCounter (heap w this) + 1)) (config w)),
            run_request (config w) ''/api/runs/step''
              (step_payload o2 (runId (heap w this)) (JNum (stepCounter (heap w this) + 2)) (config w)),
            ingest_request (config w)
              (ingest_payload o2 (featureTag (heap w this)) (runId (heap w this))
                 (JNum (stepCounter (heap w this) + 2)) (config w)),
            run_request (config w) ''/api/runs/end''
              [(''project_id'', field (config w) ''projectId''), (''run_id'', runId (heap w this)),
               (''status'', JStr ''completed'')]]"
    unfolding x by (simp add: h2 h3 run_end_payload_def)
qed

lemma posts_to_append:
  "fetches w' = fetches w @ rs \<Longrightarrow>
   posts_to p w' = posts_to p w @ map body (filter (\<lambda>r. path r = p) rs)"
  by (simp add: posts_to_def)

lemma new_AgentRun_fresh:
  "stepCounter (new_AgentRun ropts uuid) = 0"
  "runId (new_AgentRun ropts uuid) = nc (field ropts ''runId'') uuid"
  "featureTag (new_AgentRun ropts uuid) = nc (field ropts ''featureTag'') (JStr ''unknown'')"
  by (simp_all add: new_AgentRun_def)

lemma step_payload_fields:
  "field (step_payload options rid idx cfg) ''run_id'' = rid"
  "field (step_payload options rid idx cfg) ''step_index'' = idx"
  by (simp_all add: step_payload_def field_Cons)

lemma run_end_payload_fields:
  "field (run_end_payload r cfg result) ''status'' =
     (case result of Inr v \<Rightarrow> JStr ''completed'' | Inl err \<Rightarrow> JStr ''failed'')"
  "field (run_end_payload r cfg result) ''error_type'' =
     (case result of
        Inr v \<Rightarrow> JUndefined
      | Inl err \<Rightarrow> (if nullish (constructor_name err) then JStr ''Error'' else constructor_name err))"
  "field (run_end_payload r cfg result) ''run_id'' = runId r"
  by (simp_all add: run_end_payload_def field_Cons field_Nil error_type_of_def nc_def
      split: sum.splits)

lemma sendRunApi_heap: "heap (snd (sendRunApi q p w)) = heap w"
  by (simp add: sendRunApi_snd)

lemma execute_unfold:
  "execute this fn c w =
     (let w1 = snd (sendRunApi ''/api/runs/start''
                      (run_start_payload (heap w this) (config w)) w);
          (result, w2) = fn (run_scope this (heap w this) c) w1
      in (result,
          snd (sendRunApi ''/api/runs/end''
                 (run_end_payload (heap w2 this) (config w2) result) w2)))"
  by (simp add: execute_def split_def Let_def scopes_commute(2) sendRunApi_heap
      run_end_payload_def split: sum.splits)

text \<open>
  C8. \<open>execute\<close> first sends the run-start signal and then runs its body with the run
  as the active run and the run's feature tag as the ambient tag (the two scopes are
  independent slots, so either nesting order gives the body the same view). What the
  body ends with, a value or an error, is what \<open>execute\<close> ends with, unchanged, after
  the run-end signal has been sent: with status "completed" after a value, and with
  status "failed" plus the error's class name (or "Error") after an error. With
  telemetry enabled before and after the body, the run-end signal is the last request.
  With telemetry enabled, for a newly constructed run and a body of two sequential
  tracked calls without a \<open>runId\<close> of their own, the requests are, in order: start,
  step, ingest, step, ingest, end; the two step signals and the two ingest payloads
  carry step indices 1 and 2 and the run's id, and the end signal says "completed".
\<close>

theorem execute_run_lifecycle:
  "execute this fn c w =
     (let w1 = snd (sendRunApi ''/api/runs/start''
                      (run_start_payload (heap w this) (config w)) w);
          (result, w2) =
             runStorage_run this
               (\<lambda>c'. featureTagStorage_run (featureTag (heap w this)) fn c') c w1
      in (result,
          snd (sendRunApi ''/api/runs/end''
                 (run_end_payload (heap w2 this) (config w2) result) w2)))
   \<and> runStorage_run this (\<lambda>c'. featureTagStorage_run (featureTag (heap w this)) fn c') c =
       featureTagStorage_run (featureTag (heap w this)) (\<lambda>c'. runStorage_run this fn c') c
   \<and> runStorage_run this (\<lambda>c'. featureTagStorage_run (featureTag (heap w this)) fn c') c =
       fn (run_scope this (heap w this) c)
   \<and> field (run_end_payload r cfg result) ''status'' =
       (case result of Inr x \<Rightarrow> JStr ''completed'' | Inl err \<Rightarrow> JStr ''failed'')
   \<and> field (run_end_payload r cfg result) ''error_type'' =
       (case result of
          Inr x \<Rightarrow> JUndefined
        | Inl err \<Rightarrow>
            (if nullish (constructor_name err) then JStr ''Error'' else constructor_name err))
   \<and> (truthy (field (config w) ''enabled'')
      \<and> fn (run_scope this (heap w this) c)
            (w\<lparr>fetches := fetches w @
                  [run_request (config w) ''/api/runs/start''
                     (run_start_payload (heap w this) (config w))]\<rparr>) = (result, w2)
      \<and> truthy (field (config w2) ''enabled'') \<longrightarrow>
        execute this fn c w =
          (result,
           w2\<lparr>fetches := fetches w2 @
                 [run_request (config w2) ''/api/runs/end''
                    (run_end_payload (heap w2 this) (config w2) result)]\<rparr>))
   \<and> (truthy (field (config w) ''enabled'')
      \<and> heap w this = new_AgentRun ropts (JStr uuid)
      \<and> nullish (field o1 ''runId'') \<and> nullish (field o2 ''runId'') \<longrightarrow>
        fst (execute this (two_tracked_calls o1 o2 v) c w) = Inr v
      \<and> map path (drop (length (fetches w))
                    (fetches (snd (execute this (two_tracked_calls o1 o2 v) c w)))) =
          [''/api/runs/start'', ''/api/runs/step'', ''/api/ingest'', ''/api/runs/step'',
           ''/api/ingest'', ''/api/runs/end'']
      \<and> (\<exists>s1 s2.
            posts_to ''/api/runs/step'' (snd (execute this (two_tracked_calls o1 o2 v) c w)) =
              posts_to ''/api/runs/step'' w @ [JObj s1, JObj s2]
          \<and> field s1 ''step_index'' = JNum 1 \<and> field s2 ''step_index'' = JNum 2
          \<and> field s1 ''run_id'' = runId (heap w this)
          \<and> field s2 ''run_id'' = runId (heap w this))
      \<and> (\<exists>p1 p2.
            posts_to ''/api/ingest'' (snd (execute this (two_tracked_calls o1 o2 v) c w)) =
              posts_to ''/api/ingest'' w @ [JObj p1, JObj p2]
          \<and> field p1 ''step_index'' = JNum 1 \<and> field p2 ''step_index'' = JNum 2
          \<and> field p1 ''run_id'' = runId (heap w this)
          \<and> field p2 ''run_id'' = runId (heap w this))
      \<and> (\<exists>e.
            posts_to ''/api/runs/end'' (snd (execute this (two_tracked_calls o1 o2 v) c w)) =
              posts_to ''/api/runs/end'' w @ [JObj e]
          \<and> field e ''status'' = JStr ''completed''
          \<and> field e ''run_id'' = runId (heap w this)))"
proof (intro conjI impI; (elim conjE)?)
  show "execute this fn c w =
     (let w1 = snd (sendRunApi ''/api/runs/start''
                      (run_start_payload (heap w this) (config w)) w);
          (result, w2) =
             runStorage_run this
               (\<lambda>c'. featureTagStorage_run (featureTag (heap w this)) fn c') c w1
      in (result,
          snd (sendRunApi ''/api/runs/end''
                 (run_end_payload (heap w2 this) (config w2) result) w2)))"
    unfolding execute_unfold by (simp add: scopes_commute(2))
next
  show "execute this fn c w =
              (result,
               w2\<lparr>fetches := fetches w2 @
                     [run_request (config w2) ''/api/runs/end''
                        (run_end_payload (heap w2 this) (config w2) result)]\<rparr>)"
    if "truthy (field (config w) ''enabled'')"
      and "fn (run_scope this (heap w this) c)
            (w\<lparr>fetches := fetches w @
                  [run_request (config w) ''/api/runs/start''
                     (run_start_payload (heap w this) (config w))]\<rparr>) = (result, w2)"
      and "truthy (field (config w2) ''enabled'')"
    using execute_eq [where fn = fn and this = this and c = c and w = w and result = result
        and ?w2.0 = w2, OF that] .
next
  assume en: "truthy (field (config w) ''enabled'')"
    and fresh: "heap w this = new_AgentRun ropts (JStr uuid)"
    and n1: "nullish (field o1 ''runId'')" and n2: "nullish (field o2 ''runId'')"
  let ?W = "snd (execute this (two_tracked_calls o1 o2 v) c w)"
  let ?rid = "runId (heap w this)"
  let ?tag = "featureTag (heap w this)"
  have rid: "\<not> nullish ?rid" by (simp add: fresh new_AgentRun_fresh nullish_nc)
  have z: "stepCounter (heap w this) = 0" by (simp add: fresh new_AgentRun_fresh)
  note x = execute_two_tracked_calls [OF en n1 n2, of this v c, unfolded z]
  show "fst (execute this (two_tracked_calls o1 o2 v) c w) = Inr v" by (rule x(1))
  show "map path (drop (length (fetches w)) (fetches ?W)) =
              [''/api/runs/start'', ''/api/runs/step'', ''/api/ingest'', ''/api/runs/step'',
               ''/api/ingest'', ''/api/runs/end'']"
    by (simp add: x(2) run_request_def ingest_request_def)
  have "posts_to ''/api/runs/step'' ?W = posts_to ''/api/runs/step'' w @
          [JObj (step_payload o1 ?rid (JNum 1) (config w)),
           JObj (step_payload o2 ?rid (JNum 2) (config w))]"
    by (simp add: posts_to_append [OF x(2)] run_request_def ingest_request_def)
  then show "\<exists>s1 s2.
                posts_to ''/api/runs/step'' ?W = posts_to ''/api/runs/step'' w @ [JObj s1, JObj s2]
              \<and> field s1 ''step_index'' = JNum 1 \<and> field s2 ''step_index'' = JNum 2
              \<and> field s1 ''run_id'' = ?rid \<and> field s2 ''run_id'' = ?rid"
    by (intro exI [of _ "step_payload o1 ?rid (JNum 1) (config w)"]
        exI [of _ "step_payload o2 ?rid (JNum 2) (config w)"])
       (simp add: step_payload_fields)
  have "posts_to ''/api/ingest'' ?W = posts_to ''/api/ingest'' w @
          [JObj (ingest_payload o1 ?tag ?rid (JNum 1) (config w)),
           JObj (ingest_payload o2 ?tag ?rid (JNum 2) (config w))]"
    by (simp add: posts_to_append [OF x(2)] run_request_def ingest_request_def)
  then show "\<exists>p1 p2.
                posts_to ''/api/ingest'' ?W = posts_to ''/api/ingest'' w @ [JObj p1, JObj p2]
              \<and> field p1 ''step_index'' = JNum 1 \<and> field p2 ''step_index'' = JNum 2
              \<and> field p1 ''run_id'' = ?rid \<and> field p2 ''run_id'' = ?rid"
    using rid
    by (intro exI [of _ "ingest_payload o1 ?tag ?rid (JNum 1) (config w)"]
        exI [of _ "ingest_payload o2 ?tag ?rid (JNum 2) (config w)"])
       (simp add: ingest_payload_run_fields)
  have "posts_to ''/api/runs/end'' ?W = posts_to ''/api/runs/end'' w @
          [JObj [(''project_id'', field (config w) ''projectId''), (''run_id'', ?rid),
                 (''status'', JStr ''completed'')]]"
    by (simp add: posts_to_append [OF x(2)] run_request_def ingest_request_def)
  then show "\<exists>e.
                posts_to ''/api/runs/end'' ?W = posts_to ''/api/runs/end'' w @ [JObj e]
              \<and> field e ''status'' = JStr ''completed'' \<and> field e ''run_id'' = ?rid"
    by (intro exI [of _ "[(''project_id'', field (config w) ''projectId''), (''run_id'', ?rid),
                 (''status'', JStr ''completed'')]"])
       (simp add: field_Cons)
qed (simp_all add: scopes_commute(2,3) run_end_payload_fields)

lemma ready_heap: "heap ready a = new_AgentRun [] (JStr ''run-0'')"
  by (simp add: ready_def boot_def init_def)

theorem execute_run_lifecycle_witness:
  "truthy (field (config ready) ''enabled'')
   \<and> heap ready 0 = new_AgentRun [] (JStr ''run-0'')
   \<and> nullish (field first_call ''runId'') \<and> nullish (field second_call ''runId'')
   \<and> fst (execute 0 (raising rate_limited) outside ready) = Inl rate_limited
   \<and> posts_to ''/api/runs/end'' (snd (execute 0 (raising rate_limited) outside ready)) =
       [JObj [(''project_id'', JStr ''proj-1''), (''run_id'', JStr ''run-0''),
              (''status'', JStr ''failed''), (''error_type'', JStr ''RateLimitError'')]]
   \<and> fst (execute 0 (two_tracked_calls first_call second_call (JStr ''done'')) outside ready) =
       Inr (JStr ''done'')
   \<and> map path (fetches (snd (execute 0 (two_tracked_calls first_call second_call (JStr ''done''))
                                 outside ready))) =
       [''/api/runs/start'', ''/api/runs/step'', ''/api/ingest'', ''/api/runs/step'',
        ''/api/ingest'', ''/api/runs/end'']
   \<and> (\<exists>s1 s2.
         posts_to ''/api/runs/step''
           (snd (execute 0 (two_tracked_calls first_call second_call (JStr ''done'')) outside ready)) =
           [JObj s1, JObj s2]
       \<and> field s1 ''step_index'' = JNum 1 \<and> field s2 ''step_index'' = JNum 2
       \<and> field s1 ''run_id'' = JStr ''run-0'' \<and> field s2 ''run_id'' = JStr ''run-0'')
   \<and> (\<exists>p1 p2.
         posts_to ''/api/ingest''
           (snd (execute 0 (two_tracked_calls first_call second_call (JStr ''done'')) outside ready)) =
           [JObj p1, JObj p2]
       \<and> field p1 ''step_index'' = JNum 1 \<and> field p2 ''step_index'' = JNum 2
       \<and> field p1 ''run_id'' = JStr ''run-0'' \<and> field p2 ''run_id'' = JStr ''run-0'')
   \<and> (\<exists>e.
         posts_to ''/api/runs/end''
           (snd (execute 0 (two_tracked_calls first_call second_call (JStr ''done'')) outside ready)) =
           [JObj e]
       \<and> field e ''status'' = JStr ''completed'' \<and> field e ''run_id'' = JStr ''run-0'')"
proof -
  let ?w1 = "ready\<lparr>fetches := fetches ready @
                  [run_request (config ready) ''/api/runs/start''
                     (run_start_payload (heap ready 0) (config ready))]\<rparr>"
  have e: "truthy (field (config ready) ''enabled'')" by (simp add: ready_facts)
  have h: "heap ready 0 = new_AgentRun [] (JStr ''run-0'')" by (rule ready_heap)
  have n: "nullish (field first_call ''runId'')" "nullish (field second_call ''runId'')"
    by (simp_all add: first_call_def second_call_def field_Cons field_Nil)
  have b: "raising rate_limited (run_scope 0 (heap ready 0) outside) ?w1 = (Inl rate_limited, ?w1)"
    by (simp add: raising_def)
  have e1: "truthy (field (config ?w1) ''enabled'')" by (simp add: ready_facts)
  note t = execute_run_lifecycle [where fn = "raising rate_limited" and this = 0
      and c = outside and w = ready and result = "Inl rate_limited" and ?w2.0 = ?w1
      and ropts = "[]"
      and uuid = "''run-0''" and ?o1.0 = first_call and ?o2.0 = second_call and v = "JStr ''done''"
      and r = "heap ready 0" and cfg = "config ready"]
  have x: "execute 0 (raising rate_limited) outside ready =
      (Inl rate_limited,
       ?w1\<lparr>fetches := fetches ?w1 @
              [run_request (config ?w1) ''/api/runs/end''
                 (run_end_payload (heap ?w1 0) (config ?w1)
                    (Inl rate_limited :: jserror + jsval))]\<rparr>)"
    using t e b e1 by blast
  have 1: "fst (execute 0 (raising rate_limited) outside ready) = Inl rate_limited"
    by (simp add: x)
  have 2: "posts_to ''/api/runs/end'' (snd (execute 0 (raising rate_limited) outside ready)) =
       [JObj [(''project_id'', JStr ''proj-1''), (''run_id'', JStr ''run-0''),
              (''status'', JStr ''failed''), (''error_type'', JStr ''RateLimitError'')]]"
    unfolding x
    by (simp add: posts_to_def run_request_def run_end_payload_def ready_facts ready_heap
        new_AgentRun_def error_type_of_def rate_limited_def nc_def field_Nil)
  have y:
    "fst (execute 0 (two_tracked_calls first_call second_call (JStr ''done'')) outside ready) =
       Inr (JStr ''done'')
     \<and> map path (drop (length (fetches ready))
                   (fetches (snd (execute 0 (two_tracked_calls first_call second_call (JStr ''done''))
                                    outside ready)))) =
        [''/api/runs/start'', ''/api/runs/step'', ''/api/ingest'', ''/api/runs/step'',
         ''/api/ingest'', ''/api/runs/end'']
     \<and> (\<exists>s1 s2.
           posts_to ''/api/runs/step''
             (snd (execute 0 (two_tracked_calls first_call second_call (JStr ''done'')) outside ready)) =
             posts_to ''/api/runs/step'' ready @ [JObj s1, JObj s2]
         \<and> field s1 ''step_index'' = JNum 1 \<and> field s2 ''step_index'' = JNum 2
         \<and> field s1 ''run_id'' = runId (heap ready 0) \<and> field s2 ''run_id'' = runId (heap ready 0))
     \<and> (\<exists>p1 p2.
           posts_to ''/api/ingest''
             (snd (execute 0 (two_tracked_calls first_call second_call (JStr ''done'')) outside ready)) =
             posts_to ''/api/ingest'' ready @ [JObj p1, JObj p2]
         \<and> field p1 ''step_index'' = JNum 1 \<and> field p2 ''step_index'' = JNum 2
         \<and> field p1 ''run_id'' = runId (heap ready 0) \<and> field p2 ''run_id'' = runId (heap ready 0))
     \<and> (\<exists>e.
           posts_to ''/api/runs/end''
             (snd (execute 0 (two_tracked_calls first_call second_call (JStr ''done'')) outside ready)) =
             posts_to ''/api/runs/end'' ready @ [JObj e]
         \<and> field e ''status'' = JStr ''completed'' \<and> field e ''run_id'' = runId (heap ready 0))"
    using t e h n by blast
  have r: "runId (heap ready 0) = JStr ''run-0''"
    by (simp add: ready_heap new_AgentRun_def field_Nil nc_def)
  show ?thesis
    using e h n 1 2 y
    by (simp add: r posts_to_fresh ready_facts new_AgentRun_fresh field_Nil nc_def)
qed

end
